theory Spec2Isabelle
  imports Main "HOL-Library.Word"
begin

section \<open>Windows types and constants used by io.hpp and io.cpp\<close>

text \<open>
  The program is written against the Windows socket and completion-port API. The API itself
  is not part of the repository: its types are modelled by machine words, its constants carry
  the values of the Windows SDK headers, and what each API call answers is an input of the
  model (the records \<open>call_answer\<close> and \<open>socket_answers\<close> below).
\<close>

type_synonym DWORD = "32 word"
type_synonym cint = "32 word"
type_synonym ULONG_PTR = "64 word"
type_synonym HANDLE = "64 word"
type_synonym SOCKET = "64 word"
type_synonym bytes = "8 word list"

definition ERROR_SUCCESS :: DWORD where
  "ERROR_SUCCESS = 0"

definition ERROR_IO_PENDING :: DWORD where
  "ERROR_IO_PENDING = 997"

definition INVALID_SOCKET :: SOCKET where
  "INVALID_SOCKET = - 1"

text \<open>io.cpp, lines 25-26: the two completion keys of the program.\<close>

definition KEY_RUN :: ULONG_PTR where
  "KEY_RUN = 0"

definition KEY_SHUTDOWN :: ULONG_PTR where
  "KEY_SHUTDOWN = 1"

text \<open>
  Exceptions are values. \<open>win32_error\<close> and \<open>winsock_error\<close> are the two exception classes
  of io.hpp; \<open>undefined_behaviour\<close> stands for a call through a null or dangling pointer,
  which C++ leaves undefined.
\<close>

datatype exn = win32_error DWORD | winsock_error DWORD | undefined_behaviour

section \<open>Operation contexts (io.hpp)\<close>

record OVERLAPPED =
  Internal :: ULONG_PTR
  InternalHigh :: ULONG_PTR
  Offset :: DWORD
  OffsetHigh :: DWORD
  hEvent :: HANDLE

text \<open>\<open>class op_context : public OVERLAPPED\<close>, io.hpp lines 51-64.\<close>

record op_context = OVERLAPPED +
  m_error :: DWORD

definition status :: "'a op_context_scheme \<Rightarrow> DWORD" where
  "status c = m_error c"

definition has_error :: "'a op_context_scheme \<Rightarrow> bool" where
  "has_error c = (status c \<noteq> ERROR_SUCCESS)"

definition check_error :: "'a op_context_scheme \<Rightarrow> exn + unit" where
  "check_error c = (if m_error c \<noteq> ERROR_SUCCESS then Inl (winsock_error (m_error c)) else Inr ())"

text \<open>\<open>op_context::init()\<close>: the OVERLAPPED part is overwritten by a zeroed OVERLAPPED.\<close>

definition init :: "'a OVERLAPPED_scheme \<Rightarrow> 'a OVERLAPPED_scheme" where
  "init c = c\<lparr>Internal := 0, InternalHigh := 0, Offset := 0, OffsetHigh := 0, hEvent := 0\<rparr>"

text \<open>\<open>op_context::completion_func()\<close> is the empty virtual function.\<close>

definition op_context_completion_func :: "'a op_context_scheme \<Rightarrow> 'a op_context_scheme" where
  "op_context_completion_func c = c"

text \<open>\<open>class socket_context : public op_context\<close>, io.hpp lines 68-82.\<close>

record socket_context = op_context +
  m_sock :: SOCKET
  m_transferred :: DWORD
  m_flags :: DWORD

definition transferred :: "'a socket_context_scheme \<Rightarrow> DWORD" where
  "transferred c = m_transferred c"

definition flags :: "'a socket_context_scheme \<Rightarrow> DWORD" where
  "flags c = m_flags c"

text \<open>\<open>socket_context::init(SOCKET sock)\<close>: \<open>m_sock = sock; return op_context::init();\<close>\<close>

definition init_sock :: "SOCKET \<Rightarrow> 'a socket_context_scheme \<Rightarrow> 'a socket_context_scheme" where
  "init_sock s c = init (c\<lparr>m_sock := s\<rparr>)"

text \<open>\<open>struct connect_context : socket_context\<close> adds no field, only its completion hook.\<close>

type_synonym connect_context = socket_context

text \<open>A socket address: the address family and the family-specific bytes.\<close>

record sockaddr =
  sa_family :: "16 word"
  sa_data :: bytes

text \<open>
  One node of the ADDRINFOEXW list. The list itself (\<open>ai_next\<close>) is a HOL list of nodes; a
  pointer to a node is the list that starts at this node, the null pointer is \<open>[]\<close>.
\<close>

record ADDRINFOEXW =
  ai_family :: cint
  ai_socktype :: cint
  ai_protocol :: cint
  ai_addrlen :: cint
  ai_addr :: sockaddr

text \<open>\<open>class resolve_context : public op_context\<close>, io.hpp lines 89-102.\<close>

record resolve_context = op_context +
  m_iocp :: HANDLE
  m_rawres :: "ADDRINFOEXW list"
  m_result :: "ADDRINFOEXW list"

definition result :: "'a resolve_context_scheme \<Rightarrow> ADDRINFOEXW list" where
  "result c = m_result c"

text \<open>
  \<open>template<typename BaseContext> class async_context : public BaseContext\<close>, io.hpp lines
  156-170: the base context and the operation to resume. The only async_op of the modelled
  world is the resolve-and-connect operation; \<open>invalid_op\<close> is any other pointer value.
\<close>

datatype op_ptr = rc_op | invalid_op

record 'b async_context =
  base :: 'b
  m_op :: op_ptr

definition async_context_ctor :: "op_ptr \<Rightarrow> 'b \<Rightarrow> 'b async_context" where
  "async_context_ctor op b = \<lparr>base = b, m_op = op\<rparr>"

text \<open>
  \<open>async_context::completion_func()\<close>: \<open>BaseContext::completion_func(); m_op->step();\<close>.
  The base hook and the virtual call \<open>p->step()\<close> are parameters; both act on the whole
  state \<open>'w\<close> in which the context lives and may raise.
\<close>

definition async_context_completion_func ::
  "('w \<Rightarrow> exn + 'w) \<Rightarrow> (op_ptr \<Rightarrow> 'w \<Rightarrow> exn + 'w) \<Rightarrow> 'b async_context \<Rightarrow> 'w \<Rightarrow> exn + 'w" where
  "async_context_completion_func base_completion_func vstep a w =
     (case base_completion_func w of
        Inl e \<Rightarrow> Inl e
      | Inr w' \<Rightarrow> vstep (m_op a) w')"


section \<open>The operating system as an input of the model\<close>

text \<open>
  What one API call answers: its return value, the value \<open>WSAGetLastError()\<close> or
  \<open>GetLastError()\<close> gives right after it, and the values it stored through its byte-count
  and flags out-parameters (\<open>None\<close>: the call stored nothing there).
\<close>

record call_answer =
  ret :: cint
  last_error :: DWORD
  bytes_out :: "DWORD option"
  flags_out :: "DWORD option"

text \<open>What the system answers to the calls made on one socket, from its creation on.\<close>

record socket_answers =
  ans_WSASocket :: SOCKET
  ans_WSASocket_error :: DWORD
  ans_CreateIoCompletionPort :: bool
  ans_SetFileCompletionNotificationModes :: bool
  ans_associate_error :: DWORD
  ans_bind :: call_answer
  ans_setsockopt :: call_answer
  ans_shutdown :: call_answer
  ans_WSAIoctl :: call_answer
  ans_AcceptEx :: call_answer
  ans_ConnectEx :: call_answer
  ans_DisconnectEx :: call_answer
  ans_WSASend :: call_answer
  ans_WSARecv :: call_answer
  ans_WSAGetOverlappedResult :: call_answer

text \<open>
  What the system answers to \<open>GetAddrInfoExW\<close>: the return value and the list stored through
  \<open>ppResult\<close> by the call itself, then, for a lookup that was pending, the error code handed
  to the completion routine and the list stored through \<open>ppResult\<close> before it runs.
\<close>

record resolve_answers =
  ans_GetAddrInfoExW :: cint
  ans_ppResult :: "ADDRINFOEXW list option"
  ans_lookup_error :: DWORD
  ans_lookup_ppResult :: "ADDRINFOEXW list option"

record WSABUF =
  len :: "32 word"
  buf :: "bytes option"

text \<open>The calls that create, configure, use or close a socket, and the resolver call, are logged.\<close>

datatype os_call =
    call_WSASocket cint cint cint
  | call_closesocket SOCKET
  | call_bind SOCKET sockaddr cint
  | call_setsockopt SOCKET
  | call_shutdown SOCKET cint
  | call_AcceptEx SOCKET SOCKET cint cint cint
  | call_ConnectEx SOCKET sockaddr cint "bytes option" cint
  | call_DisconnectEx SOCKET DWORD
  | call_WSASend SOCKET "WSABUF list" DWORD
  | call_WSARecv SOCKET "WSABUF list" DWORD
  | call_GetAddrInfoExW string string "ADDRINFOEXW option"

text \<open>
  One packet of the completion port. \<open>'p\<close> is the type of pointers to operation contexts;
  \<open>io_succeeded\<close> is the completion status (what \<open>GetQueuedCompletionStatus\<close> returns for
  the packet).
\<close>

record 'p OVERLAPPED_ENTRY =
  lpCompletionKey :: ULONG_PTR
  lpOverlapped :: "'p option"
  dwNumberOfBytesTransferred :: DWORD
  io_succeeded :: bool

text \<open>
  The completion port owned by \<open>io::service\<close> (its member \<open>m_iocp\<close>): the queued packets
  and whether a wait or a post on the port fails, with which error code.
\<close>

record 'p iocp =
  iocp_handle :: HANDLE
  iocp_queue :: "'p OVERLAPPED_ENTRY list"
  iocp_wait_error :: "DWORD option"
  iocp_post_error :: "DWORD option"

text \<open>
  The system state: the port, the log of calls, the answers for the sockets still to be
  created (one element per \<open>WSASocket\<close> call), the answers for calls on the socket created
  last, the resolver's answers, and the overlapped operations in flight.
\<close>

record 'p os_state = "'p iocp" +
  os_log :: "os_call list"
  os_sockets :: "socket_answers list"
  os_current :: socket_answers
  os_resolver :: resolve_answers
  os_inflight :: "'p list"

definition log_call :: "os_call \<Rightarrow> ('p, 'z) os_state_scheme \<Rightarrow> ('p, 'z) os_state_scheme" where
  "log_call c os = os\<lparr>os_log := os_log os @ [c]\<rparr>"

definition in_flight :: "'p \<Rightarrow> ('p, 'z) os_state_scheme \<Rightarrow> ('p, 'z) os_state_scheme" where
  "in_flight p os = os\<lparr>os_inflight := os_inflight os @ [p]\<rparr>"

definition no_answer :: call_answer where
  "no_answer = \<lparr>ret = 0, last_error = 0, bytes_out = None, flags_out = None\<rparr>"

text \<open>The answers once the list of scripted sockets is used up: no socket can be created.\<close>

definition no_socket :: socket_answers where
  "no_socket = \<lparr>ans_WSASocket = INVALID_SOCKET, ans_WSASocket_error = 0,
     ans_CreateIoCompletionPort = False, ans_SetFileCompletionNotificationModes = False,
     ans_associate_error = 0, ans_bind = no_answer, ans_setsockopt = no_answer,
     ans_shutdown = no_answer, ans_WSAIoctl = no_answer, ans_AcceptEx = no_answer,
     ans_ConnectEx = no_answer, ans_DisconnectEx = no_answer, ans_WSASend = no_answer,
     ans_WSARecv = no_answer, ans_WSAGetOverlappedResult = no_answer\<rparr>"

subsection \<open>The API calls\<close>

text \<open>
  \<open>WSASocket\<close> takes the next scripted socket; every later call on a socket is answered from
  the answers of the socket created last.
\<close>

definition WSASocket ::
  "cint \<Rightarrow> cint \<Rightarrow> cint \<Rightarrow> ('p, 'z) os_state_scheme \<Rightarrow> SOCKET \<times> ('p, 'z) os_state_scheme" where
  "WSASocket af socktype protocol os =
     (let a = (case os_sockets os of [] \<Rightarrow> no_socket | x # _ \<Rightarrow> x)
      in (ans_WSASocket a,
          log_call (call_WSASocket af socktype protocol)
            (os\<lparr>os_sockets := tl (os_sockets os), os_current := a\<rparr>)))"

definition closesocket :: "SOCKET \<Rightarrow> ('p, 'z) os_state_scheme \<Rightarrow> ('p, 'z) os_state_scheme" where
  "closesocket s os = log_call (call_closesocket s) os"

definition os_bind ::
  "SOCKET \<Rightarrow> sockaddr \<Rightarrow> cint \<Rightarrow> ('p, 'z) os_state_scheme \<Rightarrow> call_answer \<times> ('p, 'z) os_state_scheme" where
  "os_bind s name namelen os = (ans_bind (os_current os), log_call (call_bind s name namelen) os)"

definition os_setsockopt ::
  "SOCKET \<Rightarrow> ('p, 'z) os_state_scheme \<Rightarrow> call_answer \<times> ('p, 'z) os_state_scheme" where
  "os_setsockopt s os = (ans_setsockopt (os_current os), log_call (call_setsockopt s) os)"

definition os_shutdown ::
  "SOCKET \<Rightarrow> cint \<Rightarrow> ('p, 'z) os_state_scheme \<Rightarrow> call_answer \<times> ('p, 'z) os_state_scheme" where
  "os_shutdown s how os = (ans_shutdown (os_current os), log_call (call_shutdown s how) os)"

text \<open>\<open>WSAIoctl(SIO_GET_EXTENSION_FUNCTION_POINTER)\<close> only looks a function pointer up.\<close>

definition WSAIoctl :: "SOCKET \<Rightarrow> ('p, 'z) os_state_scheme \<Rightarrow> call_answer" where
  "WSAIoctl s os = ans_WSAIoctl (os_current os)"

text \<open>
  An overlapped call is logged; when it reports failure with \<open>ERROR_IO_PENDING\<close> the
  operation is in flight under the OVERLAPPED pointer it was given. (The socket constructor
  sets \<open>FILE_SKIP_COMPLETION_PORT_ON_SUCCESS\<close>, so a call that succeeds at once queues no
  packet.) \<open>failed\<close> says how the call reports failure: a BOOL call by 0, an int call by a
  value other than 0.
\<close>

definition overlapped_call ::
  "os_call \<Rightarrow> call_answer \<Rightarrow> bool \<Rightarrow> 'p \<Rightarrow> ('p, 'z) os_state_scheme
     \<Rightarrow> call_answer \<times> ('p, 'z) os_state_scheme" where
  "overlapped_call c a failed overlapped os =
     (a, if failed \<and> last_error a = ERROR_IO_PENDING
         then in_flight overlapped (log_call c os) else log_call c os)"

definition AcceptEx ::
  "SOCKET \<Rightarrow> SOCKET \<Rightarrow> cint \<Rightarrow> cint \<Rightarrow> cint \<Rightarrow> 'p \<Rightarrow> ('p, 'z) os_state_scheme
     \<Rightarrow> call_answer \<times> ('p, 'z) os_state_scheme" where
  "AcceptEx s accept_sock receive_len local_len remote_len overlapped os =
     (let a = ans_AcceptEx (os_current os)
      in overlapped_call (call_AcceptEx s accept_sock receive_len local_len remote_len)
           a (ret a = 0) overlapped os)"

definition ConnectEx ::
  "SOCKET \<Rightarrow> sockaddr \<Rightarrow> cint \<Rightarrow> bytes option \<Rightarrow> cint \<Rightarrow> 'p \<Rightarrow> ('p, 'z) os_state_scheme
     \<Rightarrow> call_answer \<times> ('p, 'z) os_state_scheme" where
  "ConnectEx s name namelen send_buffer send_len overlapped os =
     (let a = ans_ConnectEx (os_current os)
      in overlapped_call (call_ConnectEx s name namelen send_buffer send_len)
           a (ret a = 0) overlapped os)"

definition DisconnectEx ::
  "SOCKET \<Rightarrow> 'p \<Rightarrow> DWORD \<Rightarrow> ('p, 'z) os_state_scheme \<Rightarrow> call_answer \<times> ('p, 'z) os_state_scheme" where
  "DisconnectEx s overlapped dwFlags os =
     (let a = ans_DisconnectEx (os_current os)
      in overlapped_call (call_DisconnectEx s dwFlags) a (ret a = 0) overlapped os)"

definition WSASend ::
  "SOCKET \<Rightarrow> WSABUF list \<Rightarrow> DWORD \<Rightarrow> 'p \<Rightarrow> ('p, 'z) os_state_scheme
     \<Rightarrow> call_answer \<times> ('p, 'z) os_state_scheme" where
  "WSASend s buffers dwFlags overlapped os =
     (let a = ans_WSASend (os_current os)
      in overlapped_call (call_WSASend s buffers dwFlags) a (ret a \<noteq> 0) overlapped os)"

definition WSARecv ::
  "SOCKET \<Rightarrow> WSABUF list \<Rightarrow> DWORD \<Rightarrow> 'p \<Rightarrow> ('p, 'z) os_state_scheme
     \<Rightarrow> call_answer \<times> ('p, 'z) os_state_scheme" where
  "WSARecv s buffers dwFlags overlapped os =
     (let a = ans_WSARecv (os_current os)
      in overlapped_call (call_WSARecv s buffers dwFlags) a (ret a \<noteq> 0) overlapped os)"

text \<open>\<open>WSAGetOverlappedResult\<close> reads the outcome of a completed overlapped operation.\<close>

definition WSAGetOverlappedResult :: "SOCKET \<Rightarrow> ('p, 'z) os_state_scheme \<Rightarrow> call_answer" where
  "WSAGetOverlappedResult s os = ans_WSAGetOverlappedResult (os_current os)"

text \<open>
  \<open>PostQueuedCompletionStatus\<close> appends a packet to the port named by the handle. The model
  has one port; a post to any other handle, or a post the system refuses, fails.
\<close>

definition PostQueuedCompletionStatus ::
  "HANDLE \<Rightarrow> DWORD \<Rightarrow> ULONG_PTR \<Rightarrow> 'p option \<Rightarrow> ('p, 'z) iocp_scheme
     \<Rightarrow> (bool \<times> DWORD) \<times> ('p, 'z) iocp_scheme" where
  "PostQueuedCompletionStatus h n completion_key overlapped io =
     (case iocp_post_error io of
        Some e \<Rightarrow> ((False, e), io)
      | None \<Rightarrow>
          if h \<noteq> iocp_handle io then ((False, 6), io)
          else ((True, 0),
                io\<lparr>iocp_queue := iocp_queue io @
                  [\<lparr>lpCompletionKey = completion_key, lpOverlapped = overlapped,
                    dwNumberOfBytesTransferred = n, io_succeeded = True\<rparr>]\<rparr>))"

text \<open>
  \<open>GetQueuedCompletionStatus\<close> with an INFINITE timeout: \<open>None\<close> when the call never
  returns (the wait does not fail and no packet is queued); otherwise the BOOL result, the
  completion key, the OVERLAPPED pointer and the error code. A failed wait dequeues nothing
  and stores a null OVERLAPPED pointer.
\<close>

definition GetQueuedCompletionStatus ::
  "('p, 'z) iocp_scheme \<Rightarrow> ((bool \<times> ULONG_PTR \<times> 'p option \<times> DWORD) \<times> ('p, 'z) iocp_scheme) option" where
  "GetQueuedCompletionStatus io =
     (case iocp_wait_error io of
        Some e \<Rightarrow> Some ((False, 0, None, e), io)
      | None \<Rightarrow>
          (case iocp_queue io of
             [] \<Rightarrow> None
           | e # q \<Rightarrow>
               Some ((io_succeeded e, lpCompletionKey e, lpOverlapped e, 0),
                     io\<lparr>iocp_queue := q\<rparr>)))"

text \<open>
  \<open>GetQueuedCompletionStatusEx\<close> with an INFINITE timeout removes up to \<open>ulCount\<close> packets.
\<close>

definition GetQueuedCompletionStatusEx ::
  "nat \<Rightarrow> ('p, 'z) iocp_scheme
     \<Rightarrow> ((bool \<times> 'p OVERLAPPED_ENTRY list \<times> DWORD) \<times> ('p, 'z) iocp_scheme) option" where
  "GetQueuedCompletionStatusEx ulCount io =
     (case iocp_wait_error io of
        Some e \<Rightarrow> Some ((False, [], e), io)
      | None \<Rightarrow>
          (case iocp_queue io of
             [] \<Rightarrow> None
           | _ # _ \<Rightarrow>
               Some ((True, take ulCount (iocp_queue io), 0),
                     io\<lparr>iocp_queue := drop ulCount (iocp_queue io)\<rparr>)))"


text \<open>
  \<open>GetAddrInfoExW\<close> with an OVERLAPPED and a completion routine: the lookup is in flight when
  the call returns \<open>ERROR_IO_PENDING\<close>.
\<close>

definition GetAddrInfoExW ::
  "string \<Rightarrow> string \<Rightarrow> ADDRINFOEXW option \<Rightarrow> 'p \<Rightarrow> ('p, 'z) os_state_scheme
     \<Rightarrow> (cint \<times> ADDRINFOEXW list option) \<times> ('p, 'z) os_state_scheme" where
  "GetAddrInfoExW host service hints overlapped os =
     (let a = os_resolver os;
          os1 = log_call (call_GetAddrInfoExW host service hints) os
      in ((ans_GetAddrInfoExW a, ans_ppResult a),
          if ans_GetAddrInfoExW a = ERROR_IO_PENDING then in_flight overlapped os1 else os1))"

section \<open>The completion multiplexer: io::service (io.cpp lines 45-87)\<close>

text \<open>
  \<open>completion_func\<close> is the virtual call \<open>static_cast<op_context*>(p)->completion_func()\<close>,
  resolved for the context a pointer refers to. A result \<open>None\<close> means the call never
  returns (it blocks in the wait).
\<close>

definition service_run ::
  "('p \<Rightarrow> ('p, 'z) iocp_scheme \<Rightarrow> exn + ('p, 'z) iocp_scheme) \<Rightarrow> ('p, 'z) iocp_scheme
     \<Rightarrow> (exn + bool \<times> ('p, 'z) iocp_scheme) option" where
  "service_run completion_func io =
     (case GetQueuedCompletionStatus io of
        None \<Rightarrow> None
      | Some ((ok, completion_key, overlapped, err), io1) \<Rightarrow>
          Some (if \<not> ok \<and> overlapped = None then Inl (win32_error err)
                else if completion_key = KEY_SHUTDOWN then Inr (False, io1)
                else (case overlapped of
                        None \<Rightarrow> Inl undefined_behaviour
                      | Some p \<Rightarrow>
                          (case completion_func p io1 of
                             Inl e \<Rightarrow> Inl e
                           | Inr io2 \<Rightarrow> Inr (True, io2)))))"

text \<open>The \<open>for\<close> loop of \<open>run_many\<close> over the removed entries, with \<open>keep_running\<close>.\<close>

fun dispatch_entries ::
  "('p \<Rightarrow> 'w \<Rightarrow> exn + 'w) \<Rightarrow> 'p OVERLAPPED_ENTRY list \<Rightarrow> bool \<Rightarrow> 'w \<Rightarrow> exn + bool \<times> 'w" where
  "dispatch_entries completion_func [] keep_running w = Inr (keep_running, w)"
| "dispatch_entries completion_func (e # es) keep_running w =
     (if lpCompletionKey e = KEY_RUN
      then (case lpOverlapped e of
              None \<Rightarrow> Inl undefined_behaviour
            | Some p \<Rightarrow>
                (case completion_func p w of
                   Inl x \<Rightarrow> Inl x
                 | Inr w' \<Rightarrow> dispatch_entries completion_func es keep_running w'))
      else dispatch_entries completion_func es False w)"

definition service_run_many ::
  "('p \<Rightarrow> ('p, 'z) iocp_scheme \<Rightarrow> exn + ('p, 'z) iocp_scheme) \<Rightarrow> ('p, 'z) iocp_scheme
     \<Rightarrow> (exn + bool \<times> ('p, 'z) iocp_scheme) option" where
  "service_run_many completion_func io =
     (case GetQueuedCompletionStatusEx 16 io of
        None \<Rightarrow> None
      | Some ((ok, entries, err), io1) \<Rightarrow>
          Some (if \<not> ok then Inl (win32_error err)
                else dispatch_entries completion_func entries True io1))"

definition service_shutdown :: "('p, 'z) iocp_scheme \<Rightarrow> exn + ('p, 'z) iocp_scheme" where
  "service_shutdown io =
     (case PostQueuedCompletionStatus (iocp_handle io) 0 KEY_SHUTDOWN None io of
        ((ok, err), io1) \<Rightarrow> if \<not> ok then Inl (win32_error err) else Inr io1)"

section \<open>The socket handle: io::socket (io.cpp lines 100-320)\<close>

text \<open>
  \<open>class socket\<close> has the single member \<open>m_sock\<close>; a socket object is its SOCKET value.
  A primitive that takes a context by reference takes the context's address (\<open>p\<close>, the
  OVERLAPPED pointer the system is given) and its contents, and returns the new contents.
  Buffers the system only writes to (the receive buffer of AcceptEx) are left out.
\<close>

definition socket_ctor ::
  "cint \<Rightarrow> cint \<Rightarrow> cint \<Rightarrow> ('p, 'z) os_state_scheme \<Rightarrow> exn + SOCKET \<times> ('p, 'z) os_state_scheme" where
  "socket_ctor family socktype protocol os =
     (case WSASocket family socktype protocol os of
        (m, os1) \<Rightarrow>
          if m = INVALID_SOCKET then Inl (winsock_error (ans_WSASocket_error (os_current os1)))
          else if \<not> ans_CreateIoCompletionPort (os_current os1)
                  \<or> \<not> ans_SetFileCompletionNotificationModes (os_current os1)
          then Inl (win32_error (ans_associate_error (os_current os1)))
          else Inr (m, os1))"

definition socket_close ::
  "SOCKET \<Rightarrow> ('p, 'z) os_state_scheme \<Rightarrow> SOCKET \<times> ('p, 'z) os_state_scheme" where
  "socket_close m os =
     (INVALID_SOCKET, if m \<noteq> INVALID_SOCKET then closesocket m os else os)"

text \<open>
  \<open>socket& operator=(socket &&sock)\<close>: \<open>close(); m_sock = sock.m_sock;
  sock.m_sock = INVALID_SOCKET;\<close>. The source is a temporary whose destructor then finds
  INVALID_SOCKET and closes nothing.
\<close>

definition socket_move_assign ::
  "SOCKET \<Rightarrow> SOCKET \<Rightarrow> ('p, 'z) os_state_scheme \<Rightarrow> SOCKET \<times> ('p, 'z) os_state_scheme" where
  "socket_move_assign m src os = (src, snd (socket_close m os))"

definition try_set_option ::
  "SOCKET \<Rightarrow> ('p, 'z) os_state_scheme \<Rightarrow> bool \<times> ('p, 'z) os_state_scheme" where
  "try_set_option m os = (case os_setsockopt m os of (a, os1) \<Rightarrow> (ret a = 0, os1))"

definition set_option ::
  "SOCKET \<Rightarrow> ('p, 'z) os_state_scheme \<Rightarrow> exn + ('p, 'z) os_state_scheme" where
  "set_option m os =
     (case try_set_option m os of
        (ok, os1) \<Rightarrow>
          if \<not> ok then Inl (winsock_error (last_error (ans_setsockopt (os_current os))))
          else Inr os1)"

definition socket_bind ::
  "SOCKET \<Rightarrow> sockaddr \<Rightarrow> cint \<Rightarrow> ('p, 'z) os_state_scheme \<Rightarrow> exn + ('p, 'z) os_state_scheme" where
  "socket_bind m name name_len os =
     (case os_bind m name name_len os of
        (a, os1) \<Rightarrow> if ret a \<noteq> 0 then Inl (winsock_error (last_error a)) else Inr os1)"

definition socket_shutdown ::
  "SOCKET \<Rightarrow> cint \<Rightarrow> ('p, 'z) os_state_scheme \<Rightarrow> exn + ('p, 'z) os_state_scheme" where
  "socket_shutdown m how os =
     (case os_shutdown m how os of
        (a, os1) \<Rightarrow> if ret a \<noteq> 0 then Inl (winsock_error (last_error a)) else Inr os1)"

text \<open>The system writes the byte count through the pointer \<open>&ctx.m_transferred\<close>.\<close>

definition store_transferred ::
  "DWORD option \<Rightarrow> 'a socket_context_scheme \<Rightarrow> 'a socket_context_scheme" where
  "store_transferred b c = (case b of None \<Rightarrow> c | Some n \<Rightarrow> c\<lparr>m_transferred := n\<rparr>)"

definition accept_and_receive ::
  "SOCKET \<Rightarrow> SOCKET \<Rightarrow> cint \<Rightarrow> cint \<Rightarrow> cint \<Rightarrow> 'p \<Rightarrow> 'a socket_context_scheme
     \<Rightarrow> ('p, 'z) os_state_scheme \<Rightarrow> bool \<times> 'a socket_context_scheme \<times> ('p, 'z) os_state_scheme" where
  "accept_and_receive m sock receive_len local_len remote_len p ctx os =
     (let i = WSAIoctl m os in
      if ret i \<noteq> 0
      then (True, ctx\<lparr>m_error := last_error i, m_transferred := 0, m_flags := 0\<rparr>, os)
      else
        (case AcceptEx m sock receive_len local_len remote_len p os of
           (a, os1) \<Rightarrow>
             let ctx1 = store_transferred (bytes_out a) (init_sock m ctx) in
             if ret a \<noteq> 0 then (True, ctx1\<lparr>m_error := ERROR_SUCCESS, m_flags := 0\<rparr>, os1)
             else if last_error a = ERROR_IO_PENDING then (False, ctx1, os1)
             else (True, ctx1\<lparr>m_error := last_error a, m_flags := 0\<rparr>, os1)))"

definition connect_and_send ::
  "SOCKET \<Rightarrow> sockaddr \<Rightarrow> cint \<Rightarrow> bytes option \<Rightarrow> cint \<Rightarrow> 'p \<Rightarrow> 'a socket_context_scheme
     \<Rightarrow> ('p, 'z) os_state_scheme \<Rightarrow> bool \<times> 'a socket_context_scheme \<times> ('p, 'z) os_state_scheme" where
  "connect_and_send m name name_len buffer buffer_len p ctx os =
     (let i = WSAIoctl m os in
      if ret i \<noteq> 0
      then (True, ctx\<lparr>m_error := last_error i, m_transferred := 0, m_flags := 0\<rparr>, os)
      else
        (case ConnectEx m name name_len buffer buffer_len p os of
           (a, os1) \<Rightarrow>
             let ctx1 = store_transferred (bytes_out a) (init_sock m ctx) in
             if ret a \<noteq> 0 then (True, ctx1\<lparr>m_error := ERROR_SUCCESS, m_flags := 0\<rparr>, os1)
             else if last_error a = ERROR_IO_PENDING then (False, ctx1, os1)
             else (True, ctx1\<lparr>m_error := last_error a, m_flags := 0\<rparr>, os1)))"

definition connect ::
  "SOCKET \<Rightarrow> sockaddr \<Rightarrow> cint \<Rightarrow> 'p \<Rightarrow> 'a socket_context_scheme
     \<Rightarrow> ('p, 'z) os_state_scheme \<Rightarrow> bool \<times> 'a socket_context_scheme \<times> ('p, 'z) os_state_scheme" where
  "connect m name name_len p ctx os = connect_and_send m name name_len None 0 p ctx os"

text \<open>The WSABUF overload of \<open>send\<close> (io.cpp lines 230-249).\<close>

definition send_buffers ::
  "SOCKET \<Rightarrow> WSABUF list \<Rightarrow> DWORD \<Rightarrow> 'p \<Rightarrow> 'a socket_context_scheme
     \<Rightarrow> ('p, 'z) os_state_scheme \<Rightarrow> bool \<times> 'a socket_context_scheme \<times> ('p, 'z) os_state_scheme" where
  "send_buffers m buffers dwflags p ctx os =
     (case WSASend m buffers dwflags p os of
        (a, os1) \<Rightarrow>
          let ctx1 = store_transferred (bytes_out a) (init_sock m ctx) in
          if ret a = 0 then (True, ctx1\<lparr>m_error := ERROR_SUCCESS, m_flags := 0\<rparr>, os1)
          else if last_error a = ERROR_IO_PENDING then (False, ctx1, os1)
          else (True, ctx1\<lparr>m_error := last_error a, m_flags := 0\<rparr>, os1))"

text \<open>The single-buffer overload of \<open>send\<close> (io.cpp lines 221-228).\<close>

definition send ::
  "SOCKET \<Rightarrow> bytes option \<Rightarrow> cint \<Rightarrow> DWORD \<Rightarrow> 'p \<Rightarrow> 'a socket_context_scheme
     \<Rightarrow> ('p, 'z) os_state_scheme \<Rightarrow> bool \<times> 'a socket_context_scheme \<times> ('p, 'z) os_state_scheme" where
  "send m buffer buffer_len dwflags p ctx os =
     send_buffers m [\<lparr>len = buffer_len, buf = buffer\<rparr>] dwflags p ctx os"

text \<open>
  The WSABUF overload of \<open>receive\<close> (io.cpp lines 260-279). \<open>flags\<close> is passed by address;
  on success the context takes the value the call left in it.
\<close>

definition receive_buffers ::
  "SOCKET \<Rightarrow> WSABUF list \<Rightarrow> DWORD \<Rightarrow> 'p \<Rightarrow> 'a socket_context_scheme
     \<Rightarrow> ('p, 'z) os_state_scheme \<Rightarrow> bool \<times> 'a socket_context_scheme \<times> ('p, 'z) os_state_scheme" where
  "receive_buffers m buffers dwflags p ctx os =
     (case WSARecv m buffers dwflags p os of
        (a, os1) \<Rightarrow>
          let ctx1 = store_transferred (bytes_out a) (init_sock m ctx);
              flags1 = (case flags_out a of None \<Rightarrow> dwflags | Some f \<Rightarrow> f) in
          if ret a = 0 then (True, ctx1\<lparr>m_error := ERROR_SUCCESS, m_flags := flags1\<rparr>, os1)
          else if last_error a = ERROR_IO_PENDING then (False, ctx1, os1)
          else (True, ctx1\<lparr>m_error := last_error a, m_flags := 0\<rparr>, os1))"

text \<open>The single-buffer overload of \<open>receive\<close> (io.cpp lines 251-258).\<close>

definition receive ::
  "SOCKET \<Rightarrow> bytes option \<Rightarrow> cint \<Rightarrow> DWORD \<Rightarrow> 'p \<Rightarrow> 'a socket_context_scheme
     \<Rightarrow> ('p, 'z) os_state_scheme \<Rightarrow> bool \<times> 'a socket_context_scheme \<times> ('p, 'z) os_state_scheme" where
  "receive m buffer buffer_len dwflags p ctx os =
     receive_buffers m [\<lparr>len = buffer_len, buf = buffer\<rparr>] dwflags p ctx os"

definition TF_REUSE_SOCKET :: DWORD where
  "TF_REUSE_SOCKET = 2"

definition disconnect ::
  "SOCKET \<Rightarrow> bool \<Rightarrow> 'p \<Rightarrow> 'a socket_context_scheme
     \<Rightarrow> ('p, 'z) os_state_scheme \<Rightarrow> bool \<times> 'a socket_context_scheme \<times> ('p, 'z) os_state_scheme" where
  "disconnect m reuse p ctx os =
     (let i = WSAIoctl m os in
      if ret i \<noteq> 0
      then (True, ctx\<lparr>m_error := last_error i, m_transferred := 0, m_flags := 0\<rparr>, os)
      else
        (case DisconnectEx m p (if reuse then TF_REUSE_SOCKET else 0) os of
           (a, os1) \<Rightarrow>
             let ctx1 = init_sock m ctx in
             if ret a \<noteq> 0 then (True, ctx1\<lparr>m_error := ERROR_SUCCESS, m_flags := 0\<rparr>, os1)
             else if last_error a = ERROR_IO_PENDING then (False, ctx1, os1)
             else (True, ctx1\<lparr>m_error := last_error a, m_flags := 0\<rparr>, os1)))"

section \<open>Completion hooks of the contexts (io.cpp lines 95-98 and 210-219)\<close>

text \<open>
  \<open>socket_context::completion_func()\<close>: \<open>m_error = WSAGetOverlappedResult(m_sock, this,
  &m_transferred, FALSE, &m_flags) ? ERROR_SUCCESS : WSAGetLastError();\<close>
\<close>

definition socket_context_completion_func ::
  "'a socket_context_scheme \<Rightarrow> ('p, 'z) os_state_scheme \<Rightarrow> 'a socket_context_scheme" where
  "socket_context_completion_func ctx os =
     (let a = WSAGetOverlappedResult (m_sock ctx) os;
          ctx1 = store_transferred (bytes_out a) ctx;
          ctx2 = (case flags_out a of None \<Rightarrow> ctx1 | Some f \<Rightarrow> ctx1\<lparr>m_flags := f\<rparr>)
      in ctx2\<lparr>m_error := (if ret a \<noteq> 0 then ERROR_SUCCESS else last_error a)\<rparr>)"

text \<open>
  \<open>connect_context::completion_func()\<close>: the socket context's hook, then, if there is no
  error, \<open>setsockopt(SO_UPDATE_CONNECT_CONTEXT)\<close>, whose failure is thrown.
\<close>

definition connect_context_completion_func ::
  "'a socket_context_scheme \<Rightarrow> ('p, 'z) os_state_scheme
     \<Rightarrow> exn + 'a socket_context_scheme \<times> ('p, 'z) os_state_scheme" where
  "connect_context_completion_func ctx os =
     (let ctx1 = socket_context_completion_func ctx os in
      if \<not> has_error ctx1
      then (case os_setsockopt (m_sock ctx1) os of
              (a, os1) \<Rightarrow>
                if ret a \<noteq> 0 then Inl (winsock_error (last_error a)) else Inr (ctx1, os1))
      else Inr (ctx1, os))"

section \<open>Name resolution (io.cpp lines 322-366)\<close>

text \<open>\<open>resolve_helpers::resolve\<close>, which \<open>io::resolve\<close> forwards to.\<close>

definition resolve ::
  "string \<Rightarrow> string \<Rightarrow> ADDRINFOEXW option \<Rightarrow> 'p \<Rightarrow> 'a resolve_context_scheme
     \<Rightarrow> ('p, 'z) os_state_scheme \<Rightarrow> bool \<times> 'a resolve_context_scheme \<times> ('p, 'z) os_state_scheme" where
  "resolve hostname servicename hints p ctx os =
     (let ctx0 = init (ctx\<lparr>m_iocp := iocp_handle os\<rparr>) in
      case GetAddrInfoExW hostname servicename hints p os of
        ((err, stored), os1) \<Rightarrow>
          let ctx1 = (case stored of None \<Rightarrow> ctx0 | Some r \<Rightarrow> ctx0\<lparr>m_rawres := r\<rparr>) in
          if err = 0 then (True, ctx1\<lparr>m_error := ERROR_SUCCESS\<rparr>, os1)
          else if err = ERROR_IO_PENDING then (False, ctx1, os1)
          else (True, ctx1\<lparr>m_error := err\<rparr>, os1))"

text \<open>
  \<open>resolve_context::lookup_completion\<close>, the completion routine the system calls for a lookup
  that was pending, with the context its OVERLAPPED pointer refers to.
\<close>

definition lookup_completion ::
  "DWORD \<Rightarrow> 'p \<Rightarrow> 'a resolve_context_scheme \<Rightarrow> ('p, 'z) iocp_scheme
     \<Rightarrow> 'a resolve_context_scheme \<times> ('p, 'z) iocp_scheme" where
  "lookup_completion error p ctx io =
     (let ctx1 = (if error = ERROR_SUCCESS \<and> m_rawres ctx \<noteq> []
                  then ctx\<lparr>m_result := m_rawres ctx, m_rawres := []\<rparr> else ctx);
          ctx2 = ctx1\<lparr>m_error := error\<rparr>
      in (ctx2, snd (PostQueuedCompletionStatus (m_iocp ctx2) 0 KEY_RUN (Some p) io)))"


section \<open>The compound operation: io::resolve_and_connect_context (io.cpp lines 369-480)\<close>

datatype rc_state = on_start | on_resolve | on_connect

text \<open>
  \<open>class resolve_and_connect_context : public socket_context, public async_op\<close>, io.hpp lines
  172-193. The members \<open>svc\<close> and \<open>sock\<close> point to the caller's service and socket; the
  modelled world holds exactly one of each, so the two pointers are not stored.
\<close>

record resolve_and_connect_context = socket_context +
  state :: rc_state
  resolve_ctx :: "resolve_context async_context"
  connect_ctx :: "connect_context async_context"
  sync :: bool
  iter :: "ADDRINFOEXW list"
  hostname :: string
  servicename :: string
  buffer :: "bytes option"
  buffer_len :: cint

text \<open>
  The constructor binds both embedded contexts to \<open>this\<close>; the \<open>shared_ptr\<close> member
  \<open>m_result\<close> starts out null. The other members keep whatever the memory held.
\<close>

definition resolve_and_connect_context_ctor ::
  "resolve_and_connect_context \<Rightarrow> resolve_and_connect_context" where
  "resolve_and_connect_context_ctor raw =
     raw\<lparr>resolve_ctx := async_context_ctor rc_op ((base (resolve_ctx raw))\<lparr>m_result := []\<rparr>),
         connect_ctx := async_context_ctor rc_op (base (connect_ctx raw))\<rparr>"

text \<open>The contexts the system can hold an OVERLAPPED pointer to.\<close>

datatype ctx_ptr = resolve_ctx_ptr | connect_ctx_ptr

text \<open>
  The world of one compound operation: the system (with the service's completion port), the
  operation object \<open>rc\<close> and the caller's socket \<open>sock\<close>.
\<close>

record world = "ctx_ptr os_state" +
  rc :: resolve_and_connect_context
  sock :: SOCKET

definition set_resolve_ctx :: "resolve_context \<Rightarrow> world \<Rightarrow> world" where
  "set_resolve_ctx c w = w\<lparr>rc := (rc w)\<lparr>resolve_ctx := (resolve_ctx (rc w))\<lparr>base := c\<rparr>\<rparr>\<rparr>"

definition set_connect_ctx :: "connect_context \<Rightarrow> world \<Rightarrow> world" where
  "set_connect_ctx c w = w\<lparr>rc := (rc w)\<lparr>connect_ctx := (connect_ctx (rc w))\<lparr>base := c\<rparr>\<rparr>\<rparr>"

text \<open>
  The pieces of the loop body of \<open>step\<close>. \<open>open_and_bind\<close> is lines 401-407: a fresh
  socket of the candidate's family, type and protocol is move-assigned to \<open>*sock\<close> and bound
  to the zeroed \<open>sockaddr_storage\<close> of that family.
\<close>

definition open_and_bind :: "ADDRINFOEXW \<Rightarrow> world \<Rightarrow> exn + world" where
  "open_and_bind c w =
     (case socket_ctor (ai_family c) (ai_socktype c) (ai_protocol c) w of
        Inl e \<Rightarrow> Inl e
      | Inr (tmp, w1) \<Rightarrow>
          (case socket_move_assign (sock w1) tmp w1 of
             (m, w2) \<Rightarrow>
               socket_bind m \<lparr>sa_family = ucast (ai_family c), sa_data = replicate 126 0\<rparr>
                 (ai_addrlen c) (w2\<lparr>sock := m\<rparr>)))"

text \<open>
  Lines 409-410: \<open>state = on_connect;\<close> then \<open>sock->connect_and_send(iter->ai_addr,
  iter->ai_addrlen, buffer, buffer_len, connect_ctx)\<close>; the result says whether the call
  completed synchronously.
\<close>

definition issue_connect :: "ADDRINFOEXW \<Rightarrow> world \<Rightarrow> bool \<times> world" where
  "issue_connect c w =
     (case connect_and_send (sock w) (ai_addr c) (ai_addrlen c) (buffer (rc w))
             (buffer_len (rc w)) connect_ctx_ptr (base (connect_ctx (rc w)))
             (w\<lparr>rc := (rc w)\<lparr>state := on_connect\<rparr>\<rparr>) of
        (completed, ctx, w1) \<Rightarrow> (completed, set_connect_ctx ctx w1))"

text \<open>\<open>sock->close()\<close>.\<close>

definition close_sock :: "world \<Rightarrow> world" where
  "close_sock w = (case socket_close (sock w) w of (m, w1) \<Rightarrow> w1\<lparr>sock := m\<rparr>)"

text \<open>
  \<open>m_error = e; m_transferred = connect_ctx.transferred(); m_flags = connect_ctx.flags();\<close>
\<close>

definition record_outcome :: "DWORD \<Rightarrow> world \<Rightarrow> world" where
  "record_outcome e w =
     w\<lparr>rc := (rc w)\<lparr>m_error := e,
                    m_transferred := transferred (base (connect_ctx (rc w))),
                    m_flags := flags (base (connect_ctx (rc w)))\<rparr>\<rparr>"

text \<open>
  \<open>if (!sync) this->completion_func(); return;\<close> where \<open>cf\<close> is the virtual call
  \<open>this->completion_func()\<close>, resolved for the dynamic type of the operation object (empty
  for a plain resolve_and_connect_context, the caller's resume for an async_context around
  it).
\<close>

definition complete :: "(world \<Rightarrow> exn + world) \<Rightarrow> world \<Rightarrow> exn + world" where
  "complete cf w = (if \<not> sync (rc w) then cf w else Inr w)"

text \<open>
  The \<open>for\<close> loop of \<open>step\<close> (io.cpp lines 399-444) has two entry points: its condition
  (reached from \<open>on_resolve\<close> after \<open>iter\<close> is initialised, and by \<open>continue\<close> after
  \<open>iter = iter->ai_next\<close>) and the label \<open>case on_connect:\<close> inside its body.
\<close>

datatype loop_entry = loop_condition | label_on_connect

function for_loop :: "(world \<Rightarrow> exn + world) \<Rightarrow> loop_entry \<Rightarrow> world \<Rightarrow> exn + world" where
  "for_loop cf loop_condition w =
     (case iter (rc w) of
        [] \<Rightarrow> Inr w
      | c # rest \<Rightarrow>
          (case open_and_bind c w of
             Inl e \<Rightarrow> Inl e
           | Inr w1 \<Rightarrow>
               (case issue_connect c w1 of
                  (completed, w2) \<Rightarrow>
                    if \<not> completed then Inr (w2\<lparr>rc := (rc w2)\<lparr>sync := False\<rparr>\<rparr>)
                    else for_loop cf label_on_connect w2)))"
| "for_loop cf label_on_connect w =
     (if has_error (base (connect_ctx (rc w)))
      then
        (let w1 = close_sock w in
         case iter (rc w1) of
           [] \<Rightarrow> Inl undefined_behaviour
         | c # rest \<Rightarrow>
             if rest = []
             then complete cf (record_outcome (status (base (connect_ctx (rc w1)))) w1)
             else for_loop cf loop_condition (w1\<lparr>rc := (rc w1)\<lparr>iter := rest\<rparr>\<rparr>))
      else complete cf (record_outcome ERROR_SUCCESS w))"
  by pat_completeness auto
termination
  apply (relation "measure (\<lambda>(cf, e, w). 2 * length (iter (rc w))
                     + (case e of loop_condition \<Rightarrow> 1 | label_on_connect \<Rightarrow> 0))")
    apply simp
   apply (auto simp: open_and_bind_def issue_connect_def close_sock_def
      socket_ctor_def WSASocket_def socket_move_assign_def socket_close_def
      closesocket_def log_call_def socket_bind_def os_bind_def connect_and_send_def
      WSAIoctl_def ConnectEx_def overlapped_call_def in_flight_def set_connect_ctx_def Let_def
      split: if_splits prod.splits sum.splits)
  done

declare for_loop.simps [simp del]

text \<open>The code at \<open>case on_resolve:\<close> (io.cpp lines 387-399), up to the loop.\<close>

definition label_on_resolve :: "(world \<Rightarrow> exn + world) \<Rightarrow> world \<Rightarrow> exn + world" where
  "label_on_resolve cf w =
     (if has_error (base (resolve_ctx (rc w)))
      then complete cf
             (w\<lparr>rc := (rc w)\<lparr>m_error := status (base (resolve_ctx (rc w))),
                   m_transferred := 0, m_flags := 0\<rparr>\<rparr>)
      else for_loop cf loop_condition
             (w\<lparr>rc := (rc w)\<lparr>iter := result (base (resolve_ctx (rc w)))\<rparr>\<rparr>))"

text \<open>\<open>resolve_and_connect_context::step()\<close>: the \<open>switch\<close> on the resume point.\<close>

definition step :: "(world \<Rightarrow> exn + world) \<Rightarrow> world \<Rightarrow> exn + world" where
  "step cf w =
     (case state (rc w) of
        on_start \<Rightarrow>
          (case resolve (hostname (rc w)) (servicename (rc w)) None resolve_ctx_ptr
                  (base (resolve_ctx (rc w))) (w\<lparr>rc := (rc w)\<lparr>state := on_resolve\<rparr>\<rparr>) of
             (completed, ctx, w1) \<Rightarrow>
               if \<not> completed
               then Inr ((set_resolve_ctx ctx w1)
                      \<lparr>rc := (rc (set_resolve_ctx ctx w1))\<lparr>sync := False\<rparr>\<rparr>)
               else label_on_resolve cf (set_resolve_ctx ctx w1))
      | on_resolve \<Rightarrow> label_on_resolve cf w
      | on_connect \<Rightarrow> for_loop cf label_on_connect w)"

text \<open>The virtual call \<open>m_op->step()\<close> of a bound context of the world.\<close>

definition vstep :: "(world \<Rightarrow> exn + world) \<Rightarrow> op_ptr \<Rightarrow> world \<Rightarrow> exn + world" where
  "vstep cf p w = (case p of rc_op \<Rightarrow> step cf w | invalid_op \<Rightarrow> Inl undefined_behaviour)"

text \<open>
  The base hooks of the two embedded contexts, acting on the world: \<open>resolve_context\<close>
  inherits the empty \<open>op_context::completion_func\<close>; \<open>connect_context\<close> has its own.
\<close>

definition resolve_ctx_base_completion_func :: "world \<Rightarrow> exn + world" where
  "resolve_ctx_base_completion_func w =
     Inr (set_resolve_ctx (op_context_completion_func (base (resolve_ctx (rc w)))) w)"

definition connect_ctx_base_completion_func :: "world \<Rightarrow> exn + world" where
  "connect_ctx_base_completion_func w =
     (case connect_context_completion_func (base (connect_ctx (rc w))) w of
        Inl e \<Rightarrow> Inl e
      | Inr (c, w1) \<Rightarrow> Inr (set_connect_ctx c w1))"

text \<open>
  The virtual call \<open>completion_func()\<close> on the context an OVERLAPPED pointer refers to:
  both are \<open>async_context\<close>s.
\<close>

definition completion_func :: "(world \<Rightarrow> exn + world) \<Rightarrow> ctx_ptr \<Rightarrow> world \<Rightarrow> exn + world" where
  "completion_func cf p w =
     (case p of
        resolve_ctx_ptr \<Rightarrow>
          async_context_completion_func resolve_ctx_base_completion_func (vstep cf)
            (resolve_ctx (rc w)) w
      | connect_ctx_ptr \<Rightarrow>
          async_context_completion_func connect_ctx_base_completion_func (vstep cf)
            (connect_ctx (rc w)) w)"

text \<open>
  \<open>connect_and_send_helpers::connect_and_send\<close> (io.cpp lines 456-468), which both
  \<open>io::connect_and_send\<close> overloads forward to.
\<close>

definition io_connect_and_send ::
  "(world \<Rightarrow> exn + world) \<Rightarrow> string \<Rightarrow> string \<Rightarrow> bytes option \<Rightarrow> cint \<Rightarrow> world
     \<Rightarrow> exn + bool \<times> world" where
  "io_connect_and_send cf host service send_buffer send_len w =
     (case step cf (w\<lparr>rc := (rc w)\<lparr>hostname := host, servicename := service,
                        buffer := send_buffer, buffer_len := send_len,
                        state := on_start, sync := True\<rparr>\<rparr>) of
        Inl e \<Rightarrow> Inl e
      | Inr w1 \<Rightarrow> Inr (sync (rc w1), w1))"

section \<open>The environment that drives an operation\<close>

text \<open>
  The system completes the oldest operation in flight. A socket operation's packet is queued
  under the key the socket constructor registered (KEY_RUN). A lookup stores its list through
  \<open>ppResult\<close> (the context's \<open>m_rawres\<close>) and calls the completion routine.
\<close>

definition os_complete :: "world \<Rightarrow> world option" where
  "os_complete w =
     (case os_inflight w of
        [] \<Rightarrow> None
      | p # ps \<Rightarrow>
          Some (case p of
                  connect_ctx_ptr \<Rightarrow>
                    w\<lparr>os_inflight := ps,
                      iocp_queue := iocp_queue w @
                        [\<lparr>lpCompletionKey = KEY_RUN, lpOverlapped = Some connect_ctx_ptr,
                          dwNumberOfBytesTransferred = 0,
                          io_succeeded = (ret (ans_WSAGetOverlappedResult (os_current w)) \<noteq> 0)\<rparr>]\<rparr>
                | resolve_ctx_ptr \<Rightarrow>
                    (let c = base (resolve_ctx (rc w));
                         c1 = (case ans_lookup_ppResult (os_resolver w) of
                                 None \<Rightarrow> c | Some r \<Rightarrow> c\<lparr>m_rawres := r\<rparr>)
                     in case lookup_completion (ans_lookup_error (os_resolver w)) resolve_ctx_ptr c1
                               (w\<lparr>os_inflight := ps\<rparr>) of
                          (c2, w1) \<Rightarrow> set_resolve_ctx c2 w1)))"

text \<open>
  One round of the caller's loop \<open>while (svc.run_many())\<close> (main.cpp line 145) after the
  system has completed an operation; \<open>None\<close> when nothing is in flight or the wait blocks.
\<close>

definition deliver :: "(world \<Rightarrow> exn + world) \<Rightarrow> world \<Rightarrow> (exn + bool \<times> world) option" where
  "deliver cf w =
     (case os_complete w of
        None \<Rightarrow> None
      | Some w1 \<Rightarrow> service_run_many (completion_func cf) w1)"

fun drive :: "(world \<Rightarrow> exn + world) \<Rightarrow> nat \<Rightarrow> world \<Rightarrow> exn + world" where
  "drive cf 0 w = Inr w"
| "drive cf (Suc n) w =
     (case deliver cf w of
        None \<Rightarrow> Inr w
      | Some (Inl e) \<Rightarrow> Inl e
      | Some (Inr (keep_running, w1)) \<Rightarrow> if keep_running then drive cf n w1 else Inr w1)"

definition then_drive :: "(world \<Rightarrow> exn + world) \<Rightarrow> nat \<Rightarrow> exn + world \<Rightarrow> exn + world" where
  "then_drive cf n r = (case r of Inl e \<Rightarrow> Inl e | Inr w \<Rightarrow> drive cf n w)"


section \<open>Notions used in the statements\<close>

text \<open>A primitive returned true and left the error code \<open>e\<close> and the flags 0 in the context.\<close>

definition completed_with_error :: "bool \<times> 'a socket_context_scheme \<times> 'o \<Rightarrow> DWORD \<Rightarrow> bool" where
  "completed_with_error r e = (fst r \<and> m_error (fst (snd r)) = e \<and> m_flags (fst (snd r)) = 0)"

text \<open>
  The hooks of the given contexts, invoked one after the other; the first exception ends the
  sequence, as a C++ exception leaves the loop of \<open>run_many\<close>.
\<close>

fun invoke_all :: "('p \<Rightarrow> 'w \<Rightarrow> exn + 'w) \<Rightarrow> 'p list \<Rightarrow> 'w \<Rightarrow> exn + 'w" where
  "invoke_all hook [] w = Inr w"
| "invoke_all hook (p # ps) w =
     (case hook p w of Inl e \<Rightarrow> Inl e | Inr w' \<Rightarrow> invoke_all hook ps w')"

text \<open>The contexts of the entries of a batch that carry KEY_RUN, in the order of the batch.\<close>

definition run_contexts :: "'p OVERLAPPED_ENTRY list \<Rightarrow> 'p list" where
  "run_contexts es =
     concat (map (\<lambda>e. if lpCompletionKey e = KEY_RUN
                       then (case lpOverlapped e of None \<Rightarrow> [] | Some p \<Rightarrow> [p]) else []) es)"

text \<open>The packet \<open>service::shutdown\<close> posts.\<close>

definition shutdown_sentinel :: "'p OVERLAPPED_ENTRY" where
  "shutdown_sentinel = \<lparr>lpCompletionKey = KEY_SHUTDOWN, lpOverlapped = None,
     dwNumberOfBytesTransferred = 0, io_succeeded = True\<rparr>"

subsection \<open>What the system answers to one connection attempt\<close>

text \<open>
  The socket of an attempt can be created, associated with the port and bound, so that the
  loop body reaches \<open>connect_and_send\<close>.
\<close>

definition socket_ready :: "socket_answers \<Rightarrow> bool" where
  "socket_ready a = (ans_WSASocket a \<noteq> INVALID_SOCKET \<and> ans_CreateIoCompletionPort a
     \<and> ans_SetFileCompletionNotificationModes a \<and> ret (ans_bind a) = 0)"

text \<open>\<open>ConnectEx\<close> is found and answers ERROR_IO_PENDING: the attempt completes later.\<close>

definition connect_pending :: "socket_answers \<Rightarrow> bool" where
  "connect_pending a = (ret (ans_WSAIoctl a) = 0 \<and> ret (ans_ConnectEx a) = 0
     \<and> last_error (ans_ConnectEx a) = ERROR_IO_PENDING)"

text \<open>
  The error code the system reports for the connect of an attempt: from the lookup of
  \<open>ConnectEx\<close>, from \<open>ConnectEx\<close> itself, or from \<open>WSAGetOverlappedResult\<close> after a
  pending connect; ERROR_SUCCESS when it reports none.
\<close>

definition connect_error :: "socket_answers \<Rightarrow> DWORD" where
  "connect_error a =
     (if ret (ans_WSAIoctl a) \<noteq> 0 then last_error (ans_WSAIoctl a)
      else if ret (ans_ConnectEx a) \<noteq> 0 then ERROR_SUCCESS
      else if last_error (ans_ConnectEx a) \<noteq> ERROR_IO_PENDING then last_error (ans_ConnectEx a)
      else if ret (ans_WSAGetOverlappedResult a) \<noteq> 0 then ERROR_SUCCESS
      else last_error (ans_WSAGetOverlappedResult a))"

text \<open>A candidate fails: its socket is set up and its connect reports an error.\<close>

definition connect_fails :: "socket_answers \<Rightarrow> bool" where
  "connect_fails a = (socket_ready a \<and> connect_error a \<noteq> ERROR_SUCCESS)"

text \<open>
  A candidate succeeds: its socket is set up and its connect completes without error, at once
  or later; after a later completion the post-connect fixup succeeds as well.
\<close>

definition connect_succeeds :: "socket_answers \<Rightarrow> bool" where
  "connect_succeeds a =
     (socket_ready a \<and> ret (ans_WSAIoctl a) = 0
      \<and> (ret (ans_ConnectEx a) \<noteq> 0
          \<or> (last_error (ans_ConnectEx a) = ERROR_IO_PENDING
              \<and> ret (ans_WSAGetOverlappedResult a) \<noteq> 0 \<and> ret (ans_setsockopt a) = 0)))"

text \<open>The content of a DWORD after a call that may have stored a value through its address.\<close>

definition stored :: "DWORD option \<Rightarrow> DWORD \<Rightarrow> DWORD" where
  "stored b old = (case b of None \<Rightarrow> old | Some n \<Rightarrow> n)"

text \<open>
  The byte count and the flags the connect context holds after the attempt with the answers
  \<open>a\<close>, when it held \<open>old\<close> before: 0 if \<open>ConnectEx\<close> could not be obtained; otherwise
  the byte count is what \<open>ConnectEx\<close> stored through \<open>&ctx.m_transferred\<close> and, after a
  pending connect, what \<open>WSAGetOverlappedResult\<close> stored over it; the flags are 0 after a
  connect that completed at once and what \<open>WSAGetOverlappedResult\<close> stored after a pending
  one.
\<close>

definition attempt_bytes :: "socket_answers \<Rightarrow> DWORD \<Rightarrow> DWORD" where
  "attempt_bytes a old =
     (if ret (ans_WSAIoctl a) \<noteq> 0 then 0
      else if connect_pending a
           then stored (bytes_out (ans_WSAGetOverlappedResult a))
                  (stored (bytes_out (ans_ConnectEx a)) old)
           else stored (bytes_out (ans_ConnectEx a)) old)"

definition attempt_flags :: "socket_answers \<Rightarrow> DWORD \<Rightarrow> DWORD" where
  "attempt_flags a old =
     (if ret (ans_WSAIoctl a) \<noteq> 0 then 0
      else if connect_pending a then stored (flags_out (ans_WSAGetOverlappedResult a)) old
      else 0)"

text \<open>The same after one attempt per element of a list of answers, in order.\<close>

fun bytes_after :: "socket_answers list \<Rightarrow> DWORD \<Rightarrow> DWORD" where
  "bytes_after [] old = old"
| "bytes_after (a # as) old = bytes_after as (attempt_bytes a old)"

fun flags_after :: "socket_answers list \<Rightarrow> DWORD \<Rightarrow> DWORD" where
  "flags_after [] old = old"
| "flags_after (a # as) old = flags_after as (attempt_flags a old)"

text \<open>Both embedded contexts are bound to the operation object, as the constructor leaves them.\<close>

definition bound_to_rc :: "world \<Rightarrow> bool" where
  "bound_to_rc w = (m_op (resolve_ctx (rc w)) = rc_op \<and> m_op (connect_ctx (rc w)) = rc_op)"

text \<open>Nothing is in flight, no packet is queued and waits on the port do not fail.\<close>

definition quiet :: "world \<Rightarrow> bool" where
  "quiet w = (os_inflight w = [] \<and> iocp_queue w = [] \<and> iocp_wait_error w = None)"

subsection \<open>The calls of one connection attempt\<close>

text \<open>
  Creating the candidate's socket, closing the socket \<open>old\<close> that \<open>*sock\<close> held (the move
  assignment; nothing to close for INVALID_SOCKET) and binding the new one.
\<close>

definition opening_calls :: "SOCKET \<Rightarrow> ADDRINFOEXW \<Rightarrow> socket_answers \<Rightarrow> os_call list" where
  "opening_calls old c a =
     call_WSASocket (ai_family c) (ai_socktype c) (ai_protocol c)
     # (if old \<noteq> INVALID_SOCKET then [call_closesocket old] else [])
     @ [call_bind (ans_WSASocket a) \<lparr>sa_family = ucast (ai_family c), sa_data = replicate 126 0\<rparr>
         (ai_addrlen c)]"

text \<open>The \<open>ConnectEx\<close> call to the candidate's address, made when the function is found.\<close>

definition connect_calls :: "bytes option \<Rightarrow> cint \<Rightarrow> ADDRINFOEXW \<Rightarrow> socket_answers \<Rightarrow> os_call list" where
  "connect_calls b n c a =
     (if ret (ans_WSAIoctl a) = 0
      then [call_ConnectEx (ans_WSASocket a) (ai_addr c) (ai_addrlen c) b n] else [])"

text \<open>A failed attempt ends with closing the candidate's socket.\<close>

definition failed_attempt_calls ::
  "bytes option \<Rightarrow> cint \<Rightarrow> SOCKET \<Rightarrow> ADDRINFOEXW \<Rightarrow> socket_answers \<Rightarrow> os_call list" where
  "failed_attempt_calls b n old c a =
     opening_calls old c a @ connect_calls b n c a @ [call_closesocket (ans_WSASocket a)]"

text \<open>
  One failed attempt per candidate, in the order of the list; after the first one \<open>*sock\<close>
  is closed when the next socket is assigned.
\<close>

fun failed_attempts_log ::
  "bytes option \<Rightarrow> cint \<Rightarrow> SOCKET \<Rightarrow> ADDRINFOEXW list \<Rightarrow> socket_answers list \<Rightarrow> os_call list" where
  "failed_attempts_log b n old (c # cs) (a # as) =
     failed_attempt_calls b n old c a @ failed_attempts_log b n INVALID_SOCKET cs as"
| "failed_attempts_log b n old _ _ = []"

text \<open>
  A successful attempt leaves its socket open; the fixup's \<open>setsockopt\<close> is called from the
  hook, hence only for a connect that was pending.
\<close>

definition successful_attempt_calls ::
  "bytes option \<Rightarrow> cint \<Rightarrow> SOCKET \<Rightarrow> ADDRINFOEXW \<Rightarrow> socket_answers \<Rightarrow> os_call list" where
  "successful_attempt_calls b n old c a =
     opening_calls old c a @ connect_calls b n c a
     @ (if connect_pending a then [call_setsockopt (ans_WSASocket a)] else [])"

subsection \<open>The worlds a run of the loop leaves\<close>

text \<open>The operation's byte count and flags are those of its connect context.\<close>

definition outcome_of_connect_ctx :: "world \<Rightarrow> bool" where
  "outcome_of_connect_ctx w =
     (m_transferred (rc w) = m_transferred (base (connect_ctx (rc w)))
      \<and> m_flags (rc w) = m_flags (base (connect_ctx (rc w))))"

text \<open>
  \<open>w'\<close> is \<open>w\<close> after a failed attempt on the first candidate that is not the last one: the
  loop is about to try the next candidate with the next scripted socket.
\<close>

definition after_failed_attempt :: "world \<Rightarrow> world \<Rightarrow> bool" where
  "after_failed_attempt w w' =
     (iter (rc w') = tl (iter (rc w)) \<and> os_sockets w' = tl (os_sockets w)
      \<and> os_log w' = os_log w @ failed_attempt_calls (buffer (rc w)) (buffer_len (rc w)) (sock w)
                                  (hd (iter (rc w))) (hd (os_sockets w))
      \<and> sock w' = INVALID_SOCKET
      \<and> buffer (rc w') = buffer (rc w) \<and> buffer_len (rc w') = buffer_len (rc w)
      \<and> sync (rc w') = (sync (rc w) \<and> \<not> connect_pending (hd (os_sockets w)))
      \<and> m_transferred (base (connect_ctx (rc w')))
          = attempt_bytes (hd (os_sockets w)) (m_transferred (base (connect_ctx (rc w))))
      \<and> m_flags (base (connect_ctx (rc w')))
          = attempt_flags (hd (os_sockets w)) (m_flags (base (connect_ctx (rc w))))
      \<and> bound_to_rc w' \<and> quiet w')"

text \<open>\<open>w'\<close> is \<open>w\<close> after a failed attempt on the only candidate left.\<close>

definition after_last_failed_attempt :: "world \<Rightarrow> world \<Rightarrow> bool" where
  "after_last_failed_attempt w w' =
     (m_error (rc w') = connect_error (hd (os_sockets w))
      \<and> m_transferred (rc w')
          = attempt_bytes (hd (os_sockets w)) (m_transferred (base (connect_ctx (rc w))))
      \<and> m_flags (rc w')
          = attempt_flags (hd (os_sockets w)) (m_flags (base (connect_ctx (rc w))))
      \<and> outcome_of_connect_ctx w'
      \<and> os_sockets w' = tl (os_sockets w)
      \<and> os_log w' = os_log w @ failed_attempt_calls (buffer (rc w)) (buffer_len (rc w)) (sock w)
                                  (hd (iter (rc w))) (hd (os_sockets w))
      \<and> sock w' = INVALID_SOCKET
      \<and> sync (rc w') = (sync (rc w) \<and> \<not> connect_pending (hd (os_sockets w)))
      \<and> quiet w')"

text \<open>\<open>w'\<close> is \<open>w\<close> after a successful attempt on the first candidate.\<close>

definition after_successful_attempt :: "world \<Rightarrow> world \<Rightarrow> bool" where
  "after_successful_attempt w w' =
     (m_error (rc w') = ERROR_SUCCESS
      \<and> m_error (base (connect_ctx (rc w'))) = ERROR_SUCCESS
      \<and> m_transferred (rc w')
          = attempt_bytes (hd (os_sockets w)) (m_transferred (base (connect_ctx (rc w))))
      \<and> m_flags (rc w')
          = attempt_flags (hd (os_sockets w)) (m_flags (base (connect_ctx (rc w))))
      \<and> outcome_of_connect_ctx w'
      \<and> iter (rc w') = iter (rc w)
      \<and> os_sockets w' = tl (os_sockets w)
      \<and> os_log w' = os_log w @ successful_attempt_calls (buffer (rc w)) (buffer_len (rc w)) (sock w)
                                  (hd (iter (rc w))) (hd (os_sockets w))
      \<and> sock w' = ans_WSASocket (hd (os_sockets w))
      \<and> sync (rc w') = (sync (rc w) \<and> \<not> connect_pending (hd (os_sockets w)))
      \<and> quiet w')"

text \<open>
  \<open>w'\<close> is \<open>w\<close> after every candidate of \<open>cands\<close> was tried once, in order, with the
  scripted sockets \<open>as\<close>, and failed: the outcome is the error of the last attempt with the
  connect context's byte count and flags, the calls made are exactly those of the failed
  attempts (each ending with the close of its socket), exactly \<open>length as\<close> sockets were
  created, \<open>*sock\<close> is closed, and nothing is left in flight.
\<close>

definition all_failed :: "world \<Rightarrow> ADDRINFOEXW list \<Rightarrow> socket_answers list \<Rightarrow> world \<Rightarrow> bool" where
  "all_failed w cands as w' =
     (m_error (rc w') = connect_error (last as)
      \<and> m_transferred (rc w') = bytes_after as (m_transferred (base (connect_ctx (rc w))))
      \<and> m_flags (rc w') = flags_after as (m_flags (base (connect_ctx (rc w))))
      \<and> outcome_of_connect_ctx w'
      \<and> os_sockets w' = drop (length as) (os_sockets w)
      \<and> os_log w' = os_log w @ failed_attempts_log (buffer (rc w)) (buffer_len (rc w)) (sock w)
                                  cands as
      \<and> sock w' = INVALID_SOCKET
      \<and> sync (rc w') = (sync (rc w) \<and> (\<forall>a \<in> set as. \<not> connect_pending a))
      \<and> quiet w')"

text \<open>
  \<open>w'\<close> is \<open>w\<close> after the candidates \<open>fs\<close> were tried once each, in order, with the
  scripted sockets \<open>fas\<close>, and failed, and the next candidate \<open>c\<close> succeeded with the
  socket \<open>a\<close>: the outcome is ERROR_SUCCESS with the connect context's byte count and flags,
  the iteration stands at \<open>c\<close>, the calls made are those of the failed attempts followed by
  those of the successful one, \<open>*sock\<close> is the socket of \<open>c\<close>, and one socket per tried
  candidate was created.
\<close>

definition succeeded_after ::
  "world \<Rightarrow> ADDRINFOEXW list \<Rightarrow> socket_answers list \<Rightarrow> ADDRINFOEXW \<Rightarrow> ADDRINFOEXW list
     \<Rightarrow> socket_answers \<Rightarrow> world \<Rightarrow> bool" where
  "succeeded_after w fs fas c rest a w' =
     (m_error (rc w') = ERROR_SUCCESS
      \<and> m_error (base (connect_ctx (rc w'))) = ERROR_SUCCESS
      \<and> m_transferred (rc w')
          = attempt_bytes a (bytes_after fas (m_transferred (base (connect_ctx (rc w)))))
      \<and> m_flags (rc w')
          = attempt_flags a (flags_after fas (m_flags (base (connect_ctx (rc w)))))
      \<and> outcome_of_connect_ctx w'
      \<and> iter (rc w') = c # rest
      \<and> os_sockets w' = drop (Suc (length fas)) (os_sockets w)
      \<and> os_log w' = os_log w
           @ failed_attempts_log (buffer (rc w)) (buffer_len (rc w)) (sock w) fs fas
           @ successful_attempt_calls (buffer (rc w)) (buffer_len (rc w))
               (if fs = [] then sock w else INVALID_SOCKET) c a
      \<and> sock w' = ans_WSASocket a
      \<and> sync (rc w') = (sync (rc w) \<and> (\<forall>x \<in> set fas. \<not> connect_pending x) \<and> \<not> connect_pending a)
      \<and> quiet w')"

subsection \<open>Name resolution inside the compound operation\<close>

text \<open>\<open>GetAddrInfoExW\<close> answers ERROR_IO_PENDING: the lookup completes later.\<close>

definition resolve_pending :: "resolve_answers \<Rightarrow> bool" where
  "resolve_pending r = (ans_GetAddrInfoExW r = ERROR_IO_PENDING)"

text \<open>
  The error code the system reports for the resolution: the return value of
  \<open>GetAddrInfoExW\<close>, or for a pending lookup the code handed to the completion routine.
\<close>

definition resolve_error :: "resolve_answers \<Rightarrow> DWORD" where
  "resolve_error r = (if resolve_pending r then ans_lookup_error r else ans_GetAddrInfoExW r)"

text \<open>
  The list \<open>resolve_ctx.result()\<close> gives once the resolution, started on the context \<open>c\<close>,
  has completed. Only the completion routine of a pending lookup assigns \<open>m_result\<close>, from
  the list the system stored through \<open>ppResult\<close> if that list is not null; a lookup that
  completes at once leaves \<open>m_result\<close> as it was.
\<close>

definition resolved_candidates :: "resolve_answers \<Rightarrow> resolve_context \<Rightarrow> ADDRINFOEXW list" where
  "resolved_candidates r c =
     (if resolve_pending r
      then (let raw = (case ans_lookup_ppResult r of
                         Some x \<Rightarrow> x
                       | None \<Rightarrow> (case ans_ppResult r of Some x \<Rightarrow> x | None \<Rightarrow> m_rawres c))
            in if ans_lookup_error r = ERROR_SUCCESS \<and> raw \<noteq> [] then raw else m_result c)
      else m_result c)"

text \<open>The assignments of \<open>connect_and_send_helpers::connect_and_send\<close> before \<open>ctx.step()\<close>.\<close>

definition started :: "string \<Rightarrow> string \<Rightarrow> bytes option \<Rightarrow> cint \<Rightarrow> world \<Rightarrow> world" where
  "started host service b n w =
     w\<lparr>rc := (rc w)\<lparr>hostname := host, servicename := service, buffer := b, buffer_len := n,
                    state := on_start, sync := True\<rparr>\<rparr>"

text \<open>
  The resolve context when \<open>resolve\<close> has made its call: \<open>m_iocp\<close> set, the OVERLAPPED part
  zeroed, \<open>m_rawres\<close> as the call stored it.
\<close>

definition resolved_ctx :: "resolve_answers \<Rightarrow> HANDLE \<Rightarrow> resolve_context \<Rightarrow> resolve_context" where
  "resolved_ctx r h c =
     (init (c\<lparr>m_iocp := h\<rparr>))\<lparr>m_rawres := (case ans_ppResult r of None \<Rightarrow> m_rawres c | Some x \<Rightarrow> x)\<rparr>"

text \<open>The resolve context when the completion routine of a pending lookup has run on it.\<close>

definition looked_up :: "resolve_answers \<Rightarrow> resolve_context \<Rightarrow> resolve_context" where
  "looked_up r c =
     (let c1 = (case ans_lookup_ppResult r of None \<Rightarrow> c | Some x \<Rightarrow> c\<lparr>m_rawres := x\<rparr>);
          c2 = (if ans_lookup_error r = ERROR_SUCCESS \<and> m_rawres c1 \<noteq> []
                then c1\<lparr>m_result := m_rawres c1, m_rawres := []\<rparr> else c1)
      in c2\<lparr>m_error := ans_lookup_error r\<rparr>)"

text \<open>
  The world in which \<open>connect_and_send\<close> returns when the lookup is pending: the first
  branch of \<open>step\<close>, \<open>sync = false; return;\<close>.
\<close>

definition suspended_on_resolve ::
  "string \<Rightarrow> string \<Rightarrow> bytes option \<Rightarrow> cint \<Rightarrow> world \<Rightarrow> world" where
  "suspended_on_resolve host service b n w =
     (let w0 = started host service b n w in
      case resolve host service None resolve_ctx_ptr (base (resolve_ctx (rc w0)))
             (w0\<lparr>rc := (rc w0)\<lparr>state := on_resolve\<rparr>\<rparr>) of
        (completed, ctx, w1) \<Rightarrow>
          (set_resolve_ctx ctx w1)\<lparr>rc := (rc (set_resolve_ctx ctx w1))\<lparr>sync := False\<rparr>\<rparr>)"

text \<open>
  The world in which the hook of the resolve context is invoked: the completion routine has
  run and its packet has been removed from the port.
\<close>

definition lookup_delivered :: "world \<Rightarrow> world" where
  "lookup_delivered w =
     set_resolve_ctx (looked_up (os_resolver w) (base (resolve_ctx (rc w))))
       (w\<lparr>os_inflight := [], iocp_queue := []\<rparr>)"

text \<open>
  \<open>w'\<close> is \<open>w\<close> after the operation ended with the resolution's error: the outcome is that
  error with 0 bytes and flags 0; the only call made is \<open>GetAddrInfoExW\<close>, so no socket was
  created, bound or closed, and no scripted socket was used; nothing is left in flight.
\<close>

definition resolution_failed :: "string \<Rightarrow> string \<Rightarrow> world \<Rightarrow> world \<Rightarrow> bool" where
  "resolution_failed host service w w' =
     (m_error (rc w') = resolve_error (os_resolver w)
      \<and> m_transferred (rc w') = 0 \<and> m_flags (rc w') = 0
      \<and> os_log w' = os_log w @ [call_GetAddrInfoExW host service None]
      \<and> os_sockets w' = os_sockets w \<and> os_current w' = os_current w \<and> sock w' = sock w
      \<and> quiet w')"

text \<open>The three outcome fields of the operation object are those of \<open>w\<close>.\<close>

definition outcome_untouched :: "world \<Rightarrow> world \<Rightarrow> bool" where
  "outcome_untouched w w' =
     (m_error (rc w') = m_error (rc w) \<and> m_transferred (rc w') = m_transferred (rc w)
      \<and> m_flags (rc w') = m_flags (rc w))"

text \<open>
  \<open>w'\<close> is \<open>w\<close> after \<open>step\<close> found no candidate: the outcome fields are untouched, the
  only call made is \<open>GetAddrInfoExW\<close>, and nothing is left in flight or queued.
\<close>

definition no_candidates_left :: "string \<Rightarrow> string \<Rightarrow> world \<Rightarrow> world \<Rightarrow> bool" where
  "no_candidates_left host service w w' =
     (outcome_untouched w w'
      \<and> os_log w' = os_log w @ [call_GetAddrInfoExW host service None]
      \<and> os_sockets w' = os_sockets w \<and> sock w' = sock w
      \<and> quiet w')"

subsection \<open>The owner of the embedded contexts\<close>

text \<open>The \<open>m_op\<close> members of the two embedded contexts.\<close>

definition binding :: "world \<Rightarrow> op_ptr \<times> op_ptr" where
  "binding w = (m_op (resolve_ctx (rc w)), m_op (connect_ctx (rc w)))"

subsection \<open>The worlds the whole operation leaves\<close>

text \<open>
  \<open>w'\<close> is \<open>w\<close> after \<open>connect_and_send\<close> with the given arguments, a lookup that handed
  over \<open>cands\<close>, and one failed attempt per candidate with the scripted sockets \<open>as\<close>: the
  outcome is the error of the last attempt with the byte count and flags the attempts left in
  the connect context; the calls made are the lookup and the failed attempts, in order;
  \<open>*sock\<close> is closed and nothing is left in flight.
\<close>

definition operation_failed ::
  "string \<Rightarrow> string \<Rightarrow> bytes option \<Rightarrow> cint \<Rightarrow> world \<Rightarrow> ADDRINFOEXW list
     \<Rightarrow> socket_answers list \<Rightarrow> world \<Rightarrow> bool" where
  "operation_failed host service b n w cands as w' =
     (m_error (rc w') = connect_error (last as)
      \<and> m_transferred (rc w') = bytes_after as (m_transferred (base (connect_ctx (rc w))))
      \<and> m_flags (rc w') = flags_after as (m_flags (base (connect_ctx (rc w))))
      \<and> transferred (base (connect_ctx (rc w'))) = m_transferred (rc w')
      \<and> flags (base (connect_ctx (rc w'))) = m_flags (rc w')
      \<and> os_sockets w' = drop (length as) (os_sockets w)
      \<and> os_log w' = os_log w @ call_GetAddrInfoExW host service None
                       # failed_attempts_log b n (sock w) cands as
      \<and> sock w' = INVALID_SOCKET
      \<and> quiet w')"

text \<open>
  \<open>w'\<close> is \<open>w\<close> after \<open>connect_and_send\<close> with the given arguments, a lookup that handed
  over \<open>fs @ c # rest\<close>, one failed attempt per candidate of \<open>fs\<close> with the scripted
  sockets \<open>fas\<close>, and a successful attempt on \<open>c\<close> with the socket \<open>a\<close>: the outcome is
  ERROR_SUCCESS with the byte count and flags the attempt on \<open>c\<close> left in the connect
  context, which holds no error; the iteration stands at \<open>c\<close>; the calls made are the
  lookup, the failed attempts in order and the attempt on \<open>c\<close>; \<open>*sock\<close> is the socket of
  \<open>c\<close>; one socket per tried candidate was created; nothing is left in flight.
\<close>

definition operation_connected ::
  "string \<Rightarrow> string \<Rightarrow> bytes option \<Rightarrow> cint \<Rightarrow> world \<Rightarrow> ADDRINFOEXW list
     \<Rightarrow> socket_answers list \<Rightarrow> ADDRINFOEXW \<Rightarrow> ADDRINFOEXW list \<Rightarrow> socket_answers
     \<Rightarrow> world \<Rightarrow> bool" where
  "operation_connected host service b n w fs fas c rest a w' =
     (m_error (rc w') = ERROR_SUCCESS
      \<and> m_transferred (rc w')
          = attempt_bytes a (bytes_after fas (m_transferred (base (connect_ctx (rc w)))))
      \<and> m_flags (rc w')
          = attempt_flags a (flags_after fas (m_flags (base (connect_ctx (rc w)))))
      \<and> transferred (base (connect_ctx (rc w'))) = m_transferred (rc w')
      \<and> flags (base (connect_ctx (rc w'))) = m_flags (rc w')
      \<and> \<not> has_error (base (connect_ctx (rc w')))
      \<and> iter (rc w') = c # rest
      \<and> os_sockets w' = drop (Suc (length fas)) (os_sockets w)
      \<and> os_log w' = os_log w @ call_GetAddrInfoExW host service None
                       # failed_attempts_log b n (sock w) fs fas
                       @ successful_attempt_calls b n
                           (if fs = [] then sock w else INVALID_SOCKET) c a
      \<and> sock w' = ans_WSASocket a
      \<and> quiet w')"

subsection \<open>Concrete inputs\<close>

definition demo_answer :: "cint \<Rightarrow> DWORD \<Rightarrow> call_answer" where
  "demo_answer r e = \<lparr>ret = r, last_error = e, bytes_out = None, flags_out = None\<rparr>"

definition demo_port :: "ctx_ptr iocp" where
  "demo_port = \<lparr>iocp_handle = 4, iocp_queue = [], iocp_wait_error = None, iocp_post_error = None\<rparr>"

definition demo_entry :: "ULONG_PTR \<Rightarrow> 'p \<Rightarrow> 'p OVERLAPPED_ENTRY" where
  "demo_entry k p = \<lparr>lpCompletionKey = k, lpOverlapped = Some p,
     dwNumberOfBytesTransferred = 0, io_succeeded = True\<rparr>"

text \<open>
  A hook that returns normally for the resolve context (leaving a mark in the port's handle
  field) and raises for the connect context, as the post-connect fixup of
  \<open>connect_context::completion_func\<close> can.
\<close>

definition demo_hook :: "ctx_ptr \<Rightarrow> ctx_ptr iocp \<Rightarrow> exn + ctx_ptr iocp" where
  "demo_hook p io =
     (case p of
        resolve_ctx_ptr \<Rightarrow> Inr (io\<lparr>iocp_handle := iocp_handle io + 1\<rparr>)
      | connect_ctx_ptr \<Rightarrow> Inl (winsock_error 10022))"

definition demo_resolver :: resolve_answers where
  "demo_resolver = \<lparr>ans_GetAddrInfoExW = 0, ans_ppResult = None, ans_lookup_error = 0,
     ans_lookup_ppResult = None\<rparr>"

definition demo_os :: "socket_answers \<Rightarrow> ctx_ptr os_state" where
  "demo_os a = \<lparr>iocp_handle = 4, iocp_queue = [], iocp_wait_error = None, iocp_post_error = None,
     os_log = [], os_sockets = [], os_current = a, os_resolver = demo_resolver,
     os_inflight = []\<rparr>"

text \<open>A context that still holds the outcome of an earlier operation: 57005 bytes, flags 8.\<close>

definition demo_ctx :: socket_context where
  "demo_ctx = \<lparr>Internal = 0, InternalHigh = 0, Offset = 0, OffsetHigh = 0, hEvent = 0,
     m_error = 0, m_sock = 0, m_transferred = 57005, m_flags = 8\<rparr>"

text \<open>An address candidate of the given family, and the answers for one scripted socket.\<close>

definition demo_candidate :: "cint \<Rightarrow> ADDRINFOEXW" where
  "demo_candidate fam = \<lparr>ai_family = fam, ai_socktype = 1, ai_protocol = 6, ai_addrlen = 16,
     ai_addr = \<lparr>sa_family = ucast fam, sa_data = [0, 80, 127, 0, 0, 1]\<rparr>\<rparr>"

definition demo_socket ::
  "SOCKET \<Rightarrow> call_answer \<Rightarrow> call_answer \<Rightarrow> call_answer \<Rightarrow> call_answer \<Rightarrow> socket_answers" where
  "demo_socket h ioctl cx ov fixup = \<lparr>ans_WSASocket = h, ans_WSASocket_error = 0,
     ans_CreateIoCompletionPort = True, ans_SetFileCompletionNotificationModes = True,
     ans_associate_error = 0, ans_bind = no_answer, ans_setsockopt = fixup,
     ans_shutdown = no_answer, ans_WSAIoctl = ioctl, ans_AcceptEx = no_answer,
     ans_ConnectEx = cx, ans_DisconnectEx = no_answer, ans_WSASend = no_answer,
     ans_WSARecv = no_answer, ans_WSAGetOverlappedResult = ov\<rparr>"

text \<open>
  Sockets whose connect fails at once with 10051 (no byte count stored), fails after pending
  with 10061 and 7 bytes reported, succeeds at once having sent 5 bytes, and succeeds after
  pending having sent 9 bytes, with flags 4.
\<close>

definition fails_at_once :: "SOCKET \<Rightarrow> socket_answers" where
  "fails_at_once h = demo_socket h no_answer (demo_answer 0 10051) no_answer no_answer"

definition fails_later :: "SOCKET \<Rightarrow> socket_answers" where
  "fails_later h =
     demo_socket h no_answer (demo_answer 0 ERROR_IO_PENDING)
       \<lparr>ret = 0, last_error = 10061, bytes_out = Some 7, flags_out = Some 0\<rparr> no_answer"

definition succeeds_at_once :: "SOCKET \<Rightarrow> socket_answers" where
  "succeeds_at_once h =
     demo_socket h no_answer \<lparr>ret = 1, last_error = 0, bytes_out = Some 5, flags_out = None\<rparr>
       no_answer no_answer"

definition succeeds_later :: "SOCKET \<Rightarrow> socket_answers" where
  "succeeds_later h =
     demo_socket h no_answer (demo_answer 0 ERROR_IO_PENDING)
       \<lparr>ret = 1, last_error = 0, bytes_out = Some 9, flags_out = Some 4\<rparr> no_answer"

text \<open>
  An operation object as its constructor leaves it, at the resume point \<open>st\<close>, whose resolve
  context holds the candidate list \<open>cands\<close> and no error; the outcome fields still hold
  57005 bytes and flags 8.
\<close>

definition demo_rc :: "rc_state \<Rightarrow> ADDRINFOEXW list \<Rightarrow> resolve_and_connect_context" where
  "demo_rc st cands = \<lparr>Internal = 0, InternalHigh = 0, Offset = 0, OffsetHigh = 0, hEvent = 0,
     m_error = 1, m_sock = 0, m_transferred = 57005, m_flags = 8,
     state = st,
     resolve_ctx = \<lparr>base = \<lparr>Internal = 0, InternalHigh = 0, Offset = 0, OffsetHigh = 0,
                            hEvent = 0, m_error = 0, m_iocp = 4, m_rawres = [],
                            m_result = cands\<rparr>,
                    m_op = rc_op\<rparr>,
     connect_ctx = \<lparr>base = demo_ctx, m_op = rc_op\<rparr>,
     sync = False, iter = [], hostname = ''host'', servicename = ''http'',
     buffer = Some [71, 69, 84], buffer_len = 3\<rparr>"

text \<open>A world with that operation object, the scripted sockets and the resolver's answers.\<close>

definition demo_world ::
  "rc_state \<Rightarrow> ADDRINFOEXW list \<Rightarrow> socket_answers list \<Rightarrow> resolve_answers \<Rightarrow> world" where
  "demo_world st cands sockets resolver =
     \<lparr>iocp_handle = 4, iocp_queue = [], iocp_wait_error = None, iocp_post_error = None,
      os_log = [], os_sockets = sockets, os_current = no_socket, os_resolver = resolver,
      os_inflight = [], rc = demo_rc st cands, sock = INVALID_SOCKET\<rparr>"

text \<open>
  A socket whose connect succeeds after pending but whose \<open>SO_UPDATE_CONNECT_CONTEXT\<close>
  fails with 10022.
\<close>

definition fixup_fails :: "SOCKET \<Rightarrow> socket_answers" where
  "fixup_fails h =
     demo_socket h no_answer (demo_answer 0 ERROR_IO_PENDING)
       \<lparr>ret = 1, last_error = 0, bytes_out = Some 7, flags_out = Some 0\<rparr> (demo_answer (- 1) 10022)"

text \<open>A resolver whose lookup is pending and then hands over the list \<open>cands\<close> without error.\<close>

definition delivers :: "ADDRINFOEXW list \<Rightarrow> resolve_answers" where
  "delivers cands = \<lparr>ans_GetAddrInfoExW = ERROR_IO_PENDING, ans_ppResult = None,
     ans_lookup_error = 0, ans_lookup_ppResult = Some cands\<rparr>"

text \<open>
  The memory of an operation object before its constructor has run: the owner pointers of
  both embedded contexts hold some other value.
\<close>

definition raw_rc :: resolve_and_connect_context where
  "raw_rc = (demo_rc on_start [demo_candidate 2])
     \<lparr>resolve_ctx := (resolve_ctx (demo_rc on_start [demo_candidate 2]))\<lparr>m_op := invalid_op\<rparr>,
      connect_ctx := \<lparr>base = demo_ctx, m_op = invalid_op\<rparr>\<rparr>"

text \<open>A world at the loop condition of \<open>step\<close>, the iteration at the first candidate.\<close>

definition demo_loop :: "ADDRINFOEXW list \<Rightarrow> socket_answers list \<Rightarrow> world" where
  "demo_loop cands sockets =
     (demo_world on_resolve cands sockets demo_resolver)
       \<lparr>rc := (demo_rc on_resolve cands)\<lparr>iter := cands\<rparr>\<rparr>"

section \<open>The multiplexer\<close>

text \<open>
  Claim C5 (amended). \<open>service::run()\<close> does not return while the wait does not fail and
  no packet is queued. A failed wait (no packet attached) is raised as \<open>win32_error\<close> with
  the wait's error code; nothing is dispatched and the wait is not repeated. A dequeued packet
  with the key KEY_SHUTDOWN makes it return false, whatever the hooks are: none is dispatched.
  Any other dequeued packet has its context's hook applied once, to the state after the
  dequeue; if the hook returns, \<open>run\<close> returns true with the state the hook leaves; if the
  hook raises, its exception leaves \<open>run\<close>, which then returns no boolean. The packet
  \<open>service::shutdown\<close> posts carries KEY_SHUTDOWN and no context, and a \<open>run\<close> that
  dequeues it returns false.
\<close>

theorem service_run_contract:
  fixes io :: "('p, 'z) iocp_scheme"
  shows
  "(service_run cf io = None \<longleftrightarrow> iocp_wait_error io = None \<and> iocp_queue io = [])
   \<and> (iocp_wait_error io = Some err \<longrightarrow> service_run cf io = Some (Inl (win32_error err)))
   \<and> (iocp_wait_error io = None \<and> iocp_queue io = e # q \<and> lpCompletionKey e = KEY_SHUTDOWN
        \<and> (io_succeeded e \<or> lpOverlapped e \<noteq> None)
        \<longrightarrow> service_run cf io = Some (Inr (False, io\<lparr>iocp_queue := q\<rparr>)))
   \<and> (iocp_wait_error io = None \<and> iocp_queue io = e # q \<and> lpCompletionKey e \<noteq> KEY_SHUTDOWN
        \<and> lpOverlapped e = Some p
        \<longrightarrow> service_run cf io =
              Some (case cf p (io\<lparr>iocp_queue := q\<rparr>) of
                      Inl x \<Rightarrow> Inl x | Inr io2 \<Rightarrow> Inr (True, io2)))
   \<and> (iocp_post_error io = None \<longrightarrow>
        service_shutdown io = Inr (io\<lparr>iocp_queue := iocp_queue io @ [shutdown_sentinel]\<rparr>))
   \<and> (iocp_post_error io = None \<and> iocp_wait_error io = None \<and> iocp_queue io = [] \<longrightarrow>
        service_run cf (io\<lparr>iocp_queue := iocp_queue io @ [shutdown_sentinel]\<rparr>)
          = Some (Inr (False, io)))"
  by (auto simp: service_run_def GetQueuedCompletionStatus_def service_shutdown_def
      PostQueuedCompletionStatus_def shutdown_sentinel_def
      split: option.splits list.splits)

theorem service_run_contract_witness:
  "service_run demo_hook (demo_port\<lparr>iocp_wait_error := Some 6\<rparr>) = Some (Inl (win32_error 6))
   \<and> service_run demo_hook (demo_port\<lparr>iocp_queue := [demo_entry KEY_SHUTDOWN connect_ctx_ptr]\<rparr>)
       = Some (Inr (False, demo_port))
   \<and> service_run demo_hook (demo_port\<lparr>iocp_queue := [demo_entry KEY_RUN resolve_ctx_ptr]\<rparr>)
       = Some (Inr (True, demo_port\<lparr>iocp_handle := 5\<rparr>))
   \<and> service_run demo_hook (demo_port\<lparr>iocp_queue := [demo_entry KEY_RUN connect_ctx_ptr]\<rparr>)
       = Some (Inl (winsock_error 10022))
   \<and> service_shutdown demo_port = Inr (demo_port\<lparr>iocp_queue := [shutdown_sentinel]\<rparr>)
   \<and> service_run demo_hook (demo_port\<lparr>iocp_queue := [shutdown_sentinel]\<rparr>)
       = Some (Inr (False, demo_port))"
  using service_run_contract [of demo_hook "demo_port\<lparr>iocp_wait_error := Some 6\<rparr>" 6]
    service_run_contract
      [of demo_hook "demo_port\<lparr>iocp_queue := [demo_entry KEY_SHUTDOWN connect_ctx_ptr]\<rparr>" _
          "demo_entry KEY_SHUTDOWN connect_ctx_ptr" "[]"]
    service_run_contract
      [of demo_hook "demo_port\<lparr>iocp_queue := [demo_entry KEY_RUN resolve_ctx_ptr]\<rparr>" _
          "demo_entry KEY_RUN resolve_ctx_ptr" "[]" resolve_ctx_ptr]
    service_run_contract
      [of demo_hook "demo_port\<lparr>iocp_queue := [demo_entry KEY_RUN connect_ctx_ptr]\<rparr>" _
          "demo_entry KEY_RUN connect_ctx_ptr" "[]" connect_ctx_ptr]
    service_run_contract [of demo_hook demo_port]
  by (simp add: demo_port_def demo_entry_def demo_hook_def KEY_RUN_def KEY_SHUTDOWN_def)

text \<open>
  Claim C5 as stated (a dequeued event that is not the shutdown sentinel ends with \<open>run\<close>
  returning true, and only a failed wait is raised) fails when the dispatched hook raises:
  the port holds the completion of a connect whose post-connect fixup fails, \<open>run\<close>
  dispatches the hook of the connect context, and the \<open>winsock_error\<close> thrown by the fixup
  leaves \<open>run\<close>.
\<close>

theorem service_run_passes_hook_exception:
  "service_run (completion_func Inr)
     ((demo_world on_connect [] [] demo_resolver)
        \<lparr>os_current := fixup_fails 100,
         iocp_queue := [demo_entry KEY_RUN connect_ctx_ptr]\<rparr>)
   = Some (Inl (winsock_error 10022))"
  by (simp add: service_run_def GetQueuedCompletionStatus_def demo_entry_def demo_world_def
      demo_rc_def demo_ctx_def KEY_RUN_def KEY_SHUTDOWN_def completion_func_def
      async_context_completion_func_def connect_ctx_base_completion_func_def
      connect_context_completion_func_def socket_context_completion_func_def
      WSAGetOverlappedResult_def has_error_def status_def os_setsockopt_def log_call_def
      fixup_fails_def demo_socket_def demo_answer_def store_transferred_def ERROR_SUCCESS_def
      Let_def)

lemma dispatch_entries_invoke_all:
  "\<forall>e \<in> set es. lpCompletionKey e = KEY_RUN \<longrightarrow> lpOverlapped e \<noteq> None \<Longrightarrow>
   dispatch_entries cf es keep w =
     (case invoke_all cf (run_contexts es) w of
        Inl x \<Rightarrow> Inl x
      | Inr w' \<Rightarrow> Inr (keep \<and> (\<forall>e \<in> set es. lpCompletionKey e = KEY_RUN), w'))"
proof (induction es arbitrary: keep w)
  case Nil
  then show ?case by (simp add: run_contexts_def)
next
  case (Cons e es)
  show ?case
  proof (cases "lpCompletionKey e = KEY_RUN")
    case True
    with Cons.prems obtain p where p: "lpOverlapped e = Some p" by auto
    show ?thesis
    proof (cases "cf p w")
      case (Inl x)
      with True p show ?thesis by (simp add: run_contexts_def)
    next
      case (Inr w')
      have "dispatch_entries cf es keep w' =
        (case invoke_all cf (run_contexts es) w' of
           Inl x \<Rightarrow> Inl x
         | Inr w'' \<Rightarrow> Inr (keep \<and> (\<forall>e \<in> set es. lpCompletionKey e = KEY_RUN), w''))"
        using Cons.IH [of keep w'] Cons.prems by simp
      with True p Inr show ?thesis by (auto simp: run_contexts_def split: sum.splits)
    qed
  next
    case False
    have "dispatch_entries cf es False w =
        (case invoke_all cf (run_contexts es) w of
           Inl x \<Rightarrow> Inl x
         | Inr w'' \<Rightarrow> Inr (False \<and> (\<forall>e \<in> set es. lpCompletionKey e = KEY_RUN), w''))"
      using Cons.IH [of False w] Cons.prems by simp
    with False show ?thesis by (auto simp: run_contexts_def split: sum.splits)
  qed
qed

lemma GetQueuedCompletionStatusEx_removes:
  fixes io :: "('p, 'z) iocp_scheme"
  shows "iocp_wait_error io = None \<Longrightarrow> iocp_queue io \<noteq> [] \<Longrightarrow>
    GetQueuedCompletionStatusEx n io =
      Some ((True, take n (iocp_queue io), 0), io\<lparr>iocp_queue := drop n (iocp_queue io)\<rparr>)"
  by (cases "iocp_queue io") (simp_all add: GetQueuedCompletionStatusEx_def)

text \<open>
  Claim C6, as amended. When the wait succeeds, \<open>service::run_many()\<close> removes the first 16
  packets of the queue (all of them if there are fewer) and goes through them in order: for
  every entry whose key is KEY_RUN it invokes the hook of the entry's context, once, also
  when an entry with another key stands before or after it in the batch; for an entry with
  any other key (the program posts only KEY_SHUTDOWN besides KEY_RUN) it invokes nothing.
  If every invoked hook returns, \<open>run_many\<close> returns false exactly when the batch held an
  entry whose key is not KEY_RUN. If a hook raises, the exception leaves \<open>run_many\<close> at
  once: the hooks of the later entries of the batch are not invoked (\<open>invoke_all\<close> stops at
  the first exception).
\<close>

theorem service_run_many_dispatches_batch:
  fixes io :: "('p, 'z) iocp_scheme"
  assumes "iocp_wait_error io = None" and "iocp_queue io \<noteq> []"
    and "\<forall>e \<in> set (take 16 (iocp_queue io)). lpCompletionKey e = KEY_RUN \<longrightarrow> lpOverlapped e \<noteq> None"
  shows "service_run_many cf io =
           Some (case invoke_all cf (run_contexts (take 16 (iocp_queue io)))
                        (io\<lparr>iocp_queue := drop 16 (iocp_queue io)\<rparr>) of
                   Inl x \<Rightarrow> Inl x
                 | Inr io' \<Rightarrow>
                     Inr (\<forall>e \<in> set (take 16 (iocp_queue io)). lpCompletionKey e = KEY_RUN, io'))"
  using assms dispatch_entries_invoke_all [of "take 16 (iocp_queue io)" cf True]
  by (simp add: service_run_many_def GetQueuedCompletionStatusEx_removes split: sum.splits)

theorem service_run_many_dispatches_batch_witness:
  "iocp_wait_error (demo_port\<lparr>iocp_queue :=
       [demo_entry KEY_RUN resolve_ctx_ptr, shutdown_sentinel, demo_entry KEY_RUN resolve_ctx_ptr]\<rparr>)
     = None
   \<and> service_run_many demo_hook (demo_port\<lparr>iocp_queue :=
       [demo_entry KEY_RUN resolve_ctx_ptr, shutdown_sentinel, demo_entry KEY_RUN resolve_ctx_ptr]\<rparr>)
     = Some (Inr (False, demo_port\<lparr>iocp_handle := 6\<rparr>))"
  using service_run_many_dispatches_batch [of "demo_port\<lparr>iocp_queue :=
       [demo_entry KEY_RUN resolve_ctx_ptr, shutdown_sentinel, demo_entry KEY_RUN resolve_ctx_ptr]\<rparr>"
       demo_hook]
  by (simp add: demo_port_def demo_entry_def demo_hook_def shutdown_sentinel_def run_contexts_def
      KEY_RUN_def KEY_SHUTDOWN_def)

text \<open>
  Claim C6 as stated fails when a hook raises: two completions are dequeued in one batch, the
  hook of the first raises, and \<open>run_many\<close> ends with that exception; the hook of the second
  entry, which would have returned normally, is never invoked and \<open>run_many\<close> returns no
  boolean.
\<close>

theorem service_run_many_raising_hook_skips_rest:
  "service_run_many demo_hook
     (demo_port\<lparr>iocp_queue := [demo_entry KEY_RUN connect_ctx_ptr, demo_entry KEY_RUN resolve_ctx_ptr]\<rparr>)
     = Some (Inl (winsock_error 10022))
   \<and> demo_hook resolve_ctx_ptr demo_port = Inr (demo_port\<lparr>iocp_handle := 5\<rparr>)"
  by (simp add: service_run_many_def GetQueuedCompletionStatusEx_def demo_port_def demo_entry_def
      demo_hook_def KEY_RUN_def)

section \<open>The socket primitives\<close>

text \<open>
  Claim C7. An immediate failure of an asynchronous socket primitive is reported through the
  context and the return value true, never by an exception (the primitives have no raising
  branch). When the extension function cannot be obtained (\<open>WSAIoctl\<close> fails), which is a
  failure to start, \<open>accept_and_receive\<close>, \<open>connect_and_send\<close>, \<open>connect\<close> and \<open>disconnect\<close>
  return true with the error code of \<open>WSAIoctl\<close>, 0 bytes and flags 0, and touch nothing
  else. When the started call fails with an error other than ERROR_IO_PENDING, every
  primitive returns true with that error code and flags 0. Both kinds of failure return true.
\<close>

theorem immediate_failure_completes_with_error:
  fixes os :: "('p, 'z) os_state_scheme" and ctx :: "'a socket_context_scheme"
  shows
  "(ret (WSAIoctl m os) \<noteq> 0 \<longrightarrow>
      (\<forall>r \<in> {accept_and_receive m s rl ll el p ctx os,
              connect_and_send m name nl b bl p ctx os,
              connect m name nl p ctx os,
              disconnect m reuse p ctx os}.
         r = (True, ctx\<lparr>m_error := last_error (WSAIoctl m os), m_transferred := 0, m_flags := 0\<rparr>, os)))
   \<and> (ret (WSAIoctl m os) = 0 \<and> ret (ans_AcceptEx (os_current os)) = 0
        \<and> last_error (ans_AcceptEx (os_current os)) \<noteq> ERROR_IO_PENDING \<longrightarrow>
        completed_with_error (accept_and_receive m s rl ll el p ctx os)
          (last_error (ans_AcceptEx (os_current os))))
   \<and> (ret (WSAIoctl m os) = 0 \<and> ret (ans_ConnectEx (os_current os)) = 0
        \<and> last_error (ans_ConnectEx (os_current os)) \<noteq> ERROR_IO_PENDING \<longrightarrow>
        completed_with_error (connect_and_send m name nl b bl p ctx os)
          (last_error (ans_ConnectEx (os_current os)))
        \<and> completed_with_error (connect m name nl p ctx os)
          (last_error (ans_ConnectEx (os_current os))))
   \<and> (ret (WSAIoctl m os) = 0 \<and> ret (ans_DisconnectEx (os_current os)) = 0
        \<and> last_error (ans_DisconnectEx (os_current os)) \<noteq> ERROR_IO_PENDING \<longrightarrow>
        completed_with_error (disconnect m reuse p ctx os)
          (last_error (ans_DisconnectEx (os_current os))))
   \<and> (ret (ans_WSASend (os_current os)) \<noteq> 0
        \<and> last_error (ans_WSASend (os_current os)) \<noteq> ERROR_IO_PENDING \<longrightarrow>
        completed_with_error (send_buffers m bs fl p ctx os)
          (last_error (ans_WSASend (os_current os)))
        \<and> completed_with_error (send m b bl fl p ctx os)
          (last_error (ans_WSASend (os_current os))))
   \<and> (ret (ans_WSARecv (os_current os)) \<noteq> 0
        \<and> last_error (ans_WSARecv (os_current os)) \<noteq> ERROR_IO_PENDING \<longrightarrow>
        completed_with_error (receive_buffers m bs fl p ctx os)
          (last_error (ans_WSARecv (os_current os)))
        \<and> completed_with_error (receive m b bl fl p ctx os)
          (last_error (ans_WSARecv (os_current os))))"
  by (simp add: completed_with_error_def accept_and_receive_def connect_and_send_def connect_def
      disconnect_def send_def send_buffers_def receive_def receive_buffers_def
      AcceptEx_def ConnectEx_def DisconnectEx_def WSASend_def WSARecv_def WSAIoctl_def
      overlapped_call_def store_transferred_def init_sock_def init_def Let_def
      split: option.splits)


theorem immediate_failure_completes_with_error_witness:
  "connect 5 \<lparr>sa_family = 2, sa_data = []\<rparr> 16 connect_ctx_ptr demo_ctx
       (demo_os (no_socket\<lparr>ans_WSAIoctl := demo_answer 1 10045\<rparr>))
     = (True, demo_ctx\<lparr>m_error := 10045, m_transferred := 0, m_flags := 0\<rparr>,
        demo_os (no_socket\<lparr>ans_WSAIoctl := demo_answer 1 10045\<rparr>))
   \<and> completed_with_error
       (disconnect 5 False connect_ctx_ptr demo_ctx
          (demo_os (no_socket\<lparr>ans_DisconnectEx := demo_answer 0 10057\<rparr>))) 10057
   \<and> completed_with_error
       (send 5 None 0 0 connect_ctx_ptr demo_ctx
          (demo_os (no_socket\<lparr>ans_WSASend := demo_answer 1 10054\<rparr>))) 10054"
  using
    immediate_failure_completes_with_error
      [where m = 5 and os = "demo_os (no_socket\<lparr>ans_WSAIoctl := demo_answer 1 10045\<rparr>)"
         and ctx = demo_ctx and p = connect_ctx_ptr and name = "\<lparr>sa_family = 2, sa_data = []\<rparr>"
         and nl = 16 and s = 0 and rl = 0 and ll = 0 and el = 0 and b = None and bl = 0
         and reuse = False and bs = "[]" and fl = 0]
    immediate_failure_completes_with_error
      [where m = 5 and os = "demo_os (no_socket\<lparr>ans_DisconnectEx := demo_answer 0 10057\<rparr>)"
         and ctx = demo_ctx and p = connect_ctx_ptr and name = "\<lparr>sa_family = 2, sa_data = []\<rparr>"
         and nl = 16 and s = 0 and rl = 0 and ll = 0 and el = 0 and b = None and bl = 0
         and reuse = False and bs = "[]" and fl = 0]
    immediate_failure_completes_with_error
      [where m = 5 and os = "demo_os (no_socket\<lparr>ans_WSASend := demo_answer 1 10054\<rparr>)"
         and ctx = demo_ctx and p = connect_ctx_ptr and name = "\<lparr>sa_family = 2, sa_data = []\<rparr>"
         and nl = 16 and s = 0 and rl = 0 and ll = 0 and el = 0 and b = None and bl = 0
         and reuse = False and bs = "[]" and fl = 0]
  by (simp add: demo_os_def no_socket_def demo_answer_def no_answer_def WSAIoctl_def
      ERROR_IO_PENDING_def)

text \<open>
  Claim C9. \<open>socket::connect\<close> is \<open>connect_and_send\<close> with a null buffer of length 0: same
  return value, same context, same system state. The single-buffer \<open>send\<close> and \<open>receive\<close>
  are their WSABUF overloads applied to the one WSABUF that wraps the buffer and its length;
  in particular the system sees one \<open>WSASend\<close> (\<open>WSARecv\<close>) call with exactly that WSABUF,
  and a started \<open>connect\<close> one \<open>ConnectEx\<close> call with a null send buffer.
\<close>

theorem single_buffer_overloads_delegate:
  "connect m name n p ctx os = connect_and_send m name n None 0 p ctx os
   \<and> send m b n fl p ctx os = send_buffers m [\<lparr>len = n, buf = b\<rparr>] fl p ctx os
   \<and> receive m b n fl p ctx os = receive_buffers m [\<lparr>len = n, buf = b\<rparr>] fl p ctx os
   \<and> os_log (snd (snd (send m b n fl p ctx os)))
       = os_log os @ [call_WSASend m [\<lparr>len = n, buf = b\<rparr>] fl]
   \<and> os_log (snd (snd (receive m b n fl p ctx os)))
       = os_log os @ [call_WSARecv m [\<lparr>len = n, buf = b\<rparr>] fl]
   \<and> (ret (WSAIoctl m os) = 0 \<longrightarrow>
        os_log (snd (snd (connect m name n p ctx os)))
          = os_log os @ [call_ConnectEx m name n None 0])"
  by (simp add: connect_def send_def receive_def send_buffers_def receive_buffers_def
      connect_and_send_def WSASend_def WSARecv_def ConnectEx_def overlapped_call_def
      log_call_def in_flight_def Let_def split: prod.splits)

theorem single_buffer_overloads_delegate_witness:
  "ret (WSAIoctl 5 (demo_os (no_socket\<lparr>ans_ConnectEx := demo_answer 1 0\<rparr>))) = 0
   \<and> os_log (snd (snd (connect 5 \<lparr>sa_family = 2, sa_data = []\<rparr> 16 connect_ctx_ptr demo_ctx
                          (demo_os (no_socket\<lparr>ans_ConnectEx := demo_answer 1 0\<rparr>)))))
       = [call_ConnectEx 5 \<lparr>sa_family = 2, sa_data = []\<rparr> 16 None 0]"
proof -
  have h: "ret (WSAIoctl 5 (demo_os (no_socket\<lparr>ans_ConnectEx := demo_answer 1 0\<rparr>))) = 0"
    by (simp add: demo_os_def no_socket_def no_answer_def WSAIoctl_def)
  have l: "os_log (demo_os (no_socket\<lparr>ans_ConnectEx := demo_answer 1 0\<rparr>)) = []"
    by (simp add: demo_os_def)
  have c: "ret (WSAIoctl 5 (demo_os (no_socket\<lparr>ans_ConnectEx := demo_answer 1 0\<rparr>))) = 0 \<longrightarrow>
      os_log (snd (snd (connect 5 \<lparr>sa_family = 2, sa_data = []\<rparr> 16 connect_ctx_ptr demo_ctx
                          (demo_os (no_socket\<lparr>ans_ConnectEx := demo_answer 1 0\<rparr>)))))
       = os_log (demo_os (no_socket\<lparr>ans_ConnectEx := demo_answer 1 0\<rparr>))
           @ [call_ConnectEx 5 \<lparr>sa_family = 2, sa_data = []\<rparr> 16 None 0]"
    using single_buffer_overloads_delegate
      [where m = 5 and os = "demo_os (no_socket\<lparr>ans_ConnectEx := demo_answer 1 0\<rparr>)"
         and ctx = demo_ctx and p = connect_ctx_ptr and name = "\<lparr>sa_family = 2, sa_data = []\<rparr>"
         and n = 16 and b = None and fl = 0]
    by blast
  from c h l show ?thesis by simp
qed

section \<open>The compound operation\<close>

subsection \<open>The pieces of the loop body\<close>

lemma store_transferred_sel [simp]:
  "m_error (store_transferred b c) = m_error c"
  "m_flags (store_transferred b c) = m_flags c"
  "m_sock (store_transferred b c) = m_sock c"
  "m_transferred (store_transferred b c) = stored b (m_transferred c)"
  by (simp_all add: store_transferred_def stored_def split: option.splits)

lemma init_sock_sel [simp]:
  "m_error (init_sock s c) = m_error c"
  "m_flags (init_sock s c) = m_flags c"
  "m_transferred (init_sock s c) = m_transferred c"
  "m_sock (init_sock s c) = s"
  by (simp_all add: init_sock_def init_def)

lemma socket_context_completion_func_sel [simp]:
  "m_error (socket_context_completion_func c os) =
     (if ret (ans_WSAGetOverlappedResult (os_current os)) \<noteq> 0 then ERROR_SUCCESS
      else last_error (ans_WSAGetOverlappedResult (os_current os)))"
  "m_sock (socket_context_completion_func c os) = m_sock c"
  "m_transferred (socket_context_completion_func c os) =
     stored (bytes_out (ans_WSAGetOverlappedResult (os_current os))) (m_transferred c)"
  "m_flags (socket_context_completion_func c os) =
     stored (flags_out (ans_WSAGetOverlappedResult (os_current os))) (m_flags c)"
  by (simp_all add: socket_context_completion_func_def WSAGetOverlappedResult_def Let_def
      store_transferred_def stored_def split: option.splits)

lemma open_and_bind_ready:
  assumes "socket_ready a" "os_sockets w = a # bs"
  shows "open_and_bind c w =
    Inr (w\<lparr>os_sockets := bs, os_current := a, sock := ans_WSASocket a,
           os_log := os_log w @ opening_calls (sock w) c a\<rparr>)"
  using assms
  by (simp add: open_and_bind_def socket_ready_def socket_ctor_def WSASocket_def
      socket_move_assign_def socket_close_def closesocket_def log_call_def socket_bind_def
      os_bind_def opening_calls_def)

lemma issue_connect_not_started:
  assumes "ret (ans_WSAIoctl (os_current w)) \<noteq> 0"
  shows "issue_connect c w =
    (True, w\<lparr>rc := (rc w)\<lparr>state := on_connect,
        connect_ctx := (connect_ctx (rc w))\<lparr>base := (base (connect_ctx (rc w)))
           \<lparr>m_error := last_error (ans_WSAIoctl (os_current w)), m_transferred := 0, m_flags := 0\<rparr>\<rparr>\<rparr>\<rparr>)"
  using assms
  by (simp add: issue_connect_def connect_and_send_def WSAIoctl_def set_connect_ctx_def)

lemma issue_connect_completed:
  assumes "ret (ans_WSAIoctl (os_current w)) = 0"
    "ret (ans_ConnectEx (os_current w)) \<noteq> 0 \<or> last_error (ans_ConnectEx (os_current w)) \<noteq> ERROR_IO_PENDING"
  shows "issue_connect c w =
    (True, w\<lparr>os_log := os_log w @ [call_ConnectEx (sock w) (ai_addr c) (ai_addrlen c)
                                      (buffer (rc w)) (buffer_len (rc w))],
             rc := (rc w)\<lparr>state := on_connect,
        connect_ctx := (connect_ctx (rc w))\<lparr>base :=
           (store_transferred (bytes_out (ans_ConnectEx (os_current w)))
              (init_sock (sock w) (base (connect_ctx (rc w)))))
           \<lparr>m_error := (if ret (ans_ConnectEx (os_current w)) \<noteq> 0 then ERROR_SUCCESS
                        else last_error (ans_ConnectEx (os_current w))), m_flags := 0\<rparr>\<rparr>\<rparr>\<rparr>)"
  using assms
  by (auto simp add: issue_connect_def connect_and_send_def WSAIoctl_def set_connect_ctx_def
      ConnectEx_def overlapped_call_def log_call_def Let_def)

lemma issue_connect_pending:
  assumes "ret (ans_WSAIoctl (os_current w)) = 0"
    "ret (ans_ConnectEx (os_current w)) = 0" "last_error (ans_ConnectEx (os_current w)) = ERROR_IO_PENDING"
  shows "issue_connect c w =
    (False, w\<lparr>os_log := os_log w @ [call_ConnectEx (sock w) (ai_addr c) (ai_addrlen c)
                                      (buffer (rc w)) (buffer_len (rc w))],
             os_inflight := os_inflight w @ [connect_ctx_ptr],
             rc := (rc w)\<lparr>state := on_connect,
        connect_ctx := (connect_ctx (rc w))\<lparr>base :=
           store_transferred (bytes_out (ans_ConnectEx (os_current w)))
              (init_sock (sock w) (base (connect_ctx (rc w))))\<rparr>\<rparr>\<rparr>)"
  using assms
  by (simp add: issue_connect_def connect_and_send_def WSAIoctl_def set_connect_ctx_def
      ConnectEx_def overlapped_call_def log_call_def in_flight_def Let_def)

lemma close_sock_eq:
  "close_sock w = w\<lparr>sock := INVALID_SOCKET,
     os_log := os_log w @ (if sock w \<noteq> INVALID_SOCKET then [call_closesocket (sock w)] else [])\<rparr>"
  by (simp add: close_sock_def socket_close_def closesocket_def log_call_def)

lemma on_connect_failed_continue:
  assumes "m_error (base (connect_ctx (rc w))) \<noteq> ERROR_SUCCESS" "iter (rc w) = c # rest" "rest \<noteq> []"
  shows "for_loop cf label_on_connect w =
     for_loop cf loop_condition ((close_sock w)\<lparr>rc := (rc w)\<lparr>iter := rest\<rparr>\<rparr>)"
  using assms
  by (subst for_loop.simps(2)) (simp add: has_error_def status_def close_sock_eq Let_def)

lemma on_connect_failed_last:
  assumes "m_error (base (connect_ctx (rc w))) \<noteq> ERROR_SUCCESS" "iter (rc w) = [c]"
  shows "for_loop cf label_on_connect w =
     complete cf (record_outcome (m_error (base (connect_ctx (rc w)))) (close_sock w))"
  using assms
  by (subst for_loop.simps(2)) (simp add: has_error_def status_def close_sock_eq Let_def)

lemma on_connect_succeeded:
  assumes "m_error (base (connect_ctx (rc w))) = ERROR_SUCCESS"
  shows "for_loop cf label_on_connect w = complete cf (record_outcome ERROR_SUCCESS w)"
  using assms
  by (subst for_loop.simps(2)) (simp add: has_error_def status_def)

lemma loop_condition_unfold:
  assumes "iter (rc w) = c # rest"
  shows "for_loop cf loop_condition w =
     (case open_and_bind c w of
             Inl e \<Rightarrow> Inl e
           | Inr w1 \<Rightarrow>
               (case issue_connect c w1 of
                  (completed, w2) \<Rightarrow>
                    if \<not> completed then Inr (w2\<lparr>rc := (rc w2)\<lparr>sync := False\<rparr>\<rparr>)
                    else for_loop cf label_on_connect w2))"
  using assms by (subst for_loop.simps(1)) simp

lemma completion_func_connect_resumes:
  assumes "m_op (connect_ctx (rc w)) = rc_op" "state (rc w) = on_connect"
  shows "completion_func cf connect_ctx_ptr w =
     (case connect_ctx_base_completion_func w of
        Inl e \<Rightarrow> Inl e
      | Inr w' \<Rightarrow> for_loop cf label_on_connect w')"
  using assms
  by (auto simp: completion_func_def async_context_completion_func_def vstep_def step_def
      connect_ctx_base_completion_func_def connect_context_completion_func_def
      set_connect_ctx_def os_setsockopt_def log_call_def Let_def
      split: sum.splits prod.splits if_splits)

lemma drive_delivers_connect:
  assumes "os_inflight w = [connect_ctx_ptr]" "iocp_queue w = []" "iocp_wait_error w = None"
  shows "drive cf (Suc n) w =
     then_drive cf n (completion_func cf connect_ctx_ptr (w\<lparr>os_inflight := [], iocp_queue := []\<rparr>))"
  using assms
  by (simp add: deliver_def os_complete_def service_run_many_def GetQueuedCompletionStatusEx_def
      then_drive_def KEY_RUN_def split: sum.splits)


lemma connect_ctx_base_failed:
  assumes "ret (ans_WSAGetOverlappedResult (os_current w)) = 0"
    "last_error (ans_WSAGetOverlappedResult (os_current w)) \<noteq> ERROR_SUCCESS"
  shows "connect_ctx_base_completion_func w =
     Inr (set_connect_ctx (socket_context_completion_func (base (connect_ctx (rc w))) w) w)"
  using assms
  by (simp add: connect_ctx_base_completion_func_def connect_context_completion_func_def
      has_error_def status_def Let_def)

lemma connect_ctx_base_succeeded:
  assumes "ret (ans_WSAGetOverlappedResult (os_current w)) \<noteq> 0
           \<or> last_error (ans_WSAGetOverlappedResult (os_current w)) = ERROR_SUCCESS"
    "ret (ans_setsockopt (os_current w)) = 0"
  shows "connect_ctx_base_completion_func w =
     Inr (set_connect_ctx (socket_context_completion_func (base (connect_ctx (rc w))) w)
           (w\<lparr>os_log := os_log w @ [call_setsockopt (m_sock (base (connect_ctx (rc w))))]\<rparr>))"
  using assms
  by (auto simp add: connect_ctx_base_completion_func_def connect_context_completion_func_def
      has_error_def status_def Let_def os_setsockopt_def log_call_def)

lemma connect_ctx_base_raises:
  assumes "ret (ans_WSAGetOverlappedResult (os_current w)) \<noteq> 0
           \<or> last_error (ans_WSAGetOverlappedResult (os_current w)) = ERROR_SUCCESS"
    "ret (ans_setsockopt (os_current w)) \<noteq> 0"
  shows "connect_ctx_base_completion_func w =
     Inl (winsock_error (last_error (ans_setsockopt (os_current w))))"
  using assms
  by (auto simp add: connect_ctx_base_completion_func_def connect_context_completion_func_def
      has_error_def status_def Let_def os_setsockopt_def log_call_def)

lemma failed_attempt_sync:
  assumes "iter (rc w) = c # rest" "rest \<noteq> []" "os_sockets w = a # bs" "connect_fails a"
    "\<not> connect_pending a" "bound_to_rc w" "quiet w"
  shows "\<exists>w'. for_loop cf loop_condition w = for_loop cf loop_condition w' \<and> after_failed_attempt w w'"
proof (cases "ret (ans_WSAIoctl a) \<noteq> 0")
  case True
  with assms have e: "last_error (ans_WSAIoctl a) \<noteq> ERROR_SUCCESS" "socket_ready a"
    "ans_WSASocket a \<noteq> INVALID_SOCKET"
    by (simp_all add: connect_fails_def connect_error_def socket_ready_def)
  show ?thesis
    using assms True e
    apply (simp add: loop_condition_unfold open_and_bind_ready issue_connect_not_started
        on_connect_failed_continue)
    apply (rule exI, rule conjI, rule refl)
    apply (simp add: after_failed_attempt_def failed_attempt_calls_def connect_calls_def
        attempt_bytes_def attempt_flags_def
        close_sock_eq bound_to_rc_def quiet_def connect_pending_def)
    done
next
  case False
  with assms have e: "ret (ans_ConnectEx a) = 0"
    "last_error (ans_ConnectEx a) \<noteq> ERROR_IO_PENDING"
    "last_error (ans_ConnectEx a) \<noteq> ERROR_SUCCESS" "socket_ready a"
    "ans_WSASocket a \<noteq> INVALID_SOCKET"
    by (auto simp add: connect_fails_def connect_error_def connect_pending_def socket_ready_def
        split: if_splits)
  show ?thesis
    using assms False e
    apply (simp add: loop_condition_unfold open_and_bind_ready issue_connect_completed
        on_connect_failed_continue)
    apply (rule exI, rule conjI, rule refl)
    apply (simp add: after_failed_attempt_def failed_attempt_calls_def connect_calls_def
        attempt_bytes_def attempt_flags_def
        close_sock_eq bound_to_rc_def quiet_def connect_pending_def)
    done
qed

lemma failed_attempt_async:
  assumes "iter (rc w) = c # rest" "rest \<noteq> []" "os_sockets w = a # bs" "connect_fails a"
    "connect_pending a" "bound_to_rc w" "quiet w"
  shows "\<exists>w'. (\<forall>n. then_drive cf (Suc n) (for_loop cf loop_condition w)
                  = then_drive cf n (for_loop cf loop_condition w'))
             \<and> after_failed_attempt w w'"
proof -
  from assms have a: "ret (ans_WSAIoctl a) = 0" "ret (ans_ConnectEx a) = 0"
    "last_error (ans_ConnectEx a) = ERROR_IO_PENDING"
    "ret (ans_WSAGetOverlappedResult a) = 0"
    "last_error (ans_WSAGetOverlappedResult a) \<noteq> ERROR_SUCCESS"
    "socket_ready a" "ans_WSASocket a \<noteq> INVALID_SOCKET"
    by (auto simp: connect_fails_def connect_error_def connect_pending_def socket_ready_def
        split: if_splits)
  from assms have w: "m_op (connect_ctx (rc w)) = rc_op" "os_inflight w = []"
    "iocp_queue w = []" "iocp_wait_error w = None" "m_op (resolve_ctx (rc w)) = rc_op"
    by (simp_all add: bound_to_rc_def quiet_def)
  show ?thesis
    using assms(1-3) a w
    apply (simp add: loop_condition_unfold open_and_bind_ready issue_connect_pending
        then_drive_def [of cf "Suc n" for n] drive_delivers_connect
        completion_func_connect_resumes connect_ctx_base_failed set_connect_ctx_def
        on_connect_failed_continue del: drive.simps)
    apply (rule exI, rule conjI, rule allI, rule refl)
    apply (simp add: after_failed_attempt_def failed_attempt_calls_def connect_calls_def
        attempt_bytes_def attempt_flags_def
        close_sock_eq bound_to_rc_def quiet_def connect_pending_def)
    done
qed


lemma failed_attempt:
  assumes "iter (rc w) = c # rest" "rest \<noteq> []" "os_sockets w = a # bs" "connect_fails a"
    "bound_to_rc w" "quiet w"
  shows "\<exists>k w'. k \<le> 1 \<and> (\<forall>n. then_drive cf (k + n) (for_loop cf loop_condition w)
                  = then_drive cf n (for_loop cf loop_condition w'))
             \<and> after_failed_attempt w w'"
proof (cases "connect_pending a")
  case True
  from failed_attempt_async [OF assms(1-4) True assms(5,6), of cf]
  obtain w' where "\<forall>n. then_drive cf (Suc n) (for_loop cf loop_condition w)
                  = then_drive cf n (for_loop cf loop_condition w')" "after_failed_attempt w w'"
    by blast
  then have "1 \<le> (1::nat) \<and> (\<forall>n. then_drive cf (1 + n) (for_loop cf loop_condition w)
                  = then_drive cf n (for_loop cf loop_condition w')) \<and> after_failed_attempt w w'"
    by simp
  then show ?thesis by blast
next
  case False
  from failed_attempt_sync [OF assms(1-4) False assms(5,6), of cf]
  obtain w' where "for_loop cf loop_condition w = for_loop cf loop_condition w'"
    "after_failed_attempt w w'"
    by blast
  then have "0 \<le> (1::nat) \<and> (\<forall>n. then_drive cf (0 + n) (for_loop cf loop_condition w)
                  = then_drive cf n (for_loop cf loop_condition w')) \<and> after_failed_attempt w w'"
    by simp
  then show ?thesis by blast
qed

lemma then_drive_0 [simp]: "then_drive cf 0 r = r"
  by (cases r) (simp_all add: then_drive_def)

lemma last_failed_attempt_sync:
  assumes "iter (rc w) = [c]" "os_sockets w = a # bs" "connect_fails a"
    "\<not> connect_pending a" "bound_to_rc w" "quiet w"
  shows "\<exists>w'. for_loop cf loop_condition w = complete cf w' \<and> after_last_failed_attempt w w'"
proof (cases "ret (ans_WSAIoctl a) \<noteq> 0")
  case True
  with assms have e: "last_error (ans_WSAIoctl a) \<noteq> ERROR_SUCCESS" "socket_ready a"
    "ans_WSASocket a \<noteq> INVALID_SOCKET"
    by (simp_all add: connect_fails_def connect_error_def socket_ready_def)
  show ?thesis
    using assms True e
    apply (simp add: loop_condition_unfold open_and_bind_ready issue_connect_not_started
        on_connect_failed_last)
    apply (rule exI, rule conjI, rule refl)
    apply (simp add: after_last_failed_attempt_def failed_attempt_calls_def connect_calls_def
        attempt_bytes_def attempt_flags_def
        close_sock_eq bound_to_rc_def quiet_def connect_pending_def record_outcome_def
        connect_error_def outcome_of_connect_ctx_def transferred_def flags_def)
    done
next
  case False
  with assms have e: "ret (ans_ConnectEx a) = 0"
    "last_error (ans_ConnectEx a) \<noteq> ERROR_IO_PENDING"
    "last_error (ans_ConnectEx a) \<noteq> ERROR_SUCCESS" "socket_ready a"
    "ans_WSASocket a \<noteq> INVALID_SOCKET"
    by (auto simp add: connect_fails_def connect_error_def connect_pending_def socket_ready_def
        split: if_splits)
  show ?thesis
    using assms False e
    apply (simp add: loop_condition_unfold open_and_bind_ready issue_connect_completed
        on_connect_failed_last)
    apply (rule exI, rule conjI, rule refl)
    apply (simp add: after_last_failed_attempt_def failed_attempt_calls_def connect_calls_def
        attempt_bytes_def attempt_flags_def
        close_sock_eq bound_to_rc_def quiet_def connect_pending_def record_outcome_def
        connect_error_def outcome_of_connect_ctx_def transferred_def flags_def)
    done
qed

lemma last_failed_attempt_async:
  assumes "iter (rc w) = [c]" "os_sockets w = a # bs" "connect_fails a"
    "connect_pending a" "bound_to_rc w" "quiet w"
  shows "\<exists>w'. then_drive cf (Suc 0) (for_loop cf loop_condition w) = complete cf w'
             \<and> after_last_failed_attempt w w'"
proof -
  from assms have a: "ret (ans_WSAIoctl a) = 0" "ret (ans_ConnectEx a) = 0"
    "last_error (ans_ConnectEx a) = ERROR_IO_PENDING"
    "ret (ans_WSAGetOverlappedResult a) = 0"
    "last_error (ans_WSAGetOverlappedResult a) \<noteq> ERROR_SUCCESS"
    "socket_ready a" "ans_WSASocket a \<noteq> INVALID_SOCKET"
    by (auto simp: connect_fails_def connect_error_def connect_pending_def socket_ready_def
        split: if_splits)
  from assms have w: "m_op (connect_ctx (rc w)) = rc_op" "os_inflight w = []"
    "iocp_queue w = []" "iocp_wait_error w = None" "m_op (resolve_ctx (rc w)) = rc_op"
    by (simp_all add: bound_to_rc_def quiet_def)
  show ?thesis
    using assms(1-2) a w
    apply (simp add: loop_condition_unfold open_and_bind_ready issue_connect_pending
        then_drive_def [of cf "Suc 0"] drive_delivers_connect
        completion_func_connect_resumes connect_ctx_base_failed set_connect_ctx_def
        on_connect_failed_last del: drive.simps)
    apply (rule exI, rule conjI, rule refl)
    apply (simp add: after_last_failed_attempt_def failed_attempt_calls_def connect_calls_def
        attempt_bytes_def attempt_flags_def
        close_sock_eq bound_to_rc_def quiet_def connect_pending_def record_outcome_def
        connect_error_def outcome_of_connect_ctx_def transferred_def flags_def)
    done
qed

lemma last_failed_attempt:
  assumes "iter (rc w) = [c]" "os_sockets w = a # bs" "connect_fails a" "bound_to_rc w" "quiet w"
  shows "\<exists>k w'. k \<le> 1 \<and> then_drive cf k (for_loop cf loop_condition w) = complete cf w'
             \<and> after_last_failed_attempt w w'"
proof (cases "connect_pending a")
  case True
  from last_failed_attempt_async [OF assms(1-3) True assms(4,5), of cf]
  obtain w' where "then_drive cf (Suc 0) (for_loop cf loop_condition w) = complete cf w'"
    "after_last_failed_attempt w w'"
    by blast
  then have "Suc 0 \<le> 1 \<and> then_drive cf (Suc 0) (for_loop cf loop_condition w) = complete cf w'
     \<and> after_last_failed_attempt w w'"
    by simp
  then show ?thesis by blast
next
  case False
  from last_failed_attempt_sync [OF assms(1-3) False assms(4,5), of cf]
  obtain w' where "for_loop cf loop_condition w = complete cf w'" "after_last_failed_attempt w w'"
    by blast
  then have "0 \<le> (1::nat) \<and> then_drive cf 0 (for_loop cf loop_condition w) = complete cf w'
     \<and> after_last_failed_attempt w w'"
    by simp
  then show ?thesis by blast
qed


lemma loop_all_fail:
  assumes "iter (rc w) = cands" "cands \<noteq> []" "length as = length cands"
    "os_sockets w = as @ bs" "\<forall>a \<in> set as. connect_fails a" "bound_to_rc w" "quiet w"
  shows "\<exists>k wf. k \<le> length cands
     \<and> then_drive cf k (for_loop cf loop_condition w) = complete cf wf
     \<and> all_failed w cands as wf"
  using assms
proof (induction cands arbitrary: w as)
  case Nil
  then show ?case by simp
next
  case (Cons c cs)
  from Cons.prems(3) obtain a as' where as: "as = a # as'" "length as' = length cs"
    by (cases as) auto
  from Cons.prems as have a: "connect_fails a" "os_sockets w = a # (as' @ bs)"
    "\<forall>a \<in> set as'. connect_fails a"
    by simp_all
  show ?case
  proof (cases "cs = []")
    case True
    with as have as': "as' = []" by simp
    from last_failed_attempt [of w c a "as' @ bs" cf] Cons.prems True a
    obtain k wf where k: "k \<le> 1"
      "then_drive cf k (for_loop cf loop_condition w) = complete cf wf"
      "after_last_failed_attempt w wf"
      by auto
    from k(3) Cons.prems(1) a(2) as as' True have "all_failed w (c # cs) as wf"
      by (simp add: after_last_failed_attempt_def all_failed_def)
    moreover from k(1) have "k \<le> length (c # cs)" by simp
    ultimately show ?thesis using k(2) by blast
  next
    case False
    from failed_attempt [of w c cs a "as' @ bs" cf] Cons.prems False a
    obtain k1 w1 where k1: "k1 \<le> 1"
      "\<And>n. then_drive cf (k1 + n) (for_loop cf loop_condition w)
                  = then_drive cf n (for_loop cf loop_condition w1)"
      "after_failed_attempt w w1"
      by auto
    from k1(3) Cons.prems(1) a(2) have w1: "iter (rc w1) = cs" "os_sockets w1 = as' @ bs"
      "bound_to_rc w1" "quiet w1"
      by (simp_all add: after_failed_attempt_def)
    from Cons.IH [OF w1(1) False as(2) w1(2) a(3) w1(3,4)]
    obtain k2 wf where k2: "k2 \<le> length cs"
      "then_drive cf k2 (for_loop cf loop_condition w1) = complete cf wf"
      "all_failed w1 cs as' wf"
      by auto
    from False as have ne: "as' \<noteq> []" by auto
    from k2(3) k1(3) Cons.prems(1) a(2) as ne have "all_failed w (c # cs) as wf"
      by (auto simp add: after_failed_attempt_def all_failed_def)
    moreover from k1(2) [of k2] k2(2)
    have "then_drive cf (k1 + k2) (for_loop cf loop_condition w) = complete cf wf" by simp
    moreover from k1(1) k2(1) have "k1 + k2 \<le> length (c # cs)" by simp
    ultimately show ?thesis by blast
  qed
qed


lemma successful_attempt_sync:
  assumes "iter (rc w) = c # rest" "os_sockets w = a # bs" "socket_ready a"
    "ret (ans_WSAIoctl a) = 0" "ret (ans_ConnectEx a) \<noteq> 0" "bound_to_rc w" "quiet w"
  shows "\<exists>w'. for_loop cf loop_condition w = complete cf w' \<and> after_successful_attempt w w'"
  using assms
  apply (simp add: loop_condition_unfold open_and_bind_ready issue_connect_completed
      on_connect_succeeded)
  apply (rule exI, rule conjI, rule refl)
  apply (simp add: after_successful_attempt_def successful_attempt_calls_def connect_calls_def
        attempt_bytes_def attempt_flags_def
      bound_to_rc_def quiet_def connect_pending_def record_outcome_def
      outcome_of_connect_ctx_def transferred_def flags_def socket_ready_def)
  done

lemma successful_attempt_async:
  assumes "iter (rc w) = c # rest" "os_sockets w = a # bs" "socket_ready a"
    "ret (ans_WSAIoctl a) = 0" "ret (ans_ConnectEx a) = 0"
    "last_error (ans_ConnectEx a) = ERROR_IO_PENDING"
    "ret (ans_WSAGetOverlappedResult a) \<noteq> 0" "ret (ans_setsockopt a) = 0"
    "bound_to_rc w" "quiet w"
  shows "\<exists>w'. then_drive cf (Suc 0) (for_loop cf loop_condition w) = complete cf w'
     \<and> after_successful_attempt w w'"
proof -
  from assms have w: "m_op (connect_ctx (rc w)) = rc_op" "os_inflight w = []"
    "iocp_queue w = []" "iocp_wait_error w = None" "m_op (resolve_ctx (rc w)) = rc_op"
    by (simp_all add: bound_to_rc_def quiet_def)
  show ?thesis
    using assms(1-8) w
    apply (simp add: loop_condition_unfold open_and_bind_ready issue_connect_pending
        then_drive_def [of cf "Suc 0"] drive_delivers_connect
        completion_func_connect_resumes connect_ctx_base_succeeded set_connect_ctx_def
        on_connect_succeeded del: drive.simps)
    apply (rule exI, rule conjI, rule refl)
    apply (simp add: after_successful_attempt_def successful_attempt_calls_def connect_calls_def
        attempt_bytes_def attempt_flags_def
        bound_to_rc_def quiet_def connect_pending_def record_outcome_def
        outcome_of_connect_ctx_def transferred_def flags_def socket_ready_def)
    done
qed

lemma successful_attempt:
  assumes "iter (rc w) = c # rest" "os_sockets w = a # bs" "connect_succeeds a"
    "bound_to_rc w" "quiet w"
  shows "\<exists>k w'. k \<le> 1 \<and> then_drive cf k (for_loop cf loop_condition w) = complete cf w'
             \<and> after_successful_attempt w w'"
proof (cases "ret (ans_ConnectEx a) \<noteq> 0")
  case True
  from assms(3) have "socket_ready a" "ret (ans_WSAIoctl a) = 0"
    by (simp_all add: connect_succeeds_def)
  from successful_attempt_sync [OF assms(1,2) this True assms(4,5), of cf]
  obtain w' where "for_loop cf loop_condition w = complete cf w'" "after_successful_attempt w w'"
    by blast
  then have "0 \<le> (1::nat) \<and> then_drive cf 0 (for_loop cf loop_condition w) = complete cf w'
     \<and> after_successful_attempt w w'"
    by simp
  then show ?thesis by blast
next
  case False
  with assms(3) have a: "socket_ready a" "ret (ans_WSAIoctl a) = 0" "ret (ans_ConnectEx a) = 0"
    "last_error (ans_ConnectEx a) = ERROR_IO_PENDING"
    "ret (ans_WSAGetOverlappedResult a) \<noteq> 0" "ret (ans_setsockopt a) = 0"
    by (simp_all add: connect_succeeds_def)
  from successful_attempt_async [OF assms(1,2) a assms(4,5), of cf]
  obtain w' where "then_drive cf (Suc 0) (for_loop cf loop_condition w) = complete cf w'"
    "after_successful_attempt w w'"
    by blast
  then have "Suc 0 \<le> 1 \<and> then_drive cf (Suc 0) (for_loop cf loop_condition w) = complete cf w'
     \<and> after_successful_attempt w w'"
    by simp
  then show ?thesis by blast
qed

lemma loop_fail_then_succeed:
  assumes "iter (rc w) = fs @ c # rest" "length fas = length fs"
    "os_sockets w = fas @ a # bs" "\<forall>x \<in> set fas. connect_fails x" "connect_succeeds a"
    "bound_to_rc w" "quiet w"
  shows "\<exists>k wf. k \<le> Suc (length fs)
     \<and> then_drive cf k (for_loop cf loop_condition w) = complete cf wf
     \<and> succeeded_after w fs fas c rest a wf"
  using assms
proof (induction fs arbitrary: w fas)
  case Nil
  then have fas: "fas = []" by simp
  from successful_attempt [of w c rest a bs cf] Nil.prems fas
  obtain k wf where k: "k \<le> 1"
    "then_drive cf k (for_loop cf loop_condition w) = complete cf wf"
    "after_successful_attempt w wf"
    by auto
  from k(3) Nil.prems(1,3) fas have "succeeded_after w [] fas c rest a wf"
    by (simp add: after_successful_attempt_def succeeded_after_def)
  moreover from k(1) have "k \<le> Suc (length ([]::ADDRINFOEXW list))" by simp
  ultimately show ?case using k(2) by blast
next
  case (Cons f fs)
  from Cons.prems(2) obtain x fas' where fas: "fas = x # fas'" "length fas' = length fs"
    by (cases fas) auto
  from Cons.prems fas have x: "connect_fails x" "os_sockets w = x # (fas' @ a # bs)"
    "\<forall>x \<in> set fas'. connect_fails x" "iter (rc w) = f # (fs @ c # rest)"
    by simp_all
  from failed_attempt [of w f "fs @ c # rest" x "fas' @ a # bs" cf] Cons.prems x
  obtain k1 w1 where k1: "k1 \<le> 1"
    "\<And>n. then_drive cf (k1 + n) (for_loop cf loop_condition w)
                = then_drive cf n (for_loop cf loop_condition w1)"
    "after_failed_attempt w w1"
    by auto
  from k1(3) x(2,4) have w1: "iter (rc w1) = fs @ c # rest" "os_sockets w1 = fas' @ a # bs"
    "bound_to_rc w1" "quiet w1"
    by (simp_all add: after_failed_attempt_def)
  from Cons.IH [OF w1(1) fas(2) w1(2) x(3) Cons.prems(5) w1(3,4)]
  obtain k2 wf where k2: "k2 \<le> Suc (length fs)"
    "then_drive cf k2 (for_loop cf loop_condition w1) = complete cf wf"
    "succeeded_after w1 fs fas' c rest a wf"
    by auto
  from k2(3) k1(3) x(2,4) fas have "succeeded_after w (f # fs) fas c rest a wf"
    by (auto simp add: after_failed_attempt_def succeeded_after_def)
  moreover from k1(2) [of k2] k2(2)
  have "then_drive cf (k1 + k2) (for_loop cf loop_condition w) = complete cf wf" by simp
  moreover from k1(1) k2(1) have "k1 + k2 \<le> Suc (length (f # fs))" by simp
  ultimately show ?case by blast
qed

subsection \<open>Name resolution and the delivery of its completion\<close>

lemma resolve_eq:
  "resolve host service hints p c w =
     (\<not> resolve_pending (os_resolver w),
      (if resolve_pending (os_resolver w) then resolved_ctx (os_resolver w) (iocp_handle w) c
       else (resolved_ctx (os_resolver w) (iocp_handle w) c)
              \<lparr>m_error := ans_GetAddrInfoExW (os_resolver w)\<rparr>),
      (if resolve_pending (os_resolver w)
       then w\<lparr>os_log := os_log w @ [call_GetAddrInfoExW host service hints],
              os_inflight := os_inflight w @ [p]\<rparr>
       else w\<lparr>os_log := os_log w @ [call_GetAddrInfoExW host service hints]\<rparr>))"
  by (simp add: resolve_def GetAddrInfoExW_def resolve_pending_def resolved_ctx_def
      log_call_def in_flight_def init_def Let_def ERROR_SUCCESS_def ERROR_IO_PENDING_def
      split: option.splits)

lemma resolution_fails_sync:
  assumes "\<not> resolve_pending (os_resolver w)" "resolve_error (os_resolver w) \<noteq> ERROR_SUCCESS"
    "quiet w"
  shows "\<exists>wf. io_connect_and_send cf host service b n w = Inr (True, wf)
     \<and> resolution_failed host service w wf"
  using assms
  apply (simp add: io_connect_and_send_def step_def resolve_eq label_on_resolve_def
      set_resolve_ctx_def has_error_def status_def complete_def resolve_error_def
      resolve_pending_def ERROR_IO_PENDING_def ERROR_SUCCESS_def)
  apply (simp add: resolution_failed_def resolve_error_def quiet_def resolve_pending_def
      ERROR_IO_PENDING_def)
  done



lemma resolved_ctx_sel [simp]:
  "m_iocp (resolved_ctx r h c) = h"
  "m_error (resolved_ctx r h c) = m_error c"
  "m_result (resolved_ctx r h c) = m_result c"
  "m_rawres (resolved_ctx r h c) = (case ans_ppResult r of None \<Rightarrow> m_rawres c | Some x \<Rightarrow> x)"
  by (simp_all add: resolved_ctx_def init_def)

lemma looked_up_sel [simp]:
  "m_iocp (looked_up r c) = m_iocp c"
  "m_error (looked_up r c) = ans_lookup_error r"
  by (simp_all add: looked_up_def Let_def split: option.splits)

lemma looked_up_result:
  "m_result (looked_up r c) =
     (let raw = (case ans_lookup_ppResult r of Some x \<Rightarrow> x | None \<Rightarrow> m_rawres c)
      in if ans_lookup_error r = ERROR_SUCCESS \<and> raw \<noteq> [] then raw else m_result c)"
  by (auto simp add: looked_up_def Let_def split: option.splits)

lemma os_complete_resolve:
  assumes "os_inflight w = resolve_ctx_ptr # ps" "iocp_post_error w = None"
    "m_iocp (base (resolve_ctx (rc w))) = iocp_handle w"
  shows "os_complete w =
     Some (set_resolve_ctx (looked_up (os_resolver w) (base (resolve_ctx (rc w))))
             (w\<lparr>os_inflight := ps,
                iocp_queue := iocp_queue w @
                  [\<lparr>lpCompletionKey = KEY_RUN, lpOverlapped = Some resolve_ctx_ptr,
                    dwNumberOfBytesTransferred = 0, io_succeeded = True\<rparr>]\<rparr>))"
  using assms
  by (simp add: os_complete_def lookup_completion_def PostQueuedCompletionStatus_def
      looked_up_def Let_def set_resolve_ctx_def split: option.splits)

lemma set_resolve_ctx_queue:
  "(set_resolve_ctx c w)\<lparr>iocp_queue := q\<rparr> = set_resolve_ctx c (w\<lparr>iocp_queue := q\<rparr>)"
  by (cases w) (simp add: set_resolve_ctx_def)

lemma set_resolve_ctx_sel [simp]:
  "iocp_queue (set_resolve_ctx c w) = iocp_queue w"
  "iocp_wait_error (set_resolve_ctx c w) = iocp_wait_error w"
  by (simp_all add: set_resolve_ctx_def)

lemma drive_delivers_resolve:
  assumes "os_inflight w = [resolve_ctx_ptr]" "iocp_queue w = []" "iocp_wait_error w = None"
    "iocp_post_error w = None" "m_iocp (base (resolve_ctx (rc w))) = iocp_handle w"
  shows "drive cf (Suc n) w =
     then_drive cf n
       (completion_func cf resolve_ctx_ptr
          (set_resolve_ctx (looked_up (os_resolver w) (base (resolve_ctx (rc w))))
             (w\<lparr>os_inflight := [], iocp_queue := []\<rparr>)))"
  using assms
  by (simp add: deliver_def os_complete_resolve service_run_many_def
      GetQueuedCompletionStatusEx_def set_resolve_ctx_queue then_drive_def KEY_RUN_def
      split: sum.splits)

lemma completion_func_resolve_resumes:
  assumes "m_op (resolve_ctx (rc w)) = rc_op" "state (rc w) = on_resolve"
  shows "completion_func cf resolve_ctx_ptr w = label_on_resolve cf w"
  using assms
  by (simp add: completion_func_def async_context_completion_func_def vstep_def step_def
      resolve_ctx_base_completion_func_def op_context_completion_func_def set_resolve_ctx_def)

lemma resolution_fails_async:
  assumes "resolve_pending (os_resolver w)" "resolve_error (os_resolver w) \<noteq> ERROR_SUCCESS"
    "bound_to_rc w" "quiet w" "iocp_post_error w = None"
  shows "\<exists>w1 wf. io_connect_and_send cf host service b n w = Inr (False, w1)
     \<and> drive cf (Suc 0) w1 = cf wf
     \<and> resolution_failed host service w wf"
  using assms
  apply (simp add: io_connect_and_send_def step_def resolve_eq
      set_resolve_ctx_def resolve_error_def bound_to_rc_def quiet_def
      drive_delivers_resolve completion_func_resolve_resumes label_on_resolve_def
      has_error_def status_def complete_def del: drive.simps)
  apply (rule exI, rule conjI, rule refl)
  apply (simp add: resolution_failed_def resolve_error_def quiet_def)
  done


lemma for_loop_no_candidates:
  "iter (rc w) = [] \<Longrightarrow> for_loop cf loop_condition w = Inr w"
  by (simp add: for_loop.simps)

lemma drive_idle: "os_inflight w = [] \<Longrightarrow> drive cf k w = Inr w"
  by (cases k) (simp_all add: deliver_def os_complete_def)

lemma io_connect_and_send_suspends:
  assumes "resolve_pending (os_resolver w)"
  shows "io_connect_and_send cf host service b n w
     = Inr (False, suspended_on_resolve host service b n w)"
  using assms
  by (simp add: io_connect_and_send_def step_def resolve_eq suspended_on_resolve_def
      started_def set_resolve_ctx_def)

lemma no_candidates_sync:
  assumes "\<not> resolve_pending (os_resolver w)" "resolve_error (os_resolver w) = ERROR_SUCCESS"
    "resolved_candidates (os_resolver w) (base (resolve_ctx (rc w))) = []" "quiet w"
  shows "\<exists>wf. (\<forall>cf. io_connect_and_send cf host service b n w = Inr (True, wf))
     \<and> no_candidates_left host service w wf"
  using assms
  by (simp add: io_connect_and_send_def step_def resolve_eq label_on_resolve_def
      set_resolve_ctx_def has_error_def status_def result_def resolve_error_def
      resolved_candidates_def for_loop_no_candidates no_candidates_left_def
      outcome_untouched_def quiet_def)

lemma no_candidates_async:
  assumes "resolve_pending (os_resolver w)" "resolve_error (os_resolver w) = ERROR_SUCCESS"
    "resolved_candidates (os_resolver w) (base (resolve_ctx (rc w))) = []"
    "bound_to_rc w" "quiet w" "iocp_post_error w = None"
  shows "\<exists>w1 wf. (\<forall>cf. io_connect_and_send cf host service b n w = Inr (False, w1)
                      \<and> drive cf (Suc 0) w1 = Inr wf
                      \<and> (\<forall>k. drive cf k wf = Inr wf))
     \<and> no_candidates_left host service w wf"
proof -
  let ?w1 = "suspended_on_resolve host service b n w"
  let ?w2 = "lookup_delivered ?w1"
  let ?wf = "?w2\<lparr>rc := (rc ?w2)\<lparr>iter := []\<rparr>\<rparr>"
  from assms have w1: "os_inflight ?w1 = [resolve_ctx_ptr]" "iocp_queue ?w1 = []"
    "iocp_wait_error ?w1 = None" "iocp_post_error ?w1 = None"
    "m_iocp (base (resolve_ctx (rc ?w1))) = iocp_handle ?w1"
    by (simp_all add: suspended_on_resolve_def started_def resolve_eq set_resolve_ctx_def
        quiet_def)
  from assms have w2: "m_op (resolve_ctx (rc ?w2)) = rc_op" "state (rc ?w2) = on_resolve"
    "\<not> has_error (base (resolve_ctx (rc ?w2)))" "result (base (resolve_ctx (rc ?w2))) = []"
    by (simp_all add: lookup_delivered_def suspended_on_resolve_def started_def resolve_eq
        set_resolve_ctx_def bound_to_rc_def has_error_def status_def result_def
        resolve_error_def resolved_candidates_def looked_up_result Let_def
        split: option.splits if_splits)
  have d: "drive cf (Suc 0) ?w1 = Inr ?wf" for cf
    using drive_delivers_resolve [OF w1, of cf 0] w2
    by (simp add: lookup_delivered_def [symmetric] completion_func_resolve_resumes
        label_on_resolve_def for_loop_no_candidates del: drive.simps)
  have i: "os_inflight ?wf = []"
    by (simp add: lookup_delivered_def set_resolve_ctx_def)
  from assms have f: "no_candidates_left host service w ?wf"
    by (simp add: no_candidates_left_def outcome_untouched_def quiet_def lookup_delivered_def
        suspended_on_resolve_def started_def resolve_eq set_resolve_ctx_def)
  from io_connect_and_send_suspends [OF assms(1)] d drive_idle [OF i] f
  show ?thesis by blast
qed

subsection \<open>Resolution fails\<close>

text \<open>
  Claim C8. \<open>io::connect_and_send\<close> is called and the name resolution fails, at once or
  after having been pending. If it fails at once, the call returns true in a world \<open>wf\<close>;
  if the lookup was pending, the call returns false and the delivery of the lookup's
  completion ends the operation with \<open>this->completion_func()\<close> in a world \<open>wf\<close>. In both
  cases \<open>wf\<close> holds the resolution's error code as outcome, with 0 bytes and flags 0, and
  the only system call of the whole operation is \<open>GetAddrInfoExW\<close>: no socket was created
  or bound, and nothing is left in flight.
\<close>

theorem resolution_failure_is_final:
  assumes "resolve_error (os_resolver w) \<noteq> ERROR_SUCCESS"
    "bound_to_rc w" "quiet w" "iocp_post_error w = None"
  shows "(\<not> resolve_pending (os_resolver w) \<longrightarrow>
            (\<exists>wf. io_connect_and_send cf host service b n w = Inr (True, wf)
                \<and> resolution_failed host service w wf))
       \<and> (resolve_pending (os_resolver w) \<longrightarrow>
            (\<exists>w1 wf. io_connect_and_send cf host service b n w = Inr (False, w1)
                \<and> drive cf (Suc 0) w1 = cf wf
                \<and> resolution_failed host service w wf))"
  using resolution_fails_sync [of w cf host service b n]
    resolution_fails_async [of w cf host service b n] assms
  by blast

theorem resolution_failure_is_final_witness:
  "(\<exists>wf. io_connect_and_send Inr ''example.org'' ''80'' None 0
            (demo_world on_connect [] [succeeds_at_once 100]
               (demo_resolver\<lparr>ans_GetAddrInfoExW := 11001\<rparr>)) = Inr (True, wf)
        \<and> m_error (rc wf) = 11001 \<and> m_transferred (rc wf) = 0 \<and> m_flags (rc wf) = 0
        \<and> os_log wf = [call_GetAddrInfoExW ''example.org'' ''80'' None]
        \<and> os_sockets wf = [succeeds_at_once 100])
   \<and> (\<exists>w1 wf. io_connect_and_send Inr ''example.org'' ''80'' None 0
                 (demo_world on_connect [] [succeeds_at_once 100]
                    (demo_resolver\<lparr>ans_GetAddrInfoExW := ERROR_IO_PENDING,
                                   ans_lookup_error := 11001\<rparr>)) = Inr (False, w1)
        \<and> drive Inr (Suc 0) w1 = Inr wf
        \<and> m_error (rc wf) = 11001 \<and> m_transferred (rc wf) = 0 \<and> m_flags (rc wf) = 0
        \<and> os_log wf = [call_GetAddrInfoExW ''example.org'' ''80'' None]
        \<and> os_sockets wf = [succeeds_at_once 100])"
proof -
  let ?ws = "demo_world on_connect [] [succeeds_at_once 100]
               (demo_resolver\<lparr>ans_GetAddrInfoExW := 11001\<rparr>)"
  let ?wa = "demo_world on_connect [] [succeeds_at_once 100]
               (demo_resolver\<lparr>ans_GetAddrInfoExW := ERROR_IO_PENDING,
                              ans_lookup_error := 11001\<rparr>)"
  have s: "resolve_error (os_resolver ?ws) \<noteq> ERROR_SUCCESS" "bound_to_rc ?ws" "quiet ?ws"
    "iocp_post_error ?ws = None" "\<not> resolve_pending (os_resolver ?ws)"
    "resolve_error (os_resolver ?ws) = 11001" "os_log ?ws = []"
    "os_sockets ?ws = [succeeds_at_once 100]"
    by (simp_all add: demo_world_def demo_rc_def demo_resolver_def resolve_error_def
        resolve_pending_def bound_to_rc_def quiet_def ERROR_SUCCESS_def ERROR_IO_PENDING_def)
  have a: "resolve_error (os_resolver ?wa) \<noteq> ERROR_SUCCESS" "bound_to_rc ?wa" "quiet ?wa"
    "iocp_post_error ?wa = None" "resolve_pending (os_resolver ?wa)"
    "resolve_error (os_resolver ?wa) = 11001" "os_log ?wa = []"
    "os_sockets ?wa = [succeeds_at_once 100]"
    by (simp_all add: demo_world_def demo_rc_def demo_resolver_def resolve_error_def
        resolve_pending_def bound_to_rc_def quiet_def ERROR_SUCCESS_def ERROR_IO_PENDING_def)
  from resolution_failure_is_final [OF s(1-4), of Inr "''example.org''" "''80''" None 0] s(5)
  obtain wf where "io_connect_and_send Inr ''example.org'' ''80'' None 0 ?ws = Inr (True, wf)"
    "resolution_failed ''example.org'' ''80'' ?ws wf"
    by blast
  with s(6-8) have 1: "\<exists>wf. io_connect_and_send Inr ''example.org'' ''80'' None 0 ?ws
          = Inr (True, wf)
        \<and> m_error (rc wf) = 11001 \<and> m_transferred (rc wf) = 0 \<and> m_flags (rc wf) = 0
        \<and> os_log wf = [call_GetAddrInfoExW ''example.org'' ''80'' None]
        \<and> os_sockets wf = [succeeds_at_once 100]"
    by (simp add: resolution_failed_def)
  from resolution_failure_is_final [OF a(1-4), of Inr "''example.org''" "''80''" None 0] a(5)
  obtain w1 wf where
    "io_connect_and_send Inr ''example.org'' ''80'' None 0 ?wa = Inr (False, w1)"
    "drive Inr (Suc 0) w1 = Inr wf" "resolution_failed ''example.org'' ''80'' ?wa wf"
    by blast
  with a(6-8) have 2: "\<exists>w1 wf. io_connect_and_send Inr ''example.org'' ''80'' None 0 ?wa
          = Inr (False, w1)
        \<and> drive Inr (Suc 0) w1 = Inr wf
        \<and> m_error (rc wf) = 11001 \<and> m_transferred (rc wf) = 0 \<and> m_flags (rc wf) = 0
        \<and> os_log wf = [call_GetAddrInfoExW ''example.org'' ''80'' None]
        \<and> os_sockets wf = [succeeds_at_once 100]"
    by (auto simp add: resolution_failed_def simp del: drive.simps)
  from 1 2 show ?thesis by blast
qed

subsection \<open>Resolution succeeds with no candidate\<close>

text \<open>
  Claim C10. \<open>io::connect_and_send\<close> is called, the name resolution reports no error, and
  \<open>resolve_ctx.result()\<close> is null once it has completed. If the resolution completed at
  once, the call returns true, in the same world \<open>wf\<close> whatever the operation's
  \<open>completion_func\<close> is (it is not invoked), and the outcome fields of \<open>wf\<close> are those the
  operation object held before the call. If the lookup was pending, the call returns false;
  the delivery of the lookup's completion makes \<open>step\<close> return in a world \<open>wf\<close>, again the
  same for every \<open>completion_func\<close>, with the outcome fields untouched; nothing is in flight
  or queued in \<open>wf\<close>, and no later round of the caller's loop changes it: the caller is
  never resumed. No socket is created.
\<close>

theorem empty_candidate_list_signals_nothing:
  assumes "resolve_error (os_resolver w) = ERROR_SUCCESS"
    "resolved_candidates (os_resolver w) (base (resolve_ctx (rc w))) = []"
    "bound_to_rc w" "quiet w" "iocp_post_error w = None"
  shows "(\<not> resolve_pending (os_resolver w) \<longrightarrow>
            (\<exists>wf. (\<forall>cf. io_connect_and_send cf host service b n w = Inr (True, wf))
                \<and> no_candidates_left host service w wf))
       \<and> (resolve_pending (os_resolver w) \<longrightarrow>
            (\<exists>w1 wf. (\<forall>cf. io_connect_and_send cf host service b n w = Inr (False, w1)
                           \<and> drive cf (Suc 0) w1 = Inr wf
                           \<and> (\<forall>k. drive cf k wf = Inr wf))
                \<and> no_candidates_left host service w wf))"
  using no_candidates_sync [of w host service b n]
    no_candidates_async [of w host service b n] assms
  by blast

theorem empty_candidate_list_signals_nothing_witness:
  "(\<exists>wf. (\<forall>cf. io_connect_and_send cf ''example.org'' ''80'' None 0
                  (demo_world on_connect [] [succeeds_at_once 100]
                     (demo_resolver\<lparr>ans_ppResult := Some [demo_candidate 2]\<rparr>))
                = Inr (True, wf))
        \<and> m_error (rc wf) = 1 \<and> m_transferred (rc wf) = 57005 \<and> m_flags (rc wf) = 8
        \<and> os_log wf = [call_GetAddrInfoExW ''example.org'' ''80'' None])
   \<and> (\<exists>w1 wf. (\<forall>cf. io_connect_and_send cf ''example.org'' ''80'' None 0
                       (demo_world on_connect [] [succeeds_at_once 100]
                          (demo_resolver\<lparr>ans_GetAddrInfoExW := ERROR_IO_PENDING\<rparr>))
                     = Inr (False, w1)
                   \<and> drive cf (Suc 0) w1 = Inr wf
                   \<and> (\<forall>k. drive cf k wf = Inr wf))
        \<and> m_error (rc wf) = 1 \<and> m_transferred (rc wf) = 57005 \<and> m_flags (rc wf) = 8
        \<and> os_log wf = [call_GetAddrInfoExW ''example.org'' ''80'' None])"
proof -
  let ?ws = "demo_world on_connect [] [succeeds_at_once 100]
               (demo_resolver\<lparr>ans_ppResult := Some [demo_candidate 2]\<rparr>)"
  let ?wa = "demo_world on_connect [] [succeeds_at_once 100]
               (demo_resolver\<lparr>ans_GetAddrInfoExW := ERROR_IO_PENDING\<rparr>)"
  have s: "resolve_error (os_resolver ?ws) = ERROR_SUCCESS"
    "resolved_candidates (os_resolver ?ws) (base (resolve_ctx (rc ?ws))) = []"
    "bound_to_rc ?ws" "quiet ?ws" "iocp_post_error ?ws = None"
    "\<not> resolve_pending (os_resolver ?ws)"
    "m_error (rc ?ws) = 1" "m_transferred (rc ?ws) = 57005" "m_flags (rc ?ws) = 8"
    "os_log ?ws = []"
    by (simp_all add: demo_world_def demo_rc_def demo_resolver_def resolve_error_def
        resolved_candidates_def resolve_pending_def bound_to_rc_def quiet_def
        ERROR_SUCCESS_def ERROR_IO_PENDING_def)
  have a: "resolve_error (os_resolver ?wa) = ERROR_SUCCESS"
    "resolved_candidates (os_resolver ?wa) (base (resolve_ctx (rc ?wa))) = []"
    "bound_to_rc ?wa" "quiet ?wa" "iocp_post_error ?wa = None"
    "resolve_pending (os_resolver ?wa)"
    "m_error (rc ?wa) = 1" "m_transferred (rc ?wa) = 57005" "m_flags (rc ?wa) = 8"
    "os_log ?wa = []"
    by (simp_all add: demo_world_def demo_rc_def demo_resolver_def resolve_error_def
        resolved_candidates_def resolve_pending_def bound_to_rc_def quiet_def
        ERROR_SUCCESS_def ERROR_IO_PENDING_def)
  from empty_candidate_list_signals_nothing
    [OF s(1-5), of "''example.org''" "''80''" None 0] s(6)
  obtain wf where
    "\<forall>cf. io_connect_and_send cf ''example.org'' ''80'' None 0 ?ws = Inr (True, wf)"
    "no_candidates_left ''example.org'' ''80'' ?ws wf"
    by blast
  with s(7-10) have 1: "\<exists>wf.
        (\<forall>cf. io_connect_and_send cf ''example.org'' ''80'' None 0 ?ws = Inr (True, wf))
        \<and> m_error (rc wf) = 1 \<and> m_transferred (rc wf) = 57005 \<and> m_flags (rc wf) = 8
        \<and> os_log wf = [call_GetAddrInfoExW ''example.org'' ''80'' None]"
    by (simp add: no_candidates_left_def outcome_untouched_def)
  from empty_candidate_list_signals_nothing
    [OF a(1-5), of "''example.org''" "''80''" None 0] a(6)
  obtain w1 wf where
    "\<forall>cf. io_connect_and_send cf ''example.org'' ''80'' None 0 ?wa = Inr (False, w1)
          \<and> drive cf (Suc 0) w1 = Inr wf \<and> (\<forall>k. drive cf k wf = Inr wf)"
    "no_candidates_left ''example.org'' ''80'' ?wa wf"
    by blast
  with a(7-10) have 2: "\<exists>w1 wf.
        (\<forall>cf. io_connect_and_send cf ''example.org'' ''80'' None 0 ?wa = Inr (False, w1)
              \<and> drive cf (Suc 0) w1 = Inr wf \<and> (\<forall>k. drive cf k wf = Inr wf))
        \<and> m_error (rc wf) = 1 \<and> m_transferred (rc wf) = 57005 \<and> m_flags (rc wf) = 8
        \<and> os_log wf = [call_GetAddrInfoExW ''example.org'' ''80'' None]"
    by (auto simp add: no_candidates_left_def outcome_untouched_def simp del: drive.simps)
  from 1 2 show ?thesis by blast
qed

subsection \<open>The completion hook of a bound context\<close>

lemma open_and_bind_rc: "open_and_bind c w = Inr w1 \<Longrightarrow> rc w1 = rc w"
  by (auto simp add: open_and_bind_def socket_ctor_def WSASocket_def socket_move_assign_def
      socket_close_def closesocket_def log_call_def socket_bind_def os_bind_def Let_def
      split: if_splits prod.splits sum.splits)

lemma issue_connect_binding: "issue_connect c w = (completed, w2) \<Longrightarrow> binding w2 = binding w"
  by (auto simp add: issue_connect_def connect_and_send_def set_connect_ctx_def binding_def
      WSAIoctl_def ConnectEx_def overlapped_call_def log_call_def in_flight_def Let_def
      split: if_splits prod.splits)

lemma issue_connect_state: "state (rc (snd (issue_connect c w))) = on_connect"
  by (auto simp add: issue_connect_def connect_and_send_def set_connect_ctx_def
      WSAIoctl_def ConnectEx_def overlapped_call_def log_call_def in_flight_def Let_def
      split: if_splits prod.splits)

lemma close_sock_rc: "rc (close_sock w) = rc w"
  by (simp add: close_sock_eq)

lemma record_outcome_binding: "binding (record_outcome e w) = binding w"
  by (simp add: record_outcome_def binding_def)

lemma complete_binding:
  assumes "\<forall>v v'. cf v = Inr v' \<longrightarrow> binding v' = binding v" "complete cf w = Inr w'"
  shows "binding w' = binding w"
  using assms by (auto simp add: complete_def split: if_splits)

lemma for_loop_binding_aux:
  "(\<forall>v v'. cf v = Inr v' \<longrightarrow> binding v' = binding v)
     \<longrightarrow> (\<forall>w'. for_loop cf e w = Inr w' \<longrightarrow> binding w' = binding w)"
proof (induction cf e w rule: for_loop.induct)
  case (1 cf w)
  show ?case
  proof (intro impI allI)
    fix w'
    assume cf: "\<forall>v v'. cf v = Inr v' \<longrightarrow> binding v' = binding v"
      and r: "for_loop cf loop_condition w = Inr w'"
    show "binding w' = binding w"
    proof (cases "iter (rc w)")
      case Nil
      with r show ?thesis by (simp add: for_loop.simps(1))
    next
      case (Cons c rest)
      with r obtain w1 where w1: "open_and_bind c w = Inr w1"
        by (auto simp add: for_loop.simps(1) split: sum.splits)
      obtain completed w2 where w2: "issue_connect c w1 = (completed, w2)"
        by (cases "issue_connect c w1") auto
      from open_and_bind_rc [OF w1] issue_connect_binding [OF w2]
      have b: "binding w2 = binding w" by (simp add: binding_def)
      show ?thesis
      proof (cases completed)
        case True
        with r Cons w1 w2 have "for_loop cf label_on_connect w2 = Inr w'"
          by (simp add: for_loop.simps(1))
        with "1.IH" [OF Cons w1 w2 [symmetric]] True cf b show ?thesis by simp
      next
        case False
        with r Cons w1 w2 have "w' = w2\<lparr>rc := (rc w2)\<lparr>sync := False\<rparr>\<rparr>"
          by (simp add: for_loop.simps(1))
        with b show ?thesis by (simp add: binding_def)
      qed
    qed
  qed
next
  case (2 cf w)
  show ?case
  proof (intro impI allI)
    fix w'
    assume cf: "\<forall>v v'. cf v = Inr v' \<longrightarrow> binding v' = binding v"
      and r: "for_loop cf label_on_connect w = Inr w'"
    show "binding w' = binding w"
    proof (cases "has_error (base (connect_ctx (rc w)))")
      case False
      with r have "complete cf (record_outcome ERROR_SUCCESS w) = Inr w'"
        by (simp add: for_loop.simps(2))
      from complete_binding [OF cf this] show ?thesis by (simp add: record_outcome_binding)
    next
      case True
      show ?thesis
      proof (cases "iter (rc (close_sock w))")
        case Nil
        with r True show ?thesis by (simp add: for_loop.simps(2) Let_def)
      next
        case (Cons c rest)
        show ?thesis
        proof (cases "rest = []")
          case e: True
          with r True Cons have "complete cf (record_outcome
              (status (base (connect_ctx (rc (close_sock w))))) (close_sock w)) = Inr w'"
            by (simp add: for_loop.simps(2) Let_def)
          from complete_binding [OF cf this] show ?thesis
            by (simp add: record_outcome_binding) (simp add: binding_def close_sock_rc)
        next
          case ne: False
          let ?w = "(close_sock w)\<lparr>rc := (rc (close_sock w))\<lparr>iter := rest\<rparr>\<rparr>"
          from r True Cons ne have "for_loop cf loop_condition ?w = Inr w'"
            by (simp add: for_loop.simps(2) Let_def)
          with "2.IH" [OF True refl Cons ne] cf have "binding w' = binding ?w" by simp
          then show ?thesis by (simp add: binding_def close_sock_rc)
        qed
      qed
    qed
  qed
qed

lemma for_loop_binding:
  assumes "\<forall>v v'. cf v = Inr v' \<longrightarrow> binding v' = binding v" "for_loop cf e w = Inr w'"
  shows "binding w' = binding w"
  using for_loop_binding_aux [of cf e w] assms by blast

lemma label_on_resolve_binding:
  assumes "\<forall>v v'. cf v = Inr v' \<longrightarrow> binding v' = binding v" "label_on_resolve cf w = Inr w'"
  shows "binding w' = binding w"
proof (cases "has_error (base (resolve_ctx (rc w)))")
  case True
  with assms(2) have "complete cf
           (w\<lparr>rc := (rc w)\<lparr>m_error := status (base (resolve_ctx (rc w))),
                 m_transferred := 0, m_flags := 0\<rparr>\<rparr>) = Inr w'"
    by (simp add: label_on_resolve_def)
  from complete_binding [OF assms(1) this] show ?thesis by (simp add: binding_def)
next
  case False
  let ?w = "w\<lparr>rc := (rc w)\<lparr>iter := result (base (resolve_ctx (rc w)))\<rparr>\<rparr>"
  from False assms(2) have "for_loop cf loop_condition ?w = Inr w'"
    by (simp add: label_on_resolve_def)
  then have l: "for_loop cf loop_condition ?w = Inr w'" .
  from for_loop_binding [OF assms(1) l] show ?thesis by (simp add: binding_def)
qed

lemma step_binding:
  assumes "\<forall>v v'. cf v = Inr v' \<longrightarrow> binding v' = binding v" "step cf w = Inr w'"
  shows "binding w' = binding w"
proof (cases "state (rc w)")
  case on_connect
  with assms(2) have "for_loop cf label_on_connect w = Inr w'" by (simp add: step_def)
  from for_loop_binding [OF assms(1) this] show ?thesis .
next
  case on_resolve
  with assms(2) have "label_on_resolve cf w = Inr w'" by (simp add: step_def)
  from label_on_resolve_binding [OF assms(1) this] show ?thesis .
next
  case on_start
  let ?v = "w\<lparr>rc := (rc w)\<lparr>state := on_resolve\<rparr>\<rparr>"
  obtain completed ctx w1 where r: "resolve (hostname (rc w)) (servicename (rc w)) None
      resolve_ctx_ptr (base (resolve_ctx (rc w))) ?v = (completed, ctx, w1)"
    by (metis prod_cases3)
  then have b: "binding (set_resolve_ctx ctx w1) = binding w"
    by (auto simp add: resolve_eq set_resolve_ctx_def binding_def split: if_splits)
  show ?thesis
  proof (cases completed)
    case True
    with assms(2) on_start r have "label_on_resolve cf (set_resolve_ctx ctx w1) = Inr w'"
      by (simp add: step_def)
    from label_on_resolve_binding [OF assms(1) this] b show ?thesis by simp
  next
    case False
    with assms(2) on_start r
    have "w' = (set_resolve_ctx ctx w1)\<lparr>rc := (rc (set_resolve_ctx ctx w1))\<lparr>sync := False\<rparr>\<rparr>"
      by (simp add: step_def)
    with b show ?thesis by (simp add: binding_def)
  qed
qed


lemma bound_to_rc_binding: "bound_to_rc w = (binding w = (rc_op, rc_op))"
  by (simp add: bound_to_rc_def binding_def)

lemma hook_of_resolve_ctx:
  assumes "bound_to_rc w"
  shows "completion_func cf resolve_ctx_ptr w = step cf w"
  using assms
  by (simp add: completion_func_def async_context_completion_func_def vstep_def
      resolve_ctx_base_completion_func_def op_context_completion_func_def set_resolve_ctx_def
      bound_to_rc_def)

lemma hook_of_connect_ctx:
  assumes "bound_to_rc w"
  shows "completion_func cf connect_ctx_ptr w =
     (case connect_ctx_base_completion_func w of Inl e \<Rightarrow> Inl e | Inr w' \<Rightarrow> step cf w')"
  using assms
  by (simp add: completion_func_def async_context_completion_func_def vstep_def
      bound_to_rc_def split: sum.splits)

lemma connect_ctx_base_binding:
  assumes "connect_ctx_base_completion_func w = Inr w'"
  shows "binding w' = binding w"
  using assms
  by (auto simp add: connect_ctx_base_completion_func_def connect_context_completion_func_def
      set_connect_ctx_def os_setsockopt_def log_call_def binding_def Let_def
      split: sum.splits prod.splits if_splits)

lemma hook_binding:
  assumes "\<forall>v v'. cf v = Inr v' \<longrightarrow> binding v' = binding v"
    "completion_func cf p w = Inr w'"
  shows "binding w' = binding w"
proof (cases p)
  case resolve_ctx_ptr
  with assms(2) have "vstep cf (m_op (resolve_ctx (rc w))) w = Inr w'"
    by (simp add: completion_func_def async_context_completion_func_def
        resolve_ctx_base_completion_func_def op_context_completion_func_def
        set_resolve_ctx_def)
  then have "step cf w = Inr w'"
    by (cases "m_op (resolve_ctx (rc w))") (simp_all add: vstep_def)
  from step_binding [OF assms(1) this] show ?thesis .
next
  case connect_ctx_ptr
  with assms(2) obtain w1 where w1: "connect_ctx_base_completion_func w = Inr w1"
    "vstep cf (m_op (connect_ctx (rc w))) w1 = Inr w'"
    by (auto simp add: completion_func_def async_context_completion_func_def
        split: sum.splits)
  from w1(2) have "step cf w1 = Inr w'"
    by (cases "m_op (connect_ctx (rc w))") (simp_all add: vstep_def)
  from step_binding [OF assms(1) this] connect_ctx_base_binding [OF w1(1)]
  show ?thesis by simp
qed

lemma io_connect_and_send_binding:
  assumes "\<forall>v v'. cf v = Inr v' \<longrightarrow> binding v' = binding v"
    "io_connect_and_send cf host service b n w = Inr (done, w')"
  shows "binding w' = binding w"
proof -
  let ?v = "w\<lparr>rc := (rc w)\<lparr>hostname := host, servicename := service, buffer := b,
                          buffer_len := n, state := on_start, sync := True\<rparr>\<rparr>"
  from assms(2) have "step cf ?v = Inr w'"
    by (auto simp add: io_connect_and_send_def split: sum.splits)
  from step_binding [OF assms(1) this] show ?thesis by (simp add: binding_def)
qed

lemma constructor_binds: "bound_to_rc (w\<lparr>rc := resolve_and_connect_context_ctor raw\<rparr>)"
  by (simp add: bound_to_rc_def resolve_and_connect_context_ctor_def async_context_ctor_def)

lemma suspended_resolve_resumes:
  assumes "resolve_pending (os_resolver w)" "bound_to_rc w" "quiet w" "iocp_post_error w = None"
  shows "io_connect_and_send cf host service b n w
           = Inr (False, suspended_on_resolve host service b n w)
     \<and> state (rc (suspended_on_resolve host service b n w)) = on_resolve
     \<and> drive cf (Suc 0) (suspended_on_resolve host service b n w)
         = label_on_resolve cf (lookup_delivered (suspended_on_resolve host service b n w))"
proof -
  let ?w1 = "suspended_on_resolve host service b n w"
  from assms have w1: "os_inflight ?w1 = [resolve_ctx_ptr]" "iocp_queue ?w1 = []"
    "iocp_wait_error ?w1 = None" "iocp_post_error ?w1 = None"
    "m_iocp (base (resolve_ctx (rc ?w1))) = iocp_handle ?w1"
    by (simp_all add: suspended_on_resolve_def started_def resolve_eq set_resolve_ctx_def
        quiet_def)
  from assms have s: "state (rc ?w1) = on_resolve"
    "m_op (resolve_ctx (rc (lookup_delivered ?w1))) = rc_op"
    "state (rc (lookup_delivered ?w1)) = on_resolve"
    by (simp_all add: lookup_delivered_def suspended_on_resolve_def started_def resolve_eq
        set_resolve_ctx_def bound_to_rc_def)
  have "drive cf (Suc 0) ?w1 = label_on_resolve cf (lookup_delivered ?w1)"
    using drive_delivers_resolve [OF w1, of cf 0] s(2,3)
    by (simp add: lookup_delivered_def [symmetric] completion_func_resolve_resumes
        del: drive.simps)
  with io_connect_and_send_suspends [OF assms(1), of cf host service b n] s(1)
  show ?thesis by simp
qed

lemma suspended_connect_resumes:
  assumes "iter (rc w) = c # rest" "os_sockets w = a # bs" "socket_ready a"
    "connect_pending a" "bound_to_rc w" "quiet w"
  shows "\<exists>w1. for_loop cf loop_condition w = Inr w1
     \<and> state (rc w1) = on_connect
     \<and> os_inflight w1 = [connect_ctx_ptr]
     \<and> drive cf (Suc 0) w1 =
         (case connect_ctx_base_completion_func (w1\<lparr>os_inflight := [], iocp_queue := []\<rparr>) of
            Inl e \<Rightarrow> Inl e
          | Inr w' \<Rightarrow> for_loop cf label_on_connect w')"
  using assms
  by (simp add: loop_condition_unfold open_and_bind_ready issue_connect_pending
      connect_pending_def bound_to_rc_def quiet_def drive_delivers_connect
      completion_func_connect_resumes del: drive.simps)


lemma fixup_failure_raises:
  assumes "iter (rc w) = c # rest" "os_sockets w = a # bs" "socket_ready a"
    "connect_pending a" "ret (ans_WSAGetOverlappedResult a) \<noteq> 0"
    "ret (ans_setsockopt a) \<noteq> 0" "bound_to_rc w" "quiet w"
  shows "then_drive cf (Suc 0) (for_loop cf loop_condition w)
     = Inl (winsock_error (last_error (ans_setsockopt a)))"
proof -
  from assms have a: "ret (ans_WSAIoctl a) = 0" "ret (ans_ConnectEx a) = 0"
    "last_error (ans_ConnectEx a) = ERROR_IO_PENDING"
    by (simp_all add: connect_pending_def)
  from assms have w: "m_op (connect_ctx (rc w)) = rc_op" "os_inflight w = []"
    "iocp_queue w = []" "iocp_wait_error w = None" "m_op (resolve_ctx (rc w)) = rc_op"
    by (simp_all add: bound_to_rc_def quiet_def)
  show ?thesis
    using assms(1-3,5,6) a w
    by (simp add: loop_condition_unfold open_and_bind_ready issue_connect_pending
        then_drive_def [of cf "Suc 0"] drive_delivers_connect
        completion_func_connect_resumes connect_ctx_base_raises del: drive.simps)
qed

text \<open>
  Claim C4 (amended). The constructor of the operation object binds both embedded contexts
  to it, whatever the memory held, and neither a hook, nor \<open>step\<close>, nor
  \<open>connect_and_send\<close> changes the owner of an embedded context (the operation's own
  \<open>completion_func\<close>, the caller's code, is assumed not to). For a world whose embedded
  contexts are bound to the operation object: the hook of the resolve context is one
  invocation of \<open>step\<close> (its base bookkeeping is empty); the hook of the connect context
  first runs the base bookkeeping (the overlapped result, then the post-connect fixup) and,
  if that returns, is one invocation of \<open>step\<close> on the world it leaves; if the bookkeeping
  raises, so does the hook, and \<open>step\<close> is not invoked. The invoked \<open>step\<close> resumes at the
  tag recorded before the suspending call: when the lookup is pending, \<open>connect_and_send\<close>
  returns false in a world whose tag is \<open>on_resolve\<close>, and the delivery of the completion
  runs the code at \<open>case on_resolve:\<close>; when a candidate's connect is pending, \<open>step\<close>
  returns in a world whose tag is \<open>on_connect\<close> with that connect in flight, and the
  delivery of the completion runs the bookkeeping and then the code at \<open>case on_connect:\<close>.
\<close>

theorem bound_hook_resumes_owner:
  "bound_to_rc (w\<lparr>rc := resolve_and_connect_context_ctor raw\<rparr>)
   \<and> ((\<forall>v v'. cf v = Inr v' \<longrightarrow> binding v' = binding v) \<longrightarrow>
        (\<forall>p w'. completion_func cf p w = Inr w' \<longrightarrow> binding w' = binding w)
        \<and> (\<forall>w'. step cf w = Inr w' \<longrightarrow> binding w' = binding w)
        \<and> (\<forall>done w'. io_connect_and_send cf host service b n w = Inr (done, w')
              \<longrightarrow> binding w' = binding w))
   \<and> (bound_to_rc w \<longrightarrow>
        completion_func cf resolve_ctx_ptr w = step cf w
        \<and> completion_func cf connect_ctx_ptr w =
            (case connect_ctx_base_completion_func w of
               Inl e \<Rightarrow> Inl e | Inr w' \<Rightarrow> step cf w'))
   \<and> (bound_to_rc w \<and> quiet w \<and> iocp_post_error w = None
        \<and> resolve_pending (os_resolver w) \<longrightarrow>
          io_connect_and_send cf host service b n w
             = Inr (False, suspended_on_resolve host service b n w)
          \<and> state (rc (suspended_on_resolve host service b n w)) = on_resolve
          \<and> drive cf (Suc 0) (suspended_on_resolve host service b n w)
             = label_on_resolve cf (lookup_delivered (suspended_on_resolve host service b n w)))
   \<and> (bound_to_rc w \<and> quiet w \<and> iter (rc w) = c # rest \<and> os_sockets w = a # bs
        \<and> socket_ready a \<and> connect_pending a \<longrightarrow>
          (\<exists>w1. for_loop cf loop_condition w = Inr w1
             \<and> state (rc w1) = on_connect
             \<and> os_inflight w1 = [connect_ctx_ptr]
             \<and> drive cf (Suc 0) w1 =
                 (case connect_ctx_base_completion_func
                         (w1\<lparr>os_inflight := [], iocp_queue := []\<rparr>) of
                    Inl e \<Rightarrow> Inl e
                  | Inr w' \<Rightarrow> for_loop cf label_on_connect w')))"
proof -
  note 1 = constructor_binds [where w = w and raw = raw]
  have 2: "(\<forall>v v'. cf v = Inr v' \<longrightarrow> binding v' = binding v) \<longrightarrow>
        (\<forall>p w'. completion_func cf p w = Inr w' \<longrightarrow> binding w' = binding w)
        \<and> (\<forall>w'. step cf w = Inr w' \<longrightarrow> binding w' = binding w)
        \<and> (\<forall>done w'. io_connect_and_send cf host service b n w = Inr (done, w')
              \<longrightarrow> binding w' = binding w)"
    using hook_binding [of cf _ w] step_binding [of cf w]
      io_connect_and_send_binding [of cf host service b n w]
    by blast
  have 3: "bound_to_rc w \<longrightarrow>
        completion_func cf resolve_ctx_ptr w = step cf w
        \<and> completion_func cf connect_ctx_ptr w =
            (case connect_ctx_base_completion_func w of
               Inl e \<Rightarrow> Inl e | Inr w' \<Rightarrow> step cf w')"
    using hook_of_resolve_ctx [of w cf] hook_of_connect_ctx [of w cf] by blast
  have 4: "bound_to_rc w \<and> quiet w \<and> iocp_post_error w = None
        \<and> resolve_pending (os_resolver w) \<longrightarrow>
          io_connect_and_send cf host service b n w
             = Inr (False, suspended_on_resolve host service b n w)
          \<and> state (rc (suspended_on_resolve host service b n w)) = on_resolve
          \<and> drive cf (Suc 0) (suspended_on_resolve host service b n w)
             = label_on_resolve cf (lookup_delivered (suspended_on_resolve host service b n w))"
    using suspended_resolve_resumes [of w cf host service b n] by blast
  have 5: "bound_to_rc w \<and> quiet w \<and> iter (rc w) = c # rest \<and> os_sockets w = a # bs
        \<and> socket_ready a \<and> connect_pending a \<longrightarrow>
          (\<exists>w1. for_loop cf loop_condition w = Inr w1
             \<and> state (rc w1) = on_connect
             \<and> os_inflight w1 = [connect_ctx_ptr]
             \<and> drive cf (Suc 0) w1 =
                 (case connect_ctx_base_completion_func
                         (w1\<lparr>os_inflight := [], iocp_queue := []\<rparr>) of
                    Inl e \<Rightarrow> Inl e
                  | Inr w' \<Rightarrow> for_loop cf label_on_connect w'))"
    using suspended_connect_resumes [of w c rest a bs cf] by blast
  from 1 2 3 4 5 show ?thesis by (intro conjI)
qed

theorem bound_hook_resumes_owner_witness:
  "\<not> bound_to_rc (demo_loop [demo_candidate 2] [succeeds_later 100]\<lparr>rc := raw_rc\<rparr>)
   \<and> bound_to_rc (demo_loop [demo_candidate 2] [succeeds_later 100]
                    \<lparr>rc := resolve_and_connect_context_ctor raw_rc\<rparr>)
   \<and> (\<exists>w1 wf. for_loop Inr loop_condition (demo_loop [demo_candidate 2] [succeeds_later 100])
                 = Inr w1
        \<and> state (rc w1) = on_connect
        \<and> os_inflight w1 = [connect_ctx_ptr]
        \<and> (case connect_ctx_base_completion_func (w1\<lparr>os_inflight := [], iocp_queue := []\<rparr>) of
              Inl e \<Rightarrow> Inl e
            | Inr w' \<Rightarrow> for_loop Inr label_on_connect w') = Inr wf
        \<and> drive Inr (Suc 0) w1 = Inr wf
        \<and> m_error (rc wf) = ERROR_SUCCESS \<and> m_transferred (rc wf) = 9 \<and> m_flags (rc wf) = 4
        \<and> os_log wf =
            [call_WSASocket 2 1 6,
             call_bind 100 \<lparr>sa_family = 2, sa_data = replicate 126 0\<rparr> 16,
             call_ConnectEx 100 (ai_addr (demo_candidate 2)) 16 (Some [71, 69, 84]) 3,
             call_setsockopt 100])"
proof -
  let ?w = "demo_loop [demo_candidate 2] [succeeds_later 100]"
  have r: "\<not> bound_to_rc (?w\<lparr>rc := raw_rc\<rparr>)"
    by (simp add: bound_to_rc_def raw_rc_def)
  have h: "bound_to_rc ?w" "quiet ?w" "iter (rc ?w) = demo_candidate 2 # []"
    "os_sockets ?w = succeeds_later 100 # []"
    by (simp_all add: demo_loop_def demo_world_def demo_rc_def bound_to_rc_def quiet_def)
  have a: "socket_ready (succeeds_later 100)" "connect_pending (succeeds_later 100)"
    "ret (ans_WSAIoctl (succeeds_later 100)) = 0" "ret (ans_ConnectEx (succeeds_later 100)) = 0"
    "last_error (ans_ConnectEx (succeeds_later 100)) = ERROR_IO_PENDING"
    "ret (ans_WSAGetOverlappedResult (succeeds_later 100)) \<noteq> 0"
    "ret (ans_setsockopt (succeeds_later 100)) = 0"
    by (simp_all add: socket_ready_def connect_pending_def succeeds_later_def demo_socket_def
        demo_answer_def no_answer_def INVALID_SOCKET_def)
  from bound_hook_resumes_owner [where w = ?w and raw = raw_rc and cf = Inr
      and c = "demo_candidate 2" and rest = "[]" and a = "succeeds_later 100" and bs = "[]"]
    h a(1,2)
  obtain w1 where w1: "for_loop Inr loop_condition ?w = Inr w1" "state (rc w1) = on_connect"
    "os_inflight w1 = [connect_ctx_ptr]"
    "drive Inr (Suc 0) w1 =
       (case connect_ctx_base_completion_func (w1\<lparr>os_inflight := [], iocp_queue := []\<rparr>) of
          Inl e \<Rightarrow> Inl e
        | Inr w' \<Rightarrow> for_loop Inr label_on_connect w')"
    "bound_to_rc (?w\<lparr>rc := resolve_and_connect_context_ctor raw_rc\<rparr>)"
    by blast
  from successful_attempt_async [OF h(3,4) a(1,3-7) h(1,2), of Inr]
  obtain wf where wf: "then_drive Inr (Suc 0) (for_loop Inr loop_condition ?w) = complete Inr wf"
    "after_successful_attempt ?w wf"
    by blast
  from wf(1) w1(1) have d: "drive Inr (Suc 0) w1 = Inr wf"
    by (simp add: then_drive_def complete_def del: drive.simps)
  from wf(2) have o: "m_error (rc wf) = ERROR_SUCCESS" "m_transferred (rc wf) = 9"
    "m_flags (rc wf) = 4"
    by (simp_all add: after_successful_attempt_def attempt_bytes_def attempt_flags_def
        connect_pending_def stored_def succeeds_later_def demo_socket_def demo_answer_def
        no_answer_def demo_loop_def demo_world_def demo_rc_def demo_ctx_def
        ERROR_IO_PENDING_def)
  from wf(2) have l: "os_log wf =
            [call_WSASocket 2 1 6,
             call_bind 100 \<lparr>sa_family = 2, sa_data = replicate 126 0\<rparr> 16,
             call_ConnectEx 100 (ai_addr (demo_candidate 2)) 16 (Some [71, 69, 84]) 3,
             call_setsockopt 100]"
    by (simp add: after_successful_attempt_def successful_attempt_calls_def opening_calls_def
        connect_calls_def connect_pending_def succeeds_later_def demo_socket_def
        demo_answer_def no_answer_def demo_loop_def demo_world_def demo_rc_def
        demo_candidate_def ERROR_IO_PENDING_def INVALID_SOCKET_def)
  from w1(4) d
  have e: "(case connect_ctx_base_completion_func (w1\<lparr>os_inflight := [], iocp_queue := []\<rparr>) of
              Inl e \<Rightarrow> Inl e
            | Inr w' \<Rightarrow> for_loop Inr label_on_connect w') = Inr wf"
    by (simp del: drive.simps)
  from r w1(1-3,5) e d o l show ?thesis by blast
qed

text \<open>
  Claim C4 as stated (the hook invokes \<open>step\<close> unconditionally) fails: with one candidate
  whose connect succeeds after pending and whose fixup fails, the delivery of the completion
  raises \<open>winsock_error\<close> out of the hook whatever the operation's \<open>completion_func\<close>
  is; \<open>step\<close>, which would end by calling it, is not resumed.
\<close>

theorem failed_fixup_skips_step:
  "\<forall>cf. then_drive cf (Suc 0)
          (step cf (demo_world on_resolve [demo_candidate 2] [fixup_fails 100] demo_resolver))
        = Inl (winsock_error 10022)"
proof
  fix cf
  let ?w = "demo_world on_resolve [demo_candidate 2] [fixup_fails 100] demo_resolver"
  let ?v = "?w\<lparr>rc := (rc ?w)\<lparr>iter := [demo_candidate 2]\<rparr>\<rparr>"
  have s: "step cf ?w = for_loop cf loop_condition ?v"
    by (simp add: step_def label_on_resolve_def demo_world_def demo_rc_def has_error_def
        status_def result_def ERROR_SUCCESS_def)
  have a: "socket_ready (fixup_fails 100)" "connect_pending (fixup_fails 100)"
    "ret (ans_WSAGetOverlappedResult (fixup_fails 100)) \<noteq> 0"
    "ret (ans_setsockopt (fixup_fails 100)) \<noteq> 0"
    by (simp_all add: socket_ready_def connect_pending_def fixup_fails_def demo_socket_def
        demo_answer_def no_answer_def INVALID_SOCKET_def)
  have e: "last_error (ans_setsockopt (fixup_fails 100)) = 10022"
    by (simp add: fixup_fails_def demo_socket_def demo_answer_def)
  have w: "iter (rc ?v) = [demo_candidate 2]" "os_sockets ?v = [fixup_fails 100]"
    "bound_to_rc ?v" "quiet ?v"
    by (simp_all add: demo_world_def demo_rc_def bound_to_rc_def quiet_def)
  from fixup_failure_raises [OF w(1,2) a w(3,4), of cf] s e
  show "then_drive cf (Suc 0) (step cf ?w) = Inl (winsock_error 10022)"
    by simp
qed

section \<open>The whole operation with a pending lookup\<close>

lemma pending_lookup_enters_loop:
  assumes "resolve_pending (os_resolver w)" "resolve_error (os_resolver w) = ERROR_SUCCESS"
    "resolved_candidates (os_resolver w) (base (resolve_ctx (rc w))) = cands"
    "bound_to_rc w" "quiet w" "iocp_post_error w = None"
  shows "\<exists>w2. (\<forall>k. drive cf (Suc k) (suspended_on_resolve host service b n w)
                    = then_drive cf k (for_loop cf loop_condition w2))
     \<and> iter (rc w2) = cands \<and> os_sockets w2 = os_sockets w
     \<and> os_log w2 = os_log w @ [call_GetAddrInfoExW host service None]
     \<and> sock w2 = sock w \<and> buffer (rc w2) = b \<and> buffer_len (rc w2) = n \<and> \<not> sync (rc w2)
     \<and> base (connect_ctx (rc w2)) = base (connect_ctx (rc w))
     \<and> bound_to_rc w2 \<and> quiet w2"
proof -
  let ?w1 = "suspended_on_resolve host service b n w"
  let ?w2 = "lookup_delivered ?w1"
  let ?v = "?w2\<lparr>rc := (rc ?w2)\<lparr>iter := cands\<rparr>\<rparr>"
  from assms have w1: "os_inflight ?w1 = [resolve_ctx_ptr]" "iocp_queue ?w1 = []"
    "iocp_wait_error ?w1 = None" "iocp_post_error ?w1 = None"
    "m_iocp (base (resolve_ctx (rc ?w1))) = iocp_handle ?w1"
    by (simp_all add: suspended_on_resolve_def started_def resolve_eq set_resolve_ctx_def
        quiet_def)
  from assms have w2: "m_op (resolve_ctx (rc ?w2)) = rc_op" "state (rc ?w2) = on_resolve"
    "\<not> has_error (base (resolve_ctx (rc ?w2)))" "result (base (resolve_ctx (rc ?w2))) = cands"
    by (simp_all add: lookup_delivered_def suspended_on_resolve_def started_def resolve_eq
        set_resolve_ctx_def bound_to_rc_def has_error_def status_def result_def
        resolve_error_def resolved_candidates_def looked_up_result Let_def
        split: option.splits if_splits)
  have d: "drive cf (Suc k) ?w1 = then_drive cf k (for_loop cf loop_condition ?v)" for k
    using drive_delivers_resolve [OF w1, of cf k] w2
    by (simp add: lookup_delivered_def [symmetric] completion_func_resolve_resumes
        label_on_resolve_def del: drive.simps)
  from assms have f: "iter (rc ?v) = cands" "os_sockets ?v = os_sockets w"
    "os_log ?v = os_log w @ [call_GetAddrInfoExW host service None]"
    "sock ?v = sock w" "buffer (rc ?v) = b" "buffer_len (rc ?v) = n" "\<not> sync (rc ?v)"
    "base (connect_ctx (rc ?v)) = base (connect_ctx (rc w))" "bound_to_rc ?v" "quiet ?v"
    by (simp_all add: quiet_def bound_to_rc_def lookup_delivered_def suspended_on_resolve_def
        started_def resolve_eq set_resolve_ctx_def)
  from d f show ?thesis by blast
qed

lemma pending_lookup_all_fail:
  assumes "resolve_pending (os_resolver w)" "resolve_error (os_resolver w) = ERROR_SUCCESS"
    "resolved_candidates (os_resolver w) (base (resolve_ctx (rc w))) = cands" "cands \<noteq> []"
    "length as = length cands" "os_sockets w = as @ bs" "\<forall>a \<in> set as. connect_fails a"
    "bound_to_rc w" "quiet w" "iocp_post_error w = None"
  shows "\<exists>w1 k wf. io_connect_and_send cf host service b n w = Inr (False, w1)
     \<and> k \<le> length cands \<and> drive cf (Suc k) w1 = cf wf
     \<and> operation_failed host service b n w cands as wf"
proof -
  from pending_lookup_enters_loop [OF assms(1-3,8-10), of cf host service b n]
  obtain w2 where w2:
    "\<And>k. drive cf (Suc k) (suspended_on_resolve host service b n w)
            = then_drive cf k (for_loop cf loop_condition w2)"
    "iter (rc w2) = cands" "os_sockets w2 = os_sockets w"
    "os_log w2 = os_log w @ [call_GetAddrInfoExW host service None]"
    "sock w2 = sock w" "buffer (rc w2) = b" "buffer_len (rc w2) = n" "\<not> sync (rc w2)"
    "base (connect_ctx (rc w2)) = base (connect_ctx (rc w))" "bound_to_rc w2" "quiet w2"
    by blast
  from w2(3) assms(6) have s: "os_sockets w2 = as @ bs" by simp
  from loop_all_fail [OF w2(2) assms(4,5) s assms(7) w2(10,11), of cf]
  obtain k wf where k: "k \<le> length cands"
    "then_drive cf k (for_loop cf loop_condition w2) = complete cf wf" "all_failed w2 cands as wf"
    by blast
  from k(3) w2(8) have c: "complete cf wf = cf wf" by (simp add: all_failed_def complete_def)
  from k(3) w2(2-11) assms(6) have "operation_failed host service b n w cands as wf"
    by (auto simp add: all_failed_def operation_failed_def outcome_of_connect_ctx_def
        transferred_def flags_def)
  with io_connect_and_send_suspends [OF assms(1), of cf host service b n] w2(1) [of k] k(1,2) c
  show ?thesis by auto
qed

lemma pending_lookup_fail_then_succeed:
  assumes "resolve_pending (os_resolver w)" "resolve_error (os_resolver w) = ERROR_SUCCESS"
    "resolved_candidates (os_resolver w) (base (resolve_ctx (rc w))) = fs @ c # rest"
    "length fas = length fs" "os_sockets w = fas @ a # bs"
    "\<forall>x \<in> set fas. connect_fails x" "connect_succeeds a"
    "bound_to_rc w" "quiet w" "iocp_post_error w = None"
  shows "\<exists>w1 k wf. io_connect_and_send cf host service b n w = Inr (False, w1)
     \<and> k \<le> Suc (length fs) \<and> drive cf (Suc k) w1 = cf wf
     \<and> operation_connected host service b n w fs fas c rest a wf"
proof -
  from pending_lookup_enters_loop [OF assms(1-3,8-10), of cf host service b n]
  obtain w2 where w2:
    "\<And>k. drive cf (Suc k) (suspended_on_resolve host service b n w)
            = then_drive cf k (for_loop cf loop_condition w2)"
    "iter (rc w2) = fs @ c # rest" "os_sockets w2 = os_sockets w"
    "os_log w2 = os_log w @ [call_GetAddrInfoExW host service None]"
    "sock w2 = sock w" "buffer (rc w2) = b" "buffer_len (rc w2) = n" "\<not> sync (rc w2)"
    "base (connect_ctx (rc w2)) = base (connect_ctx (rc w))" "bound_to_rc w2" "quiet w2"
    by blast
  from w2(3) assms(5) have s: "os_sockets w2 = fas @ a # bs" by simp
  from loop_fail_then_succeed [OF w2(2) assms(4) s assms(6,7) w2(10,11), of cf]
  obtain k wf where k: "k \<le> Suc (length fs)"
    "then_drive cf k (for_loop cf loop_condition w2) = complete cf wf"
    "succeeded_after w2 fs fas c rest a wf"
    by blast
  from k(3) w2(8) have c: "complete cf wf = cf wf"
    by (simp add: succeeded_after_def complete_def)
  from k(3) w2(2-11) assms(5) have "operation_connected host service b n w fs fas c rest a wf"
    by (auto simp add: succeeded_after_def operation_connected_def outcome_of_connect_ctx_def
        transferred_def flags_def has_error_def status_def)
  with io_connect_and_send_suspends [OF assms(1), of cf host service b n] w2(1) [of k] k(1,2) c
  show ?thesis by auto
qed

subsection \<open>All candidates fail\<close>

text \<open>
  Claim C2. The claim says that with N candidates that all fail every candidate is tried
  once, in list order, and that the final outcome is the last candidate's failure code with
  that candidate's byte count and flags. \<open>io::connect_and_send\<close> is evaluated on two
  inputs. First, the lookup completes at once and stores two candidates: the call returns
  true, the only system call is \<open>GetAddrInfoExW\<close>, no socket is created for either
  candidate, and the outcome fields still hold what they held before the call (1, 57005, 8).
  Second, the lookup is pending and delivers two candidates; the connect of the first fails
  after having been pending, with 7 bytes reported, and the connect of the second fails at
  once, the system storing no byte count: the final outcome is the second candidate's code
  10051 with the byte count 7 of the first.
\<close>

theorem candidates_dropped_or_count_of_earlier_candidate:
  "(\<exists>wf. io_connect_and_send Inr ''example.org'' ''80'' None 0
            (demo_world on_start [] [fails_at_once 100, fails_later 104]
               (demo_resolver\<lparr>ans_ppResult := Some [demo_candidate 2, demo_candidate 23]\<rparr>))
          = Inr (True, wf)
        \<and> m_error (rc wf) = 1 \<and> m_transferred (rc wf) = 57005 \<and> m_flags (rc wf) = 8
        \<and> os_log wf = [call_GetAddrInfoExW ''example.org'' ''80'' None]
        \<and> os_sockets wf = [fails_at_once 100, fails_later 104])
   \<and> (\<exists>w1 k wf. io_connect_and_send Inr ''example.org'' ''80'' None 0
                    (demo_world on_start [] [fails_later 100, fails_at_once 104]
                       (delivers [demo_candidate 2, demo_candidate 23]))
                  = Inr (False, w1)
        \<and> k \<le> 2 \<and> drive Inr (Suc k) w1 = Inr wf
        \<and> m_error (rc wf) = 10051 \<and> m_transferred (rc wf) = 7 \<and> m_flags (rc wf) = 0
        \<and> os_log wf =
            [call_GetAddrInfoExW ''example.org'' ''80'' None,
             call_WSASocket 2 1 6,
             call_bind 100 \<lparr>sa_family = 2, sa_data = replicate 126 0\<rparr> 16,
             call_ConnectEx 100 (ai_addr (demo_candidate 2)) 16 None 0,
             call_closesocket 100,
             call_WSASocket 23 1 6,
             call_bind 104 \<lparr>sa_family = 23, sa_data = replicate 126 0\<rparr> 16,
             call_ConnectEx 104 (ai_addr (demo_candidate 23)) 16 None 0,
             call_closesocket 104])"
proof -
  let ?ws = "demo_world on_start [] [fails_at_once 100, fails_later 104]
               (demo_resolver\<lparr>ans_ppResult := Some [demo_candidate 2, demo_candidate 23]\<rparr>)"
  let ?wa = "demo_world on_start [] [fails_later 100, fails_at_once 104]
               (delivers [demo_candidate 2, demo_candidate 23])"
  have s: "\<not> resolve_pending (os_resolver ?ws)"
    "resolve_error (os_resolver ?ws) = ERROR_SUCCESS"
    "resolved_candidates (os_resolver ?ws) (base (resolve_ctx (rc ?ws))) = []" "quiet ?ws"
    "m_error (rc ?ws) = 1" "m_transferred (rc ?ws) = 57005" "m_flags (rc ?ws) = 8"
    "os_log ?ws = []" "os_sockets ?ws = [fails_at_once 100, fails_later 104]"
    by (simp_all add: demo_world_def demo_rc_def demo_resolver_def resolve_error_def
        resolved_candidates_def resolve_pending_def quiet_def
        ERROR_SUCCESS_def ERROR_IO_PENDING_def)
  from no_candidates_sync [OF s(1-4), of "''example.org''" "''80''" None 0]
  obtain wf where "io_connect_and_send Inr ''example.org'' ''80'' None 0 ?ws = Inr (True, wf)"
    "no_candidates_left ''example.org'' ''80'' ?ws wf"
    by blast
  with s(5-9) have 1: "\<exists>wf. io_connect_and_send Inr ''example.org'' ''80'' None 0 ?ws
          = Inr (True, wf)
        \<and> m_error (rc wf) = 1 \<and> m_transferred (rc wf) = 57005 \<and> m_flags (rc wf) = 8
        \<and> os_log wf = [call_GetAddrInfoExW ''example.org'' ''80'' None]
        \<and> os_sockets wf = [fails_at_once 100, fails_later 104]"
    by (simp add: no_candidates_left_def outcome_untouched_def)
  have f: "connect_fails (fails_later 100)" "connect_fails (fails_at_once 104)"
    by (simp_all add: connect_fails_def socket_ready_def connect_error_def fails_at_once_def
        fails_later_def demo_socket_def demo_answer_def no_answer_def INVALID_SOCKET_def
        ERROR_SUCCESS_def ERROR_IO_PENDING_def)
  then have fa: "\<forall>a \<in> set [fails_later 100, fails_at_once 104]. connect_fails a" by simp
  have a: "resolve_pending (os_resolver ?wa)" "resolve_error (os_resolver ?wa) = ERROR_SUCCESS"
    "resolved_candidates (os_resolver ?wa) (base (resolve_ctx (rc ?wa)))
       = [demo_candidate 2, demo_candidate 23]"
    "os_sockets ?wa = [fails_later 100, fails_at_once 104] @ []"
    "bound_to_rc ?wa" "quiet ?wa" "iocp_post_error ?wa = None"
    by (simp_all add: demo_world_def demo_rc_def demo_resolver_def delivers_def
        resolve_error_def resolved_candidates_def resolve_pending_def bound_to_rc_def
        quiet_def ERROR_SUCCESS_def)
  from pending_lookup_all_fail [OF a(1-3) _ _ a(4) fa a(5-7),
      of Inr "''example.org''" "''80''" None 0]
  obtain w1 k wf where k:
    "io_connect_and_send Inr ''example.org'' ''80'' None 0 ?wa = Inr (False, w1)"
    "k \<le> Suc (Suc 0)" "drive Inr (Suc k) w1 = Inr wf"
    "operation_failed ''example.org'' ''80'' None 0 ?wa
       [demo_candidate 2, demo_candidate 23] [fails_later 100, fails_at_once 104] wf"
    by (auto simp add: numeral_2_eq_2 simp del: drive.simps)
  from k(4) have o: "m_error (rc wf) = 10051" "m_transferred (rc wf) = 7" "m_flags (rc wf) = 0"
    by (simp_all add: operation_failed_def connect_error_def attempt_bytes_def
        attempt_flags_def connect_pending_def stored_def fails_at_once_def fails_later_def
        demo_socket_def demo_answer_def no_answer_def demo_world_def demo_rc_def demo_ctx_def
        ERROR_IO_PENDING_def)
  from k(4) have l: "os_log wf =
            [call_GetAddrInfoExW ''example.org'' ''80'' None,
             call_WSASocket 2 1 6,
             call_bind 100 \<lparr>sa_family = 2, sa_data = replicate 126 0\<rparr> 16,
             call_ConnectEx 100 (ai_addr (demo_candidate 2)) 16 None 0,
             call_closesocket 100,
             call_WSASocket 23 1 6,
             call_bind 104 \<lparr>sa_family = 23, sa_data = replicate 126 0\<rparr> 16,
             call_ConnectEx 104 (ai_addr (demo_candidate 23)) 16 None 0,
             call_closesocket 104]"
    by (simp add: operation_failed_def failed_attempt_calls_def opening_calls_def
        connect_calls_def fails_at_once_def fails_later_def demo_socket_def demo_answer_def
        no_answer_def demo_world_def demo_rc_def demo_candidate_def)
  from k(1-3) o l have 2: "\<exists>w1 k wf. io_connect_and_send Inr ''example.org'' ''80'' None 0 ?wa
                  = Inr (False, w1)
        \<and> k \<le> 2 \<and> drive Inr (Suc k) w1 = Inr wf
        \<and> m_error (rc wf) = 10051 \<and> m_transferred (rc wf) = 7 \<and> m_flags (rc wf) = 0
        \<and> os_log wf =
            [call_GetAddrInfoExW ''example.org'' ''80'' None,
             call_WSASocket 2 1 6,
             call_bind 100 \<lparr>sa_family = 2, sa_data = replicate 126 0\<rparr> 16,
             call_ConnectEx 100 (ai_addr (demo_candidate 2)) 16 None 0,
             call_closesocket 100,
             call_WSASocket 23 1 6,
             call_bind 104 \<lparr>sa_family = 23, sa_data = replicate 126 0\<rparr> 16,
             call_ConnectEx 104 (ai_addr (demo_candidate 23)) 16 None 0,
             call_closesocket 104]"
    by (auto simp add: numeral_2_eq_2 simp del: drive.simps)
  from 1 2 show ?thesis by blast
qed

subsection \<open>Failing candidates followed by a successful one\<close>

text \<open>
  Claim C3 (amended). \<open>io::connect_and_send\<close> is called, the lookup is pending and hands
  over the candidate list \<open>fs @ c # rest\<close> without error; the candidates \<open>fs\<close> fail and
  the connect of \<open>c\<close> succeeds, its post-connect fixup too if the connect was pending. Then
  the call returns false and, after the delivery of the lookup's completion and at most one
  more per tried candidate, the operation ends with \<open>this->completion_func()\<close> in a world
  \<open>wf\<close> where: the outcome is ERROR_SUCCESS with the byte count and the flags that the
  attempt on \<open>c\<close> left in the connect context; the calls made are the lookup, the failed
  attempts on \<open>fs\<close>, once each and in list order, each ending with the close of its socket
  before the next socket is created, and the attempt on \<open>c\<close>, whose socket stays open in
  \<open>*sock\<close>; the iteration stands at \<open>c\<close> and no socket was created for \<open>rest\<close>.
\<close>

theorem failing_candidates_then_success:
  assumes "resolve_pending (os_resolver w)" "resolve_error (os_resolver w) = ERROR_SUCCESS"
    "resolved_candidates (os_resolver w) (base (resolve_ctx (rc w))) = fs @ c # rest"
    "length fas = length fs" "os_sockets w = fas @ a # bs"
    "\<forall>x \<in> set fas. connect_fails x" "connect_succeeds a"
    "bound_to_rc w" "quiet w" "iocp_post_error w = None"
  shows "\<exists>w1 k wf. io_connect_and_send cf host service b n w = Inr (False, w1)
     \<and> k \<le> Suc (length fs) \<and> drive cf (Suc k) w1 = cf wf
     \<and> operation_connected host service b n w fs fas c rest a wf"
  using pending_lookup_fail_then_succeed [OF assms] .

theorem failing_candidates_then_success_witness:
  "connect_fails (fails_later 100) \<and> connect_succeeds (succeeds_later 104)
   \<and> (\<exists>w1 k wf. io_connect_and_send Inr ''example.org'' ''80'' (Some [71, 69, 84]) 3
                    (demo_world on_start [] [fails_later 100, succeeds_later 104, fails_at_once 108]
                       (delivers [demo_candidate 2, demo_candidate 23, demo_candidate 2]))
                  = Inr (False, w1)
        \<and> k \<le> 2 \<and> drive Inr (Suc k) w1 = Inr wf
        \<and> m_error (rc wf) = ERROR_SUCCESS \<and> m_transferred (rc wf) = 9 \<and> m_flags (rc wf) = 4
        \<and> transferred (base (connect_ctx (rc wf))) = 9
        \<and> flags (base (connect_ctx (rc wf))) = 4
        \<and> sock wf = 104
        \<and> os_sockets wf = [fails_at_once 108]
        \<and> os_log wf =
            [call_GetAddrInfoExW ''example.org'' ''80'' None,
             call_WSASocket 2 1 6,
             call_bind 100 \<lparr>sa_family = 2, sa_data = replicate 126 0\<rparr> 16,
             call_ConnectEx 100 (ai_addr (demo_candidate 2)) 16 (Some [71, 69, 84]) 3,
             call_closesocket 100,
             call_WSASocket 23 1 6,
             call_bind 104 \<lparr>sa_family = 23, sa_data = replicate 126 0\<rparr> 16,
             call_ConnectEx 104 (ai_addr (demo_candidate 23)) 16 (Some [71, 69, 84]) 3,
             call_setsockopt 104])"
proof -
  let ?w = "demo_world on_start [] [fails_later 100, succeeds_later 104, fails_at_once 108]
              (delivers [demo_candidate 2, demo_candidate 23, demo_candidate 2])"
  have f: "connect_fails (fails_later 100)" "connect_succeeds (succeeds_later 104)"
    by (simp_all add: connect_fails_def connect_succeeds_def socket_ready_def connect_error_def
        succeeds_later_def fails_later_def demo_socket_def demo_answer_def no_answer_def
        INVALID_SOCKET_def ERROR_SUCCESS_def ERROR_IO_PENDING_def)
  then have fa: "\<forall>x \<in> set [fails_later 100]. connect_fails x" by simp
  have h: "resolve_pending (os_resolver ?w)" "resolve_error (os_resolver ?w) = ERROR_SUCCESS"
    "resolved_candidates (os_resolver ?w) (base (resolve_ctx (rc ?w)))
       = [demo_candidate 2] @ demo_candidate 23 # [demo_candidate 2]"
    "length [fails_later 100] = length [demo_candidate 2]"
    "os_sockets ?w = [fails_later 100] @ succeeds_later 104 # [fails_at_once 108]"
    "bound_to_rc ?w" "quiet ?w" "iocp_post_error ?w = None"
    by (simp_all add: demo_world_def demo_rc_def demo_resolver_def delivers_def
        resolve_error_def resolved_candidates_def resolve_pending_def bound_to_rc_def
        quiet_def ERROR_SUCCESS_def)
  from failing_candidates_then_success [OF h(1-5) fa f(2) h(6-8),
      of Inr "''example.org''" "''80''" "Some [71, 69, 84]" 3]
  obtain w1 k wf where k:
    "io_connect_and_send Inr ''example.org'' ''80'' (Some [71, 69, 84]) 3 ?w = Inr (False, w1)"
    "k \<le> Suc (Suc 0)" "drive Inr (Suc k) w1 = Inr wf"
    "operation_connected ''example.org'' ''80'' (Some [71, 69, 84]) 3 ?w [demo_candidate 2]
       [fails_later 100] (demo_candidate 23) [demo_candidate 2] (succeeds_later 104) wf"
    by (auto simp add: numeral_2_eq_2 simp del: drive.simps)
  from k(4) have o: "m_error (rc wf) = ERROR_SUCCESS" "m_transferred (rc wf) = 9"
    "m_flags (rc wf) = 4" "transferred (base (connect_ctx (rc wf))) = 9"
    "flags (base (connect_ctx (rc wf))) = 4" "sock wf = 104"
    "os_sockets wf = [fails_at_once 108]"
    by (simp_all add: operation_connected_def attempt_bytes_def attempt_flags_def
        connect_pending_def stored_def succeeds_later_def fails_later_def demo_socket_def
        demo_answer_def no_answer_def demo_world_def demo_rc_def demo_ctx_def
        ERROR_IO_PENDING_def)
  from k(4) have l: "os_log wf =
            [call_GetAddrInfoExW ''example.org'' ''80'' None,
             call_WSASocket 2 1 6,
             call_bind 100 \<lparr>sa_family = 2, sa_data = replicate 126 0\<rparr> 16,
             call_ConnectEx 100 (ai_addr (demo_candidate 2)) 16 (Some [71, 69, 84]) 3,
             call_closesocket 100,
             call_WSASocket 23 1 6,
             call_bind 104 \<lparr>sa_family = 23, sa_data = replicate 126 0\<rparr> 16,
             call_ConnectEx 104 (ai_addr (demo_candidate 23)) 16 (Some [71, 69, 84]) 3,
             call_setsockopt 104]"
    by (simp add: operation_connected_def failed_attempt_calls_def
        successful_attempt_calls_def opening_calls_def connect_calls_def connect_pending_def
        succeeds_later_def fails_later_def demo_socket_def demo_answer_def no_answer_def
        demo_world_def demo_rc_def demo_candidate_def ERROR_IO_PENDING_def INVALID_SOCKET_def)
  from f k(1-3) o l show ?thesis
    by (auto simp add: numeral_2_eq_2 simp del: drive.simps)
qed

text \<open>
  Claim C3 as stated fails when the connect of candidate N succeeds but its post-connect
  fixup does not: the lookup is pending and delivers two candidates, the connect of the
  first fails after having been pending, the connect of the second succeeds after having
  been pending and \<open>SO_UPDATE_CONNECT_CONTEXT\<close> then fails with 10022. The call returns
  false, and the third round of the caller's loop ends with \<open>winsock_error\<close>: the
  operation records no outcome and does not complete.
\<close>

theorem success_with_failed_fixup_records_nothing:
  "io_connect_and_send Inr ''example.org'' ''80'' None 0
     (demo_world on_start [] [fails_later 100, fixup_fails 104]
        (delivers [demo_candidate 2, demo_candidate 23]))
     = Inr (False, suspended_on_resolve ''example.org'' ''80'' None 0
                     (demo_world on_start [] [fails_later 100, fixup_fails 104]
                        (delivers [demo_candidate 2, demo_candidate 23])))
   \<and> drive Inr (Suc (Suc (Suc 0)))
        (suspended_on_resolve ''example.org'' ''80'' None 0
           (demo_world on_start [] [fails_later 100, fixup_fails 104]
              (delivers [demo_candidate 2, demo_candidate 23])))
     = Inl (winsock_error 10022)"
proof -
  let ?w = "demo_world on_start [] [fails_later 100, fixup_fails 104]
              (delivers [demo_candidate 2, demo_candidate 23])"
  have h: "resolve_pending (os_resolver ?w)" "resolve_error (os_resolver ?w) = ERROR_SUCCESS"
    "resolved_candidates (os_resolver ?w) (base (resolve_ctx (rc ?w)))
       = [demo_candidate 2, demo_candidate 23]"
    "bound_to_rc ?w" "quiet ?w" "iocp_post_error ?w = None"
    "os_sockets ?w = [fails_later 100, fixup_fails 104]"
    by (simp_all add: demo_world_def demo_rc_def demo_resolver_def delivers_def
        resolve_error_def resolved_candidates_def resolve_pending_def bound_to_rc_def
        quiet_def ERROR_SUCCESS_def)
  have a: "connect_fails (fails_later 100)" "connect_pending (fails_later 100)"
    "socket_ready (fixup_fails 104)" "connect_pending (fixup_fails 104)"
    "ret (ans_WSAGetOverlappedResult (fixup_fails 104)) \<noteq> 0"
    "ret (ans_setsockopt (fixup_fails 104)) \<noteq> 0"
    "last_error (ans_setsockopt (fixup_fails 104)) = 10022"
    by (simp_all add: connect_fails_def socket_ready_def connect_error_def connect_pending_def
        fails_later_def fixup_fails_def demo_socket_def demo_answer_def no_answer_def
        INVALID_SOCKET_def ERROR_SUCCESS_def ERROR_IO_PENDING_def)
  from pending_lookup_enters_loop [OF h(1-6), of Inr "''example.org''" "''80''" None 0]
  obtain w2 where w2:
    "\<And>k. drive Inr (Suc k) (suspended_on_resolve ''example.org'' ''80'' None 0 ?w)
            = then_drive Inr k (for_loop Inr loop_condition w2)"
    "iter (rc w2) = [demo_candidate 2, demo_candidate 23]" "os_sockets w2 = os_sockets ?w"
    "bound_to_rc w2" "quiet w2"
    by blast
  from w2(3) h(7) have s2: "os_sockets w2 = fails_later 100 # [fixup_fails 104]" by simp
  from failed_attempt_async [OF w2(2) _ s2 a(1,2) w2(4,5), of Inr]
  obtain w3 where w3:
    "\<And>k. then_drive Inr (Suc k) (for_loop Inr loop_condition w2)
            = then_drive Inr k (for_loop Inr loop_condition w3)"
    "after_failed_attempt w2 w3"
    by auto
  from w3(2) w2(2) s2 have v: "iter (rc w3) = [demo_candidate 23]"
    "os_sockets w3 = [fixup_fails 104]" "bound_to_rc w3" "quiet w3"
    by (simp_all add: after_failed_attempt_def)
  from fixup_failure_raises [OF v(1,2) a(3-6) v(3,4), of Inr] a(7)
  have "then_drive Inr (Suc 0) (for_loop Inr loop_condition w3) = Inl (winsock_error 10022)"
    by simp
  with w2(1) [of "Suc (Suc 0)"] w3(1) [of "Suc 0"]
  have "drive Inr (Suc (Suc (Suc 0))) (suspended_on_resolve ''example.org'' ''80'' None 0 ?w)
     = Inl (winsock_error 10022)"
    by simp
  with io_connect_and_send_suspends [OF h(1), of Inr "''example.org''" "''80''" None 0]
  show ?thesis by simp
qed

section \<open>The byte count after \<open>disconnect\<close>\<close>

text \<open>
  Claim C1. The claim says that a primitive that returns true has populated the error code,
  the byte count and the flags of its context. \<open>disconnect\<close> is evaluated on a context
  that still holds the byte count of an earlier operation, on a socket whose \<open>DisconnectEx\<close>
  succeeds at once: it returns true with the error code ERROR_SUCCESS, and the byte count is
  still the earlier operation's, 57005 (or 7 for a context that held 7). On the same context
  the path of \<open>disconnect\<close> taken when the extension function cannot be obtained does set
  the byte count, to 0.
\<close>

theorem disconnect_leaves_byte_count:
  "fst (disconnect 5 False connect_ctx_ptr demo_ctx
          (demo_os (no_socket\<lparr>ans_DisconnectEx := demo_answer 1 0\<rparr>)))
   \<and> status (fst (snd (disconnect 5 False connect_ctx_ptr demo_ctx
          (demo_os (no_socket\<lparr>ans_DisconnectEx := demo_answer 1 0\<rparr>))))) = ERROR_SUCCESS
   \<and> transferred (fst (snd (disconnect 5 False connect_ctx_ptr demo_ctx
          (demo_os (no_socket\<lparr>ans_DisconnectEx := demo_answer 1 0\<rparr>))))) = 57005
   \<and> transferred (fst (snd (disconnect 5 False connect_ctx_ptr (demo_ctx\<lparr>m_transferred := 7\<rparr>)
          (demo_os (no_socket\<lparr>ans_DisconnectEx := demo_answer 1 0\<rparr>))))) = 7
   \<and> fst (disconnect 5 False connect_ctx_ptr demo_ctx
          (demo_os (no_socket\<lparr>ans_WSAIoctl := demo_answer (- 1) 10045\<rparr>)))
   \<and> transferred (fst (snd (disconnect 5 False connect_ctx_ptr demo_ctx
          (demo_os (no_socket\<lparr>ans_WSAIoctl := demo_answer (- 1) 10045\<rparr>))))) = 0"
  by (simp add: disconnect_def DisconnectEx_def overlapped_call_def WSAIoctl_def log_call_def
      init_sock_def init_def demo_os_def demo_ctx_def no_socket_def no_answer_def
      demo_answer_def status_def transferred_def ERROR_IO_PENDING_def Let_def)

end
